theory Spec2Isabelle
  imports Main "HOL-Library.Word"
begin

unbundle bit_operations_syntax

section \<open>The KeyInfo processor of xmlsec (src/keyinfo.c)\<close>

text \<open>
  The development embeds the functions of \<^verbatim>\<open>src/keyinfo.c\<close> as HOL functions.
  A C function that returns a status and mutates the key, the context or a node
  through a pointer becomes a function that returns the status together with the
  new key, context or node. Pointers that the C code asserts to be non-NULL
  (\<^verbatim>\<open>key\<close>, \<^verbatim>\<open>node\<close>, \<^verbatim>\<open>keyInfoCtx\<close>) are
  values here, so those assertions always hold; the assertion on the context's mode is
  kept, since it reads the state. A handler is reached through its own descriptor
  only, so its first argument \<^verbatim>\<open>id\<close> (compared with the handler's own
  descriptor and used for error messages) is left out; where the code reads it (the
  test of the allow-list in KeyValue write) the handler's own descriptor stands for it.
  Error logging has no effect on the results and is not modelled.
\<close>

subsection \<open>XML trees\<close>

text \<open>
  A node is an element (local name, namespace href, attributes, children) or some other
  node (text, comment). A node pointer \<^verbatim>\<open>cur\<close> that walks a sibling chain is
  the list of the siblings from \<^verbatim>\<open>cur\<close> on: \<^verbatim>\<open>NULL\<close> is
  \<open>[]\<close> and \<^verbatim>\<open>cur->next\<close> is the tail.
\<close>

datatype xmlNode =
    XmlElement string "string option" "(string \<times> string) list" "xmlNode list"
  | XmlOther string

type_synonym xmlDoc = "xmlNode list"

text \<open>\<^verbatim>\<open>xmlSecGetNextElementNode\<close> (xmltree.c): the first element at or after
  \<^verbatim>\<open>cur\<close>.\<close>

fun xmlSecGetNextElementNode :: "xmlNode list \<Rightarrow> xmlNode list" where
  "xmlSecGetNextElementNode [] = []"
| "xmlSecGetNextElementNode (XmlElement n ns ps cs # nxt) = XmlElement n ns ps cs # nxt"
| "xmlSecGetNextElementNode (XmlOther t # nxt) = xmlSecGetNextElementNode nxt"

fun nodeChildren :: "xmlNode \<Rightarrow> xmlNode list" where
  "nodeChildren (XmlElement n ns ps cs) = cs"
| "nodeChildren (XmlOther t) = []"

text \<open>The node with its children replaced (a node that is no element has none), and
  \<^verbatim>\<open>xmlNodeSetContent(node, NULL)\<close> of libxml2, which removes the children.\<close>

fun setNodeChildren :: "xmlNode \<Rightarrow> xmlNode list \<Rightarrow> xmlNode" where
  "setNodeChildren (XmlElement n ns ps cs) cs' = XmlElement n ns ps cs'"
| "setNodeChildren (XmlOther t) cs' = XmlOther t"


text \<open>\<^verbatim>\<open>xmlGetProp\<close>: the value of an attribute, \<open>None\<close> for
  \<^verbatim>\<open>NULL\<close>.\<close>

fun xmlGetProp :: "xmlNode \<Rightarrow> string \<Rightarrow> string option" where
  "xmlGetProp (XmlElement n ns ps cs) a = map_of ps a"
| "xmlGetProp (XmlOther t) a = None"

fun xmlSecCheckNodeName :: "xmlNode \<Rightarrow> string \<Rightarrow> string \<Rightarrow> bool" where
  "xmlSecCheckNodeName (XmlElement n ns ps cs) name nsHref = (n = name \<and> ns = Some nsHref)"
| "xmlSecCheckNodeName (XmlOther t) name nsHref = False"

text \<open>\<^verbatim>\<open>cur->name\<close> and \<^verbatim>\<open>xmlSecGetNodeNsHref\<close>.\<close>

fun xmlNodeName :: "xmlNode \<Rightarrow> string option" where
  "xmlNodeName (XmlElement n ns ps cs) = Some n"
| "xmlNodeName (XmlOther t) = None"

fun xmlSecGetNodeNsHref :: "xmlNode \<Rightarrow> string option" where
  "xmlSecGetNodeNsHref (XmlElement n ns ps cs) = ns"
| "xmlSecGetNodeNsHref (XmlOther t) = None"

text \<open>\<^verbatim>\<open>xmlDocGetRootElement\<close>: the first element among the document's
  children.\<close>

definition xmlDocGetRootElement :: "xmlDoc \<Rightarrow> xmlNode option" where
  "xmlDocGetRootElement doc =
     (case xmlSecGetNextElementNode doc of [] \<Rightarrow> None | c # nxt \<Rightarrow> Some c)"

definition xmlSecNodeTransforms :: string where "xmlSecNodeTransforms = ''Transforms''"
definition xmlSecNodeKeyInfo :: string where "xmlSecNodeKeyInfo = ''KeyInfo''"
definition xmlSecAttrType :: string where "xmlSecAttrType = ''Type''"
definition xmlSecAttrURI :: string where "xmlSecAttrURI = ''URI''"
definition xmlSecDSigNs :: string where
  "xmlSecDSigNs = ''http://www.w3.org/2000/09/xmldsig#''"

subsection \<open>Key data descriptors and the registry lookups\<close>

text \<open>
  The usage bits of \<^verbatim>\<open>xmlsec/keysdata.h\<close> and the flag bits of
  \<^verbatim>\<open>xmlsec/keyinfo.h\<close>; the headers are not part of this file, each constant
  is one bit (or the union of two).
\<close>

type_synonym xmlSecKeyDataUsage = "32 word"

definition xmlSecKeyDataUsageKeyInfoNodeRead :: xmlSecKeyDataUsage where
  "xmlSecKeyDataUsageKeyInfoNodeRead = 0x00001"
definition xmlSecKeyDataUsageKeyInfoNodeWrite :: xmlSecKeyDataUsage where
  "xmlSecKeyDataUsageKeyInfoNodeWrite = 0x00002"
definition xmlSecKeyDataUsageKeyValueNodeRead :: xmlSecKeyDataUsage where
  "xmlSecKeyDataUsageKeyValueNodeRead = 0x00004"
definition xmlSecKeyDataUsageKeyValueNodeWrite :: xmlSecKeyDataUsage where
  "xmlSecKeyDataUsageKeyValueNodeWrite = 0x00008"
definition xmlSecKeyDataUsageRetrievalMethodNodeXml :: xmlSecKeyDataUsage where
  "xmlSecKeyDataUsageRetrievalMethodNodeXml = 0x00010"
definition xmlSecKeyDataUsageRetrievalMethodNodeBin :: xmlSecKeyDataUsage where
  "xmlSecKeyDataUsageRetrievalMethodNodeBin = 0x00020"
definition xmlSecKeyDataUsageRetrievalMethodNode :: xmlSecKeyDataUsage where
  "xmlSecKeyDataUsageRetrievalMethodNode =
     xmlSecKeyDataUsageRetrievalMethodNodeXml OR xmlSecKeyDataUsageRetrievalMethodNodeBin"

definition XMLSEC_KEYINFO_FLAGS_DONT_STOP_ON_KEY_FOUND :: "32 word" where
  "XMLSEC_KEYINFO_FLAGS_DONT_STOP_ON_KEY_FOUND = 0x00000001"
definition XMLSEC_KEYINFO_FLAGS_STOP_ON_UNKNOWN_CHILD :: "32 word" where
  "XMLSEC_KEYINFO_FLAGS_STOP_ON_UNKNOWN_CHILD = 0x00000002"
definition XMLSEC_KEYINFO_FLAGS_KEYVALUE_STOP_ON_UNKNOWN_CHILD :: "32 word" where
  "XMLSEC_KEYINFO_FLAGS_KEYVALUE_STOP_ON_UNKNOWN_CHILD = 0x00000008"
definition XMLSEC_KEYINFO_FLAGS_RETRMETHOD_STOP_ON_UNKNOWN_HREF :: "32 word" where
  "XMLSEC_KEYINFO_FLAGS_RETRMETHOD_STOP_ON_UNKNOWN_HREF = 0x00000010"
definition XMLSEC_KEYINFO_FLAGS_RETRMETHOD_STOP_ON_MISMATCH_HREF :: "32 word" where
  "XMLSEC_KEYINFO_FLAGS_RETRMETHOD_STOP_ON_MISMATCH_HREF = 0x00000020"
definition XMLSEC_KEYINFO_FLAGS_ENCKEY_DONT_STOP_ON_FAILED_DECRYPTION :: "32 word" where
  "XMLSEC_KEYINFO_FLAGS_ENCKEY_DONT_STOP_ON_FAILED_DECRYPTION = 0x00001000"

text \<open>The data part of \<^verbatim>\<open>xmlSecKeyDataKlass\<close>, as the static descriptors of the
  file fill it in. A \<^verbatim>\<open>xmlSecKeyDataId\<close> points to a descriptor;
  \<^verbatim>\<open>xmlSecKeyDataIdUnknown\<close> is \<^verbatim>\<open>NULL\<close>.\<close>

record xmlSecKeyDataKlass =
  klassName :: string
  usage :: xmlSecKeyDataUsage
  href :: "string option"
  dataNodeName :: "string option"
  dataNodeNs :: "string option"

type_synonym xmlSecKeyDataId = "xmlSecKeyDataKlass option"

abbreviation xmlSecKeyDataIdUnknown :: xmlSecKeyDataId where
  "xmlSecKeyDataIdUnknown \<equiv> None"

text \<open>
  Modelled from the spec: \<^verbatim>\<open>xmlSecKeyDataIdListFindByNode\<close> and
  \<^verbatim>\<open>xmlSecKeyDataIdListFindByHref\<close> live in keysdata.c. Section 4.2: a
  descriptor is selected only if its usage bits intersect the requested usage; names and
  namespaces are compared as exact strings; the first registered match wins; no match
  is Unknown.
\<close>

fun xmlSecKeyDataIdListFindByNode ::
  "xmlSecKeyDataKlass list \<Rightarrow> string option \<Rightarrow> string option \<Rightarrow> xmlSecKeyDataUsage
     \<Rightarrow> xmlSecKeyDataId" where
  "xmlSecKeyDataIdListFindByNode [] nodeName nodeNs usg = xmlSecKeyDataIdUnknown"
| "xmlSecKeyDataIdListFindByNode (d # ds) nodeName nodeNs usg =
     (if (usg AND usage d) \<noteq> 0 \<and> nodeName = dataNodeName d \<and> nodeNs = dataNodeNs d
      then Some d
      else xmlSecKeyDataIdListFindByNode ds nodeName nodeNs usg)"

fun xmlSecKeyDataIdListFindByHref ::
  "xmlSecKeyDataKlass list \<Rightarrow> string option \<Rightarrow> xmlSecKeyDataUsage \<Rightarrow> xmlSecKeyDataId" where
  "xmlSecKeyDataIdListFindByHref [] h usg = xmlSecKeyDataIdUnknown"
| "xmlSecKeyDataIdListFindByHref (d # ds) h usg =
     (if (usg AND usage d) \<noteq> 0 \<and> h = href d
      then Some d
      else xmlSecKeyDataIdListFindByHref ds h usg)"

definition xmlSecPtrListGetSize :: "'a list \<Rightarrow> nat" where
  "xmlSecPtrListGetSize l = length l"


subsection \<open>The static descriptors\<close>

text \<open>
  The data parts of three of the descriptors that the file declares
  (\<^verbatim>\<open>xmlSecKeyDataNameKlass\<close>, \<^verbatim>\<open>xmlSecKeyDataValueKlass\<close>,
  \<^verbatim>\<open>xmlSecKeyDataRetrievalMethodKlass\<close>); the strings are those of strings.c.
\<close>

definition xmlSecKeyDataUsageKeyInfoNode :: xmlSecKeyDataUsage where
  "xmlSecKeyDataUsageKeyInfoNode =
     xmlSecKeyDataUsageKeyInfoNodeRead OR xmlSecKeyDataUsageKeyInfoNodeWrite"

definition xmlSecKeyDataNameKlass :: xmlSecKeyDataKlass where
  "xmlSecKeyDataNameKlass =
     \<lparr>klassName = ''key-name'',
      usage = xmlSecKeyDataUsageKeyInfoNode OR xmlSecKeyDataUsageRetrievalMethodNodeXml,
      href = None, dataNodeName = Some ''KeyName'', dataNodeNs = Some xmlSecDSigNs\<rparr>"

definition xmlSecKeyDataValueKlass :: xmlSecKeyDataKlass where
  "xmlSecKeyDataValueKlass =
     \<lparr>klassName = ''key-value'',
      usage = xmlSecKeyDataUsageKeyInfoNode OR xmlSecKeyDataUsageRetrievalMethodNodeXml,
      href = None, dataNodeName = Some ''KeyValue'', dataNodeNs = Some xmlSecDSigNs\<rparr>"

definition xmlSecKeyDataRetrievalMethodKlass :: xmlSecKeyDataKlass where
  "xmlSecKeyDataRetrievalMethodKlass =
     \<lparr>klassName = ''retrieval-method'',
      usage = xmlSecKeyDataUsageKeyInfoNode OR xmlSecKeyDataUsageRetrievalMethodNodeXml,
      href = None, dataNodeName = Some ''RetrievalMethod'', dataNodeNs = Some xmlSecDSigNs\<rparr>"

subsection \<open>Keys, requirements and contexts\<close>

type_synonym xmlSecByte = "8 word"

record xmlSecKeyData =
  valueId :: xmlSecKeyDataKlass
  dataOctets :: "xmlSecByte list"

text \<open>
  Modelled from the spec: the key structure and its accessors live in keys.c.
  Section 3: a key holds at most one value and an optional name, and exposes
  get/set-name and get-value. Setting the name cannot fail here (in C it fails when
  the copy of the string cannot be allocated).
\<close>

record xmlSecKey =
  keyName :: "string option"
  keyValue :: "xmlSecKeyData option"

definition xmlSecKeyGetName :: "xmlSecKey \<Rightarrow> string option" where
  "xmlSecKeyGetName key = keyName key"

definition xmlSecKeyGetValue :: "xmlSecKey \<Rightarrow> xmlSecKeyData option" where
  "xmlSecKeyGetValue key = keyValue key"



definition xmlSecKeySetName :: "xmlSecKey \<Rightarrow> string \<Rightarrow> int \<times> xmlSecKey" where
  "xmlSecKeySetName key name = (0, key\<lparr>keyName := Some name\<rparr>)"

record xmlSecKeyReq =
  keyId :: xmlSecKeyDataId
  keyType :: "32 word"
  keyUsage :: "32 word"
  keyBitsSize :: nat

datatype xmlSecKeyInfoMode = xmlSecKeyInfoModeRead | xmlSecKeyInfoModeWrite

datatype xmlSecTransformOperation =
    xmlSecTransformOperationNone
  | xmlSecTransformOperationEncode
  | xmlSecTransformOperationDecode
  | xmlSecTransformOperationSign
  | xmlSecTransformOperationVerify
  | xmlSecTransformOperationEncrypt
  | xmlSecTransformOperationDecrypt

datatype xmlEncCtxMode = xmlEncCtxModeEncryptedData | xmlEncCtxModeEncryptedKey

text \<open>
  A transform context, as far as this file reads it: the part that holds the user's
  preferences (opaque, \<open>'p\<close>), the part the engine works on (opaque, \<open>'t\<close>),
  and the result buffer (\<^verbatim>\<open>NULL\<close> is \<open>None\<close>).
\<close>

record ('p, 't) xmlSecTransformCtx =
  transformPrefs :: 'p
  transformState :: 't
  result :: "xmlSecByte list option"

text \<open>Modelled from the spec: \<^verbatim>\<open>xmlSecBufferGetData\<close> (buffer.c); an empty
  buffer has no data (section 4.6, step 6).\<close>

definition xmlSecBufferGetData :: "xmlSecByte list \<Rightarrow> xmlSecByte list option" where
  "xmlSecBufferGetData buf = (if buf = [] then None else Some buf)"

definition xmlSecBufferGetSize :: "xmlSecByte list \<Rightarrow> nat" where
  "xmlSecBufferGetSize buf = length buf"

text \<open>
  \<^verbatim>\<open>xmlSecKeyInfoCtx\<close>, with the fields this file reads and writes. The
  encryption context \<^verbatim>\<open>encCtx\<close> is a pointer to a structure of xmlenc.h;
  its type is the parameter \<open>'e\<close>. The keys manager and the user data are opaque
  handles.
\<close>

record ('e, 'p, 't) xmlSecKeyInfoCtx =
  userData :: nat
  flags :: "32 word"
  flags2 :: "32 word"
  keysMngr :: "nat option"
  mode :: xmlSecKeyInfoMode
  enabledKeyData :: "xmlSecKeyDataKlass list"
  base64LineSize :: int
  retrievalMethodCtx :: "('p, 't) xmlSecTransformCtx"
  maxRetrievalMethodLevel :: int
  keyInfoReferenceCtx :: "('p, 't) xmlSecTransformCtx"
  maxKeyInfoReferenceLevel :: int
  encCtx :: "'e option"
  maxEncryptedKeyLevel :: int
  certsVerificationTime :: int
  certsVerificationDepth :: int
  curRetrievalMethodLevel :: int
  curKeyInfoReferenceLevel :: int
  curEncryptedKeyLevel :: int
  operation :: xmlSecTransformOperation
  keyReq :: xmlSecKeyReq


type_synonym ('e, 'p, 't) ctx = "('e, 'p, 't) xmlSecKeyInfoCtx"

text \<open>
  Modelled from the spec: \<^verbatim>\<open>xmlSecPtrListCopy\<close> (list.c) on the list of enabled
  key data; section 4.1 calls it a deep copy. Lists are values here, so the copy is the
  source list, and it cannot fail (in C it fails when memory runs out).
\<close>

definition xmlSecPtrListCopy :: "'a list \<Rightarrow> 'a list \<Rightarrow> int \<times> 'a list" where
  "xmlSecPtrListCopy dst src = (0, src)"

subsection \<open>The external collaborators\<close>

text \<open>
  The functions that this file calls and that are defined elsewhere in the library (key
  data dispatch, keys and keys manager, XML helpers, transform engine, encryption engine)
  are the fields of an environment; every function below takes the environment first,
  and every theorem holds for all environments unless it says otherwise. A function that
  works through a pointer returns the new value beside its status.

  The encryption context is opaque. \<open>encCtxSetMode\<close>, \<open>keyInfoReadCtx\<close>,
  \<open>keyInfoWriteCtx\<close> and their setters stand for the accesses to its fields
  \<^verbatim>\<open>mode\<close>, \<^verbatim>\<open>keyInfoReadCtx\<close> and \<^verbatim>\<open>keyInfoWriteCtx\<close>.
  \<^verbatim>\<open>xmlSecEncCtxDerivedKeyGenerate\<close> and
  \<^verbatim>\<open>xmlSecEncCtxAgreementMethodGenerate\<close> receive the encryption context and the
  KeyInfo context that owns it; they return the generated key and the new KeyInfo
  context (which holds the new encryption context).

  \<^verbatim>\<open>xmlSecAddChild\<close> (xmltree.c) adds an element with the given name and
  namespace to a parent; it returns the children of the parent after the call, as the
  siblings before the new child, the new child and the siblings after it, or
  \<open>None\<close> for \<^verbatim>\<open>NULL\<close>.
\<close>

record ('e, 'p, 't) xmlsec_env =
  xmlSecKeyDataIdsGet :: "xmlSecKeyDataKlass list"
  xmlSecKeyDataXmlRead ::
    "xmlSecKeyDataKlass \<Rightarrow> xmlSecKey \<Rightarrow> xmlNode \<Rightarrow> ('e, 'p, 't) ctx
       \<Rightarrow> int \<times> xmlSecKey \<times> ('e, 'p, 't) ctx"
  xmlSecKeyDataXmlWrite ::
    "xmlSecKeyDataKlass \<Rightarrow> xmlSecKey \<Rightarrow> xmlNode \<Rightarrow> ('e, 'p, 't) ctx
       \<Rightarrow> int \<times> xmlNode \<times> ('e, 'p, 't) ctx"
  xmlSecKeyDataBinRead ::
    "xmlSecKeyDataId \<Rightarrow> xmlSecKey \<Rightarrow> xmlSecByte list \<Rightarrow> nat \<Rightarrow> ('e, 'p, 't) ctx
       \<Rightarrow> int \<times> xmlSecKey \<times> ('e, 'p, 't) ctx"
  xmlSecKeyIsValid :: "xmlSecKey \<Rightarrow> int"
  xmlSecKeyMatch :: "xmlSecKey \<Rightarrow> string option \<Rightarrow> xmlSecKeyReq \<Rightarrow> int"
  xmlSecKeyReqMatchKey :: "xmlSecKeyReq \<Rightarrow> xmlSecKey \<Rightarrow> int"
  xmlSecKeysMngrFindKey :: "nat \<Rightarrow> string \<Rightarrow> ('e, 'p, 't) ctx \<Rightarrow> xmlSecKey option"
  xmlSecKeyEmpty :: "xmlSecKey \<Rightarrow> xmlSecKey"
  xmlSecKeyCopy :: "xmlSecKey \<Rightarrow> xmlSecKey \<Rightarrow> int \<times> xmlSecKey"
  xmlSecGetNodeContentAndTrim :: "xmlNode \<Rightarrow> string option"
  xmlSecIsEmptyNode :: "xmlNode \<Rightarrow> int"
  xmlSecNodeEncodeAndSetContent :: "xmlNode \<Rightarrow> string \<Rightarrow> int \<times> xmlNode"
  nodeDoc :: "xmlNode \<Rightarrow> xmlDoc option"
  xmlRecoverMemory :: "xmlSecByte list \<Rightarrow> int \<Rightarrow> xmlDoc option"
  xmlSecTransformCtxReset :: "('p, 't) xmlSecTransformCtx \<Rightarrow> ('p, 't) xmlSecTransformCtx"
  xmlSecTransformCtxSetUri ::
    "('p, 't) xmlSecTransformCtx \<Rightarrow> string option \<Rightarrow> xmlNode
       \<Rightarrow> int \<times> ('p, 't) xmlSecTransformCtx"
  xmlSecTransformCtxNodesListRead ::
    "('p, 't) xmlSecTransformCtx \<Rightarrow> xmlNode \<Rightarrow> int \<times> ('p, 't) xmlSecTransformCtx"
  xmlSecTransformCtxExecute ::
    "('p, 't) xmlSecTransformCtx \<Rightarrow> xmlDoc \<Rightarrow> int \<times> ('p, 't) xmlSecTransformCtx"
  xmlSecTransformCtxCopyUserPref :: "'p \<Rightarrow> 'p \<Rightarrow> int \<times> 'p"
  xmlSecEncCtxCreate :: "nat option \<Rightarrow> 'e option"
  xmlSecEncCtxReset :: "'e \<Rightarrow> 'e"
  xmlSecEncCtxCopyUserPref :: "'e \<Rightarrow> 'e \<Rightarrow> int \<times> 'e"
  encCtxSetMode :: "'e \<Rightarrow> xmlEncCtxMode \<Rightarrow> 'e"
  keyInfoReadCtx :: "'e \<Rightarrow> ('e, 'p, 't) ctx"
  keyInfoWriteCtx :: "'e \<Rightarrow> ('e, 'p, 't) ctx"
  setKeyInfoReadCtx :: "'e \<Rightarrow> ('e, 'p, 't) ctx \<Rightarrow> 'e"
  setKeyInfoWriteCtx :: "'e \<Rightarrow> ('e, 'p, 't) ctx \<Rightarrow> 'e"
  xmlSecEncCtxDecryptToBuffer :: "'e \<Rightarrow> xmlNode \<Rightarrow> xmlSecByte list option \<times> 'e"
  xmlSecEncCtxDerivedKeyGenerate ::
    "'e \<Rightarrow> xmlSecKeyDataId \<Rightarrow> xmlNode \<Rightarrow> ('e, 'p, 't) ctx
       \<Rightarrow> xmlSecKey option \<times> ('e, 'p, 't) ctx"
  xmlSecEncCtxAgreementMethodGenerate ::
    "'e \<Rightarrow> xmlSecKeyDataId \<Rightarrow> xmlNode \<Rightarrow> ('e, 'p, 't) ctx
       \<Rightarrow> xmlSecKey option \<times> ('e, 'p, 't) ctx"
  xmlSecAddChild ::
    "xmlNode \<Rightarrow> string \<Rightarrow> string option
       \<Rightarrow> (xmlNode list \<times> xmlNode \<times> xmlNode list) option"

subsection \<open>The KeyInfo driver\<close>

text \<open>
  \<^verbatim>\<open>xmlSecKeyInfoNodeRead\<close>. The loop runs on the sibling chain; stepping with
  \<^verbatim>\<open>xmlSecGetNextElementNode\<close> is the second equation (a node that is no element
  is passed over). The third equation is one test of the loop condition at an element
  \<^verbatim>\<open>cur\<close> and, when it holds, one run of the body.
\<close>

fun xmlSecKeyInfoNodeRead_loop ::
  "('e, 'p, 't) xmlsec_env \<Rightarrow> xmlNode list \<Rightarrow> xmlSecKey \<Rightarrow> ('e, 'p, 't) ctx
     \<Rightarrow> int \<times> xmlSecKey \<times> ('e, 'p, 't) ctx" where
  "xmlSecKeyInfoNodeRead_loop env [] key keyInfoCtx = (0, key, keyInfoCtx)"
| "xmlSecKeyInfoNodeRead_loop env (XmlOther t # nxt) key keyInfoCtx =
     xmlSecKeyInfoNodeRead_loop env nxt key keyInfoCtx"
| "xmlSecKeyInfoNodeRead_loop env (XmlElement nodeName nodeNs ps cs # nxt) key keyInfoCtx =
     (if (flags keyInfoCtx AND XMLSEC_KEYINFO_FLAGS_DONT_STOP_ON_KEY_FOUND) \<noteq> 0
         \<or> xmlSecKeyIsValid env key = 0
         \<or> xmlSecKeyMatch env key None (keyReq keyInfoCtx) = 0
      then
        (case (if xmlSecPtrListGetSize (enabledKeyData keyInfoCtx) > 0
               then xmlSecKeyDataIdListFindByNode (enabledKeyData keyInfoCtx)
                      (Some nodeName) nodeNs xmlSecKeyDataUsageKeyInfoNodeRead
               else xmlSecKeyDataIdListFindByNode (xmlSecKeyDataIdsGet env)
                      (Some nodeName) nodeNs xmlSecKeyDataUsageKeyInfoNodeRead) of
           Some dataId \<Rightarrow>
             (case xmlSecKeyDataXmlRead env dataId key (XmlElement nodeName nodeNs ps cs)
                     keyInfoCtx of
                (ret, key', keyInfoCtx') \<Rightarrow>
                  if ret < 0 then (-1, key', keyInfoCtx')
                  else xmlSecKeyInfoNodeRead_loop env nxt key' keyInfoCtx')
         | None \<Rightarrow>
             if (flags keyInfoCtx AND XMLSEC_KEYINFO_FLAGS_STOP_ON_UNKNOWN_CHILD) \<noteq> 0
             then (-1, key, keyInfoCtx)
             else xmlSecKeyInfoNodeRead_loop env nxt key keyInfoCtx)
      else (0, key, keyInfoCtx))"

definition xmlSecKeyInfoNodeRead ::
  "('e, 'p, 't) xmlsec_env \<Rightarrow> xmlNode \<Rightarrow> xmlSecKey \<Rightarrow> ('e, 'p, 't) ctx
     \<Rightarrow> int \<times> xmlSecKey \<times> ('e, 'p, 't) ctx" where
  "xmlSecKeyInfoNodeRead env keyInfoNode key keyInfoCtx =
     (if mode keyInfoCtx \<noteq> xmlSecKeyInfoModeRead then (-1, key, keyInfoCtx)
      else xmlSecKeyInfoNodeRead_loop env
             (xmlSecGetNextElementNode (nodeChildren keyInfoNode)) key keyInfoCtx)"




subsection \<open>The context\<close>

text \<open>
  \<^verbatim>\<open>xmlSecKeyInfoCtxCopyUserPref\<close>, built with XML encryption and X509 support
  (neither \<^verbatim>\<open>XMLSEC_NO_XMLENC\<close> nor \<^verbatim>\<open>XMLSEC_NO_X509\<close>). The
  transform engine's preference copy works on the preference part of a transform
  context.
\<close>

definition xmlSecKeyInfoCtxCopyUserPref ::
  "('e, 'p, 't) xmlsec_env \<Rightarrow> ('e, 'p, 't) ctx \<Rightarrow> ('e, 'p, 't) ctx
     \<Rightarrow> int \<times> ('e, 'p, 't) ctx" where
  "xmlSecKeyInfoCtxCopyUserPref env dst src =
     (let dst1 = dst\<lparr>userData := userData src, flags := flags src, flags2 := flags2 src,
                     keysMngr := keysMngr src, base64LineSize := base64LineSize src\<rparr>
      in case xmlSecPtrListCopy (enabledKeyData dst1) (enabledKeyData src) of
        (ret, l) \<Rightarrow>
          let dst2 = dst1\<lparr>enabledKeyData := l\<rparr> in
          if ret < 0 then (-1, dst2)
          else
            let dst3 = dst2\<lparr>maxRetrievalMethodLevel := maxRetrievalMethodLevel src\<rparr> in
            case xmlSecTransformCtxCopyUserPref env (transformPrefs (retrievalMethodCtx dst3))
                   (transformPrefs (retrievalMethodCtx src)) of
              (ret, p) \<Rightarrow>
                let dst4 = dst3\<lparr>retrievalMethodCtx :=
                                  (retrievalMethodCtx dst3)\<lparr>transformPrefs := p\<rparr>\<rparr> in
                if ret < 0 then (-1, dst4)
                else
                  let dst5 = dst4\<lparr>maxKeyInfoReferenceLevel := maxKeyInfoReferenceLevel src\<rparr> in
                  case xmlSecTransformCtxCopyUserPref env
                         (transformPrefs (keyInfoReferenceCtx dst5))
                         (transformPrefs (keyInfoReferenceCtx src)) of
                    (ret, q) \<Rightarrow>
                      let dst6 = dst5\<lparr>keyInfoReferenceCtx :=
                                        (keyInfoReferenceCtx dst5)\<lparr>transformPrefs := q\<rparr>\<rparr> in
                      if ret < 0 then (-1, dst6)
                      else
                        case (case (encCtx src, encCtx dst6) of
                                (Some es, Some ed) \<Rightarrow>
                                  (case xmlSecEncCtxCopyUserPref env
                                          (encCtxSetMode env ed xmlEncCtxModeEncryptedKey) es of
                                     (ret, ed') \<Rightarrow> (ret, dst6\<lparr>encCtx := Some ed'\<rparr>))
                              | _ \<Rightarrow> (0, dst6)) of
                          (ret, dst7) \<Rightarrow>
                            if ret < 0 then (-1, dst7)
                            else (0, dst7\<lparr>maxEncryptedKeyLevel := maxEncryptedKeyLevel src,
                                           certsVerificationTime := certsVerificationTime src,
                                           certsVerificationDepth := certsVerificationDepth src\<rparr>))"

text \<open>\<^verbatim>\<open>xmlSecKeyInfoCtxCreateEncCtx\<close>. On an error the temporary encryption
  context is destroyed and the KeyInfo context is as before.\<close>

definition xmlSecKeyInfoCtxCreateEncCtx ::
  "('e, 'p, 't) xmlsec_env \<Rightarrow> ('e, 'p, 't) ctx \<Rightarrow> int \<times> ('e, 'p, 't) ctx" where
  "xmlSecKeyInfoCtxCreateEncCtx env keyInfoCtx =
     (if encCtx keyInfoCtx \<noteq> None then (-1, keyInfoCtx)
      else case xmlSecEncCtxCreate env (keysMngr keyInfoCtx) of
        None \<Rightarrow> (-1, keyInfoCtx)
      | Some tmp0 \<Rightarrow>
          let tmp = encCtxSetMode env tmp0 xmlEncCtxModeEncryptedKey in
          case (case mode keyInfoCtx of
                  xmlSecKeyInfoModeRead \<Rightarrow>
                    (case xmlSecKeyInfoCtxCopyUserPref env (keyInfoReadCtx env tmp) keyInfoCtx of
                       (ret, c) \<Rightarrow> (ret, setKeyInfoReadCtx env tmp c))
                | xmlSecKeyInfoModeWrite \<Rightarrow>
                    (case xmlSecKeyInfoCtxCopyUserPref env (keyInfoWriteCtx env tmp) keyInfoCtx of
                       (ret, c) \<Rightarrow> (ret, setKeyInfoWriteCtx env tmp c))) of
            (ret, tmp1) \<Rightarrow>
              if ret < 0 then (-1, keyInfoCtx)
              else
                let tmp2 = setKeyInfoReadCtx env tmp1
                             ((keyInfoReadCtx env tmp1)\<lparr>operation := operation keyInfoCtx\<rparr>);
                    tmp3 = setKeyInfoWriteCtx env tmp2
                             ((keyInfoWriteCtx env tmp2)\<lparr>operation := operation keyInfoCtx\<rparr>)
                in (0, keyInfoCtx\<lparr>encCtx := Some tmp3\<rparr>))"

subsection \<open>KeyName\<close>

definition xmlSecKeyDataNameXmlRead ::
  "('e, 'p, 't) xmlsec_env \<Rightarrow> xmlSecKey \<Rightarrow> xmlNode \<Rightarrow> ('e, 'p, 't) ctx
     \<Rightarrow> int \<times> xmlSecKey \<times> ('e, 'p, 't) ctx" where
  "xmlSecKeyDataNameXmlRead env key node keyInfoCtx =
     (if mode keyInfoCtx \<noteq> xmlSecKeyInfoModeRead then (-1, key, keyInfoCtx)
      else case xmlSecGetNodeContentAndTrim env node of
        None \<Rightarrow> (-1, key, keyInfoCtx)
      | Some newName \<Rightarrow>
          (case (xmlSecKeyGetValue key, keysMngr keyInfoCtx) of
             (None, Some mngr) \<Rightarrow>
               (case xmlSecKeysMngrFindKey env mngr newName keyInfoCtx of
                  Some tmpKey \<Rightarrow>
                    (case xmlSecKeyCopy env (xmlSecKeyEmpty env key) tmpKey of
                       (ret, key1) \<Rightarrow>
                         if ret < 0 then (-1, key1, keyInfoCtx)
                         else (case xmlSecKeySetName key1 newName of
                                 (ret, key2) \<Rightarrow>
                                   if ret < 0 then (-1, key2, keyInfoCtx)
                                   else (0, key2, keyInfoCtx)))
                | None \<Rightarrow> (0, key, keyInfoCtx))
           | _ \<Rightarrow>
               (case xmlSecKeyGetName key of
                  Some oldName \<Rightarrow>
                    if oldName \<noteq> newName then (-1, key, keyInfoCtx)
                    else (0, key, keyInfoCtx)
                | None \<Rightarrow>
                    (case xmlSecKeySetName key newName of
                       (ret, key') \<Rightarrow>
                         if ret < 0 then (-1, key', keyInfoCtx)
                         else (0, key', keyInfoCtx)))))"


subsection \<open>KeyValue\<close>

definition xmlSecKeyDataValueXmlRead ::
  "('e, 'p, 't) xmlsec_env \<Rightarrow> xmlSecKey \<Rightarrow> xmlNode \<Rightarrow> ('e, 'p, 't) ctx
     \<Rightarrow> int \<times> xmlSecKey \<times> ('e, 'p, 't) ctx" where
  "xmlSecKeyDataValueXmlRead env key node keyInfoCtx =
     (if mode keyInfoCtx \<noteq> xmlSecKeyInfoModeRead then (-1, key, keyInfoCtx)
      else case xmlSecGetNextElementNode (nodeChildren node) of
        [] \<Rightarrow> (0, key, keyInfoCtx)
      | cur # nxt \<Rightarrow>
          (case (case (if xmlSecPtrListGetSize (enabledKeyData keyInfoCtx) > 0
                       then xmlSecKeyDataIdListFindByNode (enabledKeyData keyInfoCtx)
                              (xmlNodeName cur) (xmlSecGetNodeNsHref cur)
                              xmlSecKeyDataUsageKeyValueNodeRead
                       else xmlSecKeyDataIdListFindByNode (xmlSecKeyDataIdsGet env)
                              (xmlNodeName cur) (xmlSecGetNodeNsHref cur)
                              xmlSecKeyDataUsageKeyValueNodeRead) of
                   Some dataId \<Rightarrow>
                     (case xmlSecKeyDataXmlRead env dataId key cur keyInfoCtx of
                        (ret, key', keyInfoCtx') \<Rightarrow>
                          if ret < 0 then (-1 :: int, key', keyInfoCtx')
                          else (0, key', keyInfoCtx'))
                 | None \<Rightarrow>
                     if (flags keyInfoCtx AND
                           XMLSEC_KEYINFO_FLAGS_KEYVALUE_STOP_ON_UNKNOWN_CHILD) \<noteq> 0
                     then (-1, key, keyInfoCtx)
                     else (0, key, keyInfoCtx)) of
             (ret, key', keyInfoCtx') \<Rightarrow>
               if ret < 0 then (-1, key', keyInfoCtx')
               else if xmlSecGetNextElementNode nxt \<noteq> [] then (-1, key', keyInfoCtx')
               else (0, key', keyInfoCtx')))"


subsection \<open>RetrievalMethod\<close>

definition INT_MAX :: nat where
  "INT_MAX = 2147483647"

text \<open>
  \<^verbatim>\<open>xmlSecKeyDataRetrievalMethodReadXmlResult\<close>. The buffer is the data of a
  result buffer, \<^verbatim>\<open>bufferSize\<close> its size.
\<close>

definition xmlSecKeyDataRetrievalMethodReadXmlResult ::
  "('e, 'p, 't) xmlsec_env \<Rightarrow> xmlSecKeyDataId \<Rightarrow> xmlSecKey \<Rightarrow> xmlSecByte list \<Rightarrow> nat
     \<Rightarrow> ('e, 'p, 't) ctx \<Rightarrow> int \<times> xmlSecKey \<times> ('e, 'p, 't) ctx" where
  "xmlSecKeyDataRetrievalMethodReadXmlResult env typeId key buffer bufferSize keyInfoCtx =
     (if \<not> bufferSize > 0 then (-1, key, keyInfoCtx)
      else if mode keyInfoCtx \<noteq> xmlSecKeyInfoModeRead then (-1, key, keyInfoCtx)
      else if bufferSize > INT_MAX then (-1, key, keyInfoCtx)
      else case xmlRecoverMemory env buffer (int bufferSize) of
        None \<Rightarrow> (-1, key, keyInfoCtx)
      | Some doc \<Rightarrow>
          (case xmlDocGetRootElement doc of
             None \<Rightarrow> (-1, key, keyInfoCtx)
           | Some cur \<Rightarrow>
               (case (if xmlSecPtrListGetSize (enabledKeyData keyInfoCtx) > 0
                      then xmlSecKeyDataIdListFindByNode (enabledKeyData keyInfoCtx)
                             (xmlNodeName cur) (xmlSecGetNodeNsHref cur)
                             xmlSecKeyDataUsageRetrievalMethodNodeXml
                      else xmlSecKeyDataIdListFindByNode (xmlSecKeyDataIdsGet env)
                             (xmlNodeName cur) (xmlSecGetNodeNsHref cur)
                             xmlSecKeyDataUsageRetrievalMethodNodeXml) of
                  None \<Rightarrow>
                    if (flags keyInfoCtx AND
                          XMLSEC_KEYINFO_FLAGS_KEYVALUE_STOP_ON_UNKNOWN_CHILD) \<noteq> 0
                    then (-1, key, keyInfoCtx)
                    else (0, key, keyInfoCtx)
                | Some dataId \<Rightarrow>
                    if typeId \<noteq> xmlSecKeyDataIdUnknown \<and> typeId \<noteq> Some dataId
                       \<and> (flags keyInfoCtx AND
                            XMLSEC_KEYINFO_FLAGS_RETRMETHOD_STOP_ON_MISMATCH_HREF) \<noteq> 0
                    then (-1, key, keyInfoCtx)
                    else (case xmlSecKeyDataXmlRead env dataId key cur keyInfoCtx of
                            (ret, key', keyInfoCtx') \<Rightarrow>
                              if ret < 0 then (-1, key', keyInfoCtx')
                              else (0, key', keyInfoCtx')))))"

text \<open>
  \<^verbatim>\<open>xmlSecKeyDataRetrievalMethodXmlRead\<close>. Every \<^verbatim>\<open>goto done\<close> is a
  return of \<^verbatim>\<open>res\<close>, which is \<open>-1\<close> until it is set to \<open>0\<close>. The part
  after the type has been resolved is a definition of its own, for readability.
\<close>

definition xmlSecKeyDataRetrievalMethodXmlRead_fetch ::
  "('e, 'p, 't) xmlsec_env \<Rightarrow> xmlSecKeyDataId \<Rightarrow> xmlDoc \<Rightarrow> xmlSecKey \<Rightarrow> xmlNode
     \<Rightarrow> ('e, 'p, 't) ctx \<Rightarrow> int \<times> xmlSecKey \<times> ('e, 'p, 't) ctx" where
  "xmlSecKeyDataRetrievalMethodXmlRead_fetch env dataId doc key node keyInfoCtx =
     (let tc1 = xmlSecTransformCtxReset env (retrievalMethodCtx keyInfoCtx);
          uri = xmlGetProp node xmlSecAttrURI
      in case xmlSecTransformCtxSetUri env tc1 uri node of
        (ret, tc2) \<Rightarrow>
          if ret < 0 then (-1, key, keyInfoCtx\<lparr>retrievalMethodCtx := tc2\<rparr>)
          else
            (case (case xmlSecGetNextElementNode (nodeChildren node) of
                     c # nxt \<Rightarrow>
                       if xmlSecCheckNodeName c xmlSecNodeTransforms xmlSecDSigNs
                       then (case xmlSecTransformCtxNodesListRead env tc2 c of
                               (ret, tc3) \<Rightarrow> (ret, tc3, xmlSecGetNextElementNode nxt))
                       else (0, tc2, c # nxt)
                   | [] \<Rightarrow> (0, tc2, [])) of
               (ret, tc3, cur) \<Rightarrow>
                 if ret < 0 then (-1, key, keyInfoCtx\<lparr>retrievalMethodCtx := tc3\<rparr>)
                 else if cur \<noteq> [] then (-1, key, keyInfoCtx\<lparr>retrievalMethodCtx := tc3\<rparr>)
                 else
                   (case xmlSecTransformCtxExecute env tc3 doc of
                      (ret, tc4) \<Rightarrow>
                        let keyInfoCtx4 = keyInfoCtx\<lparr>retrievalMethodCtx := tc4\<rparr> in
                        (case (if ret < 0 then None
                               else case result tc4 of
                                      None \<Rightarrow> None
                                    | Some buf \<Rightarrow> xmlSecBufferGetData buf) of
                           None \<Rightarrow> (-1, key, keyInfoCtx4)
                         | Some data \<Rightarrow>
                             (case (if dataId = xmlSecKeyDataIdUnknown
                                       \<or> (case dataId of
                                             Some d \<Rightarrow>
                                               (usage d AND
                                                  xmlSecKeyDataUsageRetrievalMethodNodeXml) \<noteq> 0
                                           | None \<Rightarrow> False)
                                    then xmlSecKeyDataRetrievalMethodReadXmlResult env dataId key
                                           data (xmlSecBufferGetSize data) keyInfoCtx4
                                    else xmlSecKeyDataBinRead env dataId key
                                           data (xmlSecBufferGetSize data) keyInfoCtx4) of
                                (ret, key', keyInfoCtx5) \<Rightarrow>
                                  if ret < 0 then (-1, key', keyInfoCtx5)
                                  else (0, key', keyInfoCtx5\<lparr>curRetrievalMethodLevel :=
                                          curRetrievalMethodLevel keyInfoCtx5 - 1\<rparr>))))))"

definition xmlSecKeyDataRetrievalMethodXmlRead ::
  "('e, 'p, 't) xmlsec_env \<Rightarrow> xmlSecKey \<Rightarrow> xmlNode \<Rightarrow> ('e, 'p, 't) ctx
     \<Rightarrow> int \<times> xmlSecKey \<times> ('e, 'p, 't) ctx" where
  "xmlSecKeyDataRetrievalMethodXmlRead env key node keyInfoCtx =
     (case nodeDoc env node of
        None \<Rightarrow> (-1, key, keyInfoCtx)
      | Some doc \<Rightarrow>
          if mode keyInfoCtx \<noteq> xmlSecKeyInfoModeRead then (-1, key, keyInfoCtx)
          else if curRetrievalMethodLevel keyInfoCtx \<ge> maxRetrievalMethodLevel keyInfoCtx
          then (-1, key, keyInfoCtx)
          else
            let keyInfoCtx1 = keyInfoCtx\<lparr>curRetrievalMethodLevel :=
                                curRetrievalMethodLevel keyInfoCtx + 1\<rparr>;
                retrType = xmlGetProp node xmlSecAttrType;
                dataId =
                  (case retrType of
                     None \<Rightarrow> xmlSecKeyDataIdUnknown
                   | Some t \<Rightarrow>
                       if xmlSecPtrListGetSize (enabledKeyData keyInfoCtx1) > 0
                       then xmlSecKeyDataIdListFindByHref (enabledKeyData keyInfoCtx1)
                              (Some t) xmlSecKeyDataUsageRetrievalMethodNode
                       else xmlSecKeyDataIdListFindByHref (xmlSecKeyDataIdsGet env)
                              (Some t) xmlSecKeyDataUsageRetrievalMethodNode)
            in if dataId = xmlSecKeyDataIdUnknown
               then (if (flags keyInfoCtx1 AND
                           XMLSEC_KEYINFO_FLAGS_RETRMETHOD_STOP_ON_UNKNOWN_HREF) \<noteq> 0
                     then (-1, key, keyInfoCtx1)
                     else (0, key, keyInfoCtx1))
               else xmlSecKeyDataRetrievalMethodXmlRead_fetch env dataId doc key node
                      keyInfoCtx1)"


subsection \<open>KeyInfoReference\<close>

definition xmlSecKeyDataKeyInfoReferenceReadXmlResult ::
  "('e, 'p, 't) xmlsec_env \<Rightarrow> xmlSecKeyDataId \<Rightarrow> xmlSecKey \<Rightarrow> xmlSecByte list \<Rightarrow> nat
     \<Rightarrow> ('e, 'p, 't) ctx \<Rightarrow> int \<times> xmlSecKey \<times> ('e, 'p, 't) ctx" where
  "xmlSecKeyDataKeyInfoReferenceReadXmlResult env typeId key buffer bufferSize keyInfoCtx =
     (if \<not> bufferSize > 0 then (-1, key, keyInfoCtx)
      else if mode keyInfoCtx \<noteq> xmlSecKeyInfoModeRead then (-1, key, keyInfoCtx)
      else if bufferSize > INT_MAX then (-1, key, keyInfoCtx)
      else case xmlRecoverMemory env buffer (int bufferSize) of
        None \<Rightarrow> (-1, key, keyInfoCtx)
      | Some doc \<Rightarrow>
          (case xmlDocGetRootElement doc of
             None \<Rightarrow> (-1, key, keyInfoCtx)
           | Some cur \<Rightarrow>
               if \<not> xmlSecCheckNodeName cur xmlSecNodeKeyInfo xmlSecDSigNs
               then (-1, key, keyInfoCtx)
               else (case xmlSecKeyInfoNodeRead env cur key keyInfoCtx of
                       (ret, key', keyInfoCtx') \<Rightarrow>
                         if ret < 0 then (-1, key', keyInfoCtx')
                         else (0, key', keyInfoCtx'))))"

definition xmlSecKeyDataKeyInfoReferenceXmlRead ::
  "('e, 'p, 't) xmlsec_env \<Rightarrow> xmlSecKey \<Rightarrow> xmlNode \<Rightarrow> ('e, 'p, 't) ctx
     \<Rightarrow> int \<times> xmlSecKey \<times> ('e, 'p, 't) ctx" where
  "xmlSecKeyDataKeyInfoReferenceXmlRead env key node keyInfoCtx =
     (case nodeDoc env node of
        None \<Rightarrow> (-1, key, keyInfoCtx)
      | Some doc \<Rightarrow>
          if mode keyInfoCtx \<noteq> xmlSecKeyInfoModeRead then (-1, key, keyInfoCtx)
          else if curKeyInfoReferenceLevel keyInfoCtx \<ge> maxKeyInfoReferenceLevel keyInfoCtx
          then (-1, key, keyInfoCtx)
          else
            let keyInfoCtx1 = keyInfoCtx\<lparr>curKeyInfoReferenceLevel :=
                                curKeyInfoReferenceLevel keyInfoCtx + 1\<rparr>
            in (case xmlGetProp node xmlSecAttrURI of
              None \<Rightarrow> (-1, key, keyInfoCtx1)
            | Some uri \<Rightarrow>
                (case xmlSecTransformCtxSetUri env
                        (xmlSecTransformCtxReset env (keyInfoReferenceCtx keyInfoCtx1))
                        (Some uri) node of
                   (ret, tc2) \<Rightarrow>
                     let keyInfoCtx2 = keyInfoCtx1\<lparr>keyInfoReferenceCtx := tc2\<rparr> in
                     if ret < 0 then (-1, key, keyInfoCtx2)
                     else if xmlSecGetNextElementNode (nodeChildren node) \<noteq> []
                     then (-1, key, keyInfoCtx2)
                     else
                       (case xmlSecTransformCtxExecute env tc2 doc of
                          (ret, tc3) \<Rightarrow>
                            let keyInfoCtx3 = keyInfoCtx2\<lparr>keyInfoReferenceCtx := tc3\<rparr> in
                            (case (if ret < 0 then None
                                   else case result tc3 of
                                          None \<Rightarrow> None
                                        | Some buf \<Rightarrow> xmlSecBufferGetData buf) of
                               None \<Rightarrow> (-1, key, keyInfoCtx3)
                             | Some data \<Rightarrow>
                                 (case xmlSecKeyDataKeyInfoReferenceReadXmlResult env
                                         xmlSecKeyDataIdUnknown key data
                                         (xmlSecBufferGetSize data) keyInfoCtx3 of
                                    (ret, key', keyInfoCtx4) \<Rightarrow>
                                      if ret < 0 then (-1, key', keyInfoCtx4)
                                      else (0, key', keyInfoCtx4\<lparr>curKeyInfoReferenceLevel :=
                                              curKeyInfoReferenceLevel keyInfoCtx4 - 1\<rparr>)))))))"


subsection \<open>EncryptedKey, DerivedKey, AgreementMethod\<close>

text \<open>
  The three read handlers begin alike: the level check, the encryption context (reset
  or created), the copy of the preferences into its two KeyInfo contexts. The C code
  repeats these lines in each handler; here they are one definition that returns the
  status and the context reached.
\<close>

definition xmlSecKeyInfoCtx_prepareEncCtx ::
  "('e, 'p, 't) xmlsec_env \<Rightarrow> ('e, 'p, 't) ctx \<Rightarrow> int \<times> ('e, 'p, 't) ctx" where
  "xmlSecKeyInfoCtx_prepareEncCtx env keyInfoCtx =
     (if curEncryptedKeyLevel keyInfoCtx \<ge> maxEncryptedKeyLevel keyInfoCtx
      then (-1, keyInfoCtx)
      else
        case (case encCtx keyInfoCtx of
                Some e \<Rightarrow> (0, keyInfoCtx\<lparr>encCtx := Some (xmlSecEncCtxReset env e)\<rparr>)
              | None \<Rightarrow> xmlSecKeyInfoCtxCreateEncCtx env keyInfoCtx) of
          (ret, keyInfoCtx1) \<Rightarrow>
            if ret < 0 then (-1, keyInfoCtx1)
            else
              (case encCtx keyInfoCtx1 of
                 None \<Rightarrow> (-1, keyInfoCtx1)
               | Some e1 \<Rightarrow>
                   (case xmlSecKeyInfoCtxCopyUserPref env (keyInfoReadCtx env e1) keyInfoCtx1 of
                      (ret, rc) \<Rightarrow>
                        let e2 = setKeyInfoReadCtx env e1 rc;
                            keyInfoCtx2 = keyInfoCtx1\<lparr>encCtx := Some e2\<rparr>
                        in if ret < 0 then (-1, keyInfoCtx2)
                           else
                             (case xmlSecKeyInfoCtxCopyUserPref env (keyInfoWriteCtx env e2)
                                     keyInfoCtx2 of
                                (ret, wc) \<Rightarrow>
                                  let e3 = setKeyInfoWriteCtx env e2 wc;
                                      keyInfoCtx3 = keyInfoCtx2\<lparr>encCtx := Some e3\<rparr>
                                  in if ret < 0 then (-1, keyInfoCtx3)
                                     else (0, keyInfoCtx3)))))"

definition xmlSecKeyDataEncryptedKeyXmlRead ::
  "('e, 'p, 't) xmlsec_env \<Rightarrow> xmlSecKey \<Rightarrow> xmlNode \<Rightarrow> ('e, 'p, 't) ctx
     \<Rightarrow> int \<times> xmlSecKey \<times> ('e, 'p, 't) ctx" where
  "xmlSecKeyDataEncryptedKeyXmlRead env key node keyInfoCtx =
     (if mode keyInfoCtx \<noteq> xmlSecKeyInfoModeRead then (-1, key, keyInfoCtx)
      else
        case xmlSecKeyInfoCtx_prepareEncCtx env keyInfoCtx of
          (ret, keyInfoCtx3) \<Rightarrow>
            if ret < 0 then (-1, key, keyInfoCtx3)
            else
              (case encCtx keyInfoCtx3 of
                 None \<Rightarrow> (-1, key, keyInfoCtx3)
               | Some e3 \<Rightarrow>
                   let keyInfoCtx4 = keyInfoCtx3\<lparr>curEncryptedKeyLevel :=
                                       curEncryptedKeyLevel keyInfoCtx3 + 1\<rparr>
                   in (case xmlSecEncCtxDecryptToBuffer env e3 node of
                         (res, e4) \<Rightarrow>
                           let keyInfoCtx5 = keyInfoCtx4\<lparr>encCtx := Some e4,
                                               curEncryptedKeyLevel :=
                                                 curEncryptedKeyLevel keyInfoCtx4 - 1\<rparr>
                           in (case (case res of
                                       None \<Rightarrow> None
                                     | Some buf \<Rightarrow> xmlSecBufferGetData buf) of
                                 None \<Rightarrow>
                                   if (flags keyInfoCtx5 AND
                                       XMLSEC_KEYINFO_FLAGS_ENCKEY_DONT_STOP_ON_FAILED_DECRYPTION)
                                      \<noteq> 0
                                   then (-1, key, keyInfoCtx5)
                                   else (0, key, keyInfoCtx5)
                               | Some data \<Rightarrow>
                                   (case xmlSecKeyDataBinRead env (keyId (keyReq keyInfoCtx5)) key
                                           data (xmlSecBufferGetSize data) keyInfoCtx5 of
                                      (ret, key', keyInfoCtx6) \<Rightarrow>
                                        if ret < 0 then (-1, key', keyInfoCtx6)
                                        else (0, key', keyInfoCtx6))))))"

text \<open>
  \<^verbatim>\<open>xmlSecKeyDataDerivedKeyXmlRead\<close> and
  \<^verbatim>\<open>xmlSecKeyDataAgreementMethodXmlRead\<close> differ only in the engine function
  they call; \<open>generate\<close> is that function.
\<close>

definition xmlSecKeyData_generatedKeyXmlRead ::
  "('e, 'p, 't) xmlsec_env
     \<Rightarrow> ('e \<Rightarrow> xmlSecKeyDataId \<Rightarrow> xmlNode \<Rightarrow> ('e, 'p, 't) ctx
          \<Rightarrow> xmlSecKey option \<times> ('e, 'p, 't) ctx)
     \<Rightarrow> xmlSecKey \<Rightarrow> xmlNode \<Rightarrow> ('e, 'p, 't) ctx
     \<Rightarrow> int \<times> xmlSecKey \<times> ('e, 'p, 't) ctx" where
  "xmlSecKeyData_generatedKeyXmlRead env generate key node keyInfoCtx =
     (if mode keyInfoCtx \<noteq> xmlSecKeyInfoModeRead then (-1, key, keyInfoCtx)
      else
        case xmlSecKeyInfoCtx_prepareEncCtx env keyInfoCtx of
          (ret, keyInfoCtx3) \<Rightarrow>
            if ret < 0 then (-1, key, keyInfoCtx3)
            else
              (case encCtx keyInfoCtx3 of
                 None \<Rightarrow> (-1, key, keyInfoCtx3)
               | Some e3 \<Rightarrow>
                   let keyInfoCtx4 = keyInfoCtx3\<lparr>curEncryptedKeyLevel :=
                                       curEncryptedKeyLevel keyInfoCtx3 + 1\<rparr>
                   in (case generate e3 (keyId (keyReq keyInfoCtx4)) node keyInfoCtx4 of
                         (generatedKey, keyInfoCtx4') \<Rightarrow>
                           let keyInfoCtx5 = keyInfoCtx4'\<lparr>curEncryptedKeyLevel :=
                                               curEncryptedKeyLevel keyInfoCtx4' - 1\<rparr>
                           in (case generatedKey of
                                 None \<Rightarrow>
                                   if (flags keyInfoCtx5 AND
                                       XMLSEC_KEYINFO_FLAGS_ENCKEY_DONT_STOP_ON_FAILED_DECRYPTION)
                                      \<noteq> 0
                                   then (-1, key, keyInfoCtx5)
                                   else (0, key, keyInfoCtx5)
                               | Some gk \<Rightarrow>
                                   if xmlSecKeyReqMatchKey env (keyReq keyInfoCtx5) gk \<noteq> 1
                                   then (0, key, keyInfoCtx5)
                                   else (case xmlSecKeyCopy env key gk of
                                           (ret, key') \<Rightarrow>
                                             if ret < 0 then (-1, key', keyInfoCtx5)
                                             else (0, key', keyInfoCtx5))))))"

definition xmlSecKeyDataDerivedKeyXmlRead ::
  "('e, 'p, 't) xmlsec_env \<Rightarrow> xmlSecKey \<Rightarrow> xmlNode \<Rightarrow> ('e, 'p, 't) ctx
     \<Rightarrow> int \<times> xmlSecKey \<times> ('e, 'p, 't) ctx" where
  "xmlSecKeyDataDerivedKeyXmlRead env key node keyInfoCtx =
     xmlSecKeyData_generatedKeyXmlRead env (xmlSecEncCtxDerivedKeyGenerate env)
       key node keyInfoCtx"

definition xmlSecKeyDataAgreementMethodXmlRead ::
  "('e, 'p, 't) xmlsec_env \<Rightarrow> xmlSecKey \<Rightarrow> xmlNode \<Rightarrow> ('e, 'p, 't) ctx
     \<Rightarrow> int \<times> xmlSecKey \<times> ('e, 'p, 't) ctx" where
  "xmlSecKeyDataAgreementMethodXmlRead env key node keyInfoCtx =
     xmlSecKeyData_generatedKeyXmlRead env (xmlSecEncCtxAgreementMethodGenerate env)
       key node keyInfoCtx"


subsection \<open>Sample data\<close>

text \<open>
  Sample data for the closed theorems below. A key data handler for RSA key values, as
  an application registers it; a freshly initialised read context
  (\<^verbatim>\<open>xmlSecKeyInfoCtxInitialize\<close>: all zero, the three level bounds 1, the
  certificate depth 9); an empty key; and an environment. In the environment a key is
  valid when it has a value and every key matches every requirement; the RSA handler
  stores a value; the keys manager knows no key; the transform engine returns the bytes
  \<open>[60, 62]\<close> for every URI; the encryption engine cannot decrypt anything. The
  encryption context is a number.
\<close>

definition sample_rsa_klass :: xmlSecKeyDataKlass where
  "sample_rsa_klass =
     \<lparr>klassName = ''rsa'',
      usage = xmlSecKeyDataUsageKeyInfoNode OR xmlSecKeyDataUsageKeyValueNodeRead
                OR xmlSecKeyDataUsageKeyValueNodeWrite
                OR xmlSecKeyDataUsageRetrievalMethodNodeXml,
      href = Some ''http://www.w3.org/2000/09/xmldsig#RSAKeyValue'',
      dataNodeName = Some ''RSAKeyValue'', dataNodeNs = Some xmlSecDSigNs\<rparr>"

definition sample_ctx :: "(nat, nat, nat) ctx" where
  "sample_ctx =
     \<lparr>userData = 0, flags = 0, flags2 = 0, keysMngr = None, mode = xmlSecKeyInfoModeRead,
      enabledKeyData = [], base64LineSize = 64,
      retrievalMethodCtx = \<lparr>transformPrefs = 0, transformState = 0, result = None\<rparr>,
      maxRetrievalMethodLevel = 1,
      keyInfoReferenceCtx = \<lparr>transformPrefs = 0, transformState = 0, result = None\<rparr>,
      maxKeyInfoReferenceLevel = 1,
      encCtx = None, maxEncryptedKeyLevel = 1,
      certsVerificationTime = 0, certsVerificationDepth = 9,
      curRetrievalMethodLevel = 0, curKeyInfoReferenceLevel = 0, curEncryptedKeyLevel = 0,
      operation = xmlSecTransformOperationNone,
      keyReq = \<lparr>keyId = None, keyType = 0, keyUsage = 0, keyBitsSize = 0\<rparr>\<rparr>"

definition sample_key :: xmlSecKey where
  "sample_key = \<lparr>keyName = None, keyValue = None\<rparr>"

definition sample_env0 :: "(nat, nat, nat) xmlsec_env" where
  "sample_env0 =
     \<lparr>xmlSecKeyDataIdsGet =
        [xmlSecKeyDataNameKlass, xmlSecKeyDataValueKlass, xmlSecKeyDataRetrievalMethodKlass,
         sample_rsa_klass],
      xmlSecKeyDataXmlRead = (\<lambda>d k n c.
        if klassName d = ''rsa''
        then (0, k\<lparr>keyValue := Some \<lparr>valueId = d, dataOctets = [1]\<rparr>\<rparr>, c)
        else (-1, k, c)),
      xmlSecKeyDataXmlWrite = (\<lambda>d k n c. (0, n, c)),
      xmlSecKeyDataBinRead = (\<lambda>d k b sz c.
        case d of None \<Rightarrow> (-1, k, c)
        | Some d' \<Rightarrow> (0, k\<lparr>keyValue := Some \<lparr>valueId = d', dataOctets = b\<rparr>\<rparr>, c)),
      xmlSecKeyIsValid = (\<lambda>k. if keyValue k = None then 0 else 1),
      xmlSecKeyMatch = (\<lambda>k n r. 1),
      xmlSecKeyReqMatchKey = (\<lambda>r k. 1),
      xmlSecKeysMngrFindKey = (\<lambda>m n c. None),
      xmlSecKeyEmpty = (\<lambda>k. \<lparr>keyName = None, keyValue = None\<rparr>),
      xmlSecKeyCopy = (\<lambda>dst src. (0, src)),
      xmlSecGetNodeContentAndTrim = (\<lambda>n.
        case nodeChildren n of [XmlOther t] \<Rightarrow> (if t = [] then None else Some t)
        | _ \<Rightarrow> None),
      xmlSecIsEmptyNode = (\<lambda>n. if nodeChildren n = [] then 1 else 0),
      xmlSecNodeEncodeAndSetContent = (\<lambda>n t. (0, setNodeChildren n [XmlOther t])),
      nodeDoc = (\<lambda>n. Some []),
      xmlRecoverMemory = (\<lambda>b sz. None),
      xmlSecTransformCtxReset = (\<lambda>tc. tc\<lparr>result := None\<rparr>),
      xmlSecTransformCtxSetUri = (\<lambda>tc u n. (0, tc)),
      xmlSecTransformCtxNodesListRead = (\<lambda>tc n. (0, tc)),
      xmlSecTransformCtxExecute = (\<lambda>tc d. (0, tc\<lparr>result := Some [60, 62]\<rparr>)),
      xmlSecTransformCtxCopyUserPref = (\<lambda>d s. (0, s)),
      xmlSecEncCtxCreate = (\<lambda>m. Some 0),
      xmlSecEncCtxReset = (\<lambda>e. e),
      xmlSecEncCtxCopyUserPref = (\<lambda>d s. (0, s)),
      encCtxSetMode = (\<lambda>e m. e),
      keyInfoReadCtx = (\<lambda>e. sample_ctx),
      keyInfoWriteCtx = (\<lambda>e. sample_ctx\<lparr>mode := xmlSecKeyInfoModeWrite\<rparr>),
      setKeyInfoReadCtx = (\<lambda>e c. e),
      setKeyInfoWriteCtx = (\<lambda>e c. e),
      xmlSecEncCtxDecryptToBuffer = (\<lambda>e n. (None, e)),
      xmlSecEncCtxDerivedKeyGenerate = (\<lambda>e d n c. (None, c)),
      xmlSecEncCtxAgreementMethodGenerate = (\<lambda>e d n c. (None, c)),
      xmlSecAddChild = (\<lambda>parent name ns.
        Some (nodeChildren parent, XmlElement name ns [] [], []))\<rparr>"

definition sample_rsa_node :: xmlNode where
  "sample_rsa_node = XmlElement ''RSAKeyValue'' (Some xmlSecDSigNs) [] []"

definition sample_name_node :: xmlNode where
  "sample_name_node = XmlElement ''KeyName'' (Some xmlSecDSigNs) [] [XmlOther ''bob'']"

definition sample_rsa_key :: xmlSecKey where
  "sample_rsa_key =
     \<lparr>keyName = None, keyValue = Some \<lparr>valueId = sample_rsa_klass, dataOctets = [1]\<rparr>\<rparr>"

subsection \<open>The read pass that never stops early\<close>

text \<open>
  Section 4.3 of the specification, for a context with
  \<^verbatim>\<open>DONT_STOP_ON_KEY_FOUND\<close>: every element child is processed in document
  order, whatever the key holds; only an error stops the pass. This definition follows
  the specification's words and is compared with the loop of the source in the theorem
  for the first claim.
\<close>

fun spec_read_every_child ::
  "('e, 'p, 't) xmlsec_env \<Rightarrow> xmlNode list \<Rightarrow> xmlSecKey \<Rightarrow> ('e, 'p, 't) ctx
     \<Rightarrow> int \<times> xmlSecKey \<times> ('e, 'p, 't) ctx" where
  "spec_read_every_child env [] key keyInfoCtx = (0, key, keyInfoCtx)"
| "spec_read_every_child env (XmlOther t # nxt) key keyInfoCtx =
     spec_read_every_child env nxt key keyInfoCtx"
| "spec_read_every_child env (XmlElement nodeName nodeNs ps cs # nxt) key keyInfoCtx =
     (case (if xmlSecPtrListGetSize (enabledKeyData keyInfoCtx) > 0
            then xmlSecKeyDataIdListFindByNode (enabledKeyData keyInfoCtx)
                   (Some nodeName) nodeNs xmlSecKeyDataUsageKeyInfoNodeRead
            else xmlSecKeyDataIdListFindByNode (xmlSecKeyDataIdsGet env)
                   (Some nodeName) nodeNs xmlSecKeyDataUsageKeyInfoNodeRead) of
        Some dataId \<Rightarrow>
          (case xmlSecKeyDataXmlRead env dataId key (XmlElement nodeName nodeNs ps cs)
                  keyInfoCtx of
             (ret, key', keyInfoCtx') \<Rightarrow>
               if ret < 0 then (-1, key', keyInfoCtx')
               else spec_read_every_child env nxt key' keyInfoCtx')
      | None \<Rightarrow>
          if (flags keyInfoCtx AND XMLSEC_KEYINFO_FLAGS_STOP_ON_UNKNOWN_CHILD) \<noteq> 0
          then (-1, key, keyInfoCtx)
          else spec_read_every_child env nxt key keyInfoCtx)"





definition sample_alice_key :: xmlSecKey where
  "sample_alice_key = \<lparr>keyName = Some ''alice'', keyValue = None\<rparr>"

text \<open>
  The descriptor of EncryptedKey as the file declares it, and the sample environment with
  the EncryptedKey read handler of this file behind it.
\<close>

definition xmlSecEncNs :: string where
  "xmlSecEncNs = ''http://www.w3.org/2001/04/xmlenc#''"

definition xmlSecKeyDataEncryptedKeyKlass :: xmlSecKeyDataKlass where
  "xmlSecKeyDataEncryptedKeyKlass =
     \<lparr>klassName = ''enc-key'',
      usage = xmlSecKeyDataUsageKeyInfoNode OR xmlSecKeyDataUsageRetrievalMethodNodeXml,
      href = Some ''http://www.w3.org/2001/04/xmlenc#EncryptedKey'',
      dataNodeName = Some ''EncryptedKey'', dataNodeNs = Some xmlSecEncNs\<rparr>"

definition sample_enc_env :: "(nat, nat, nat) xmlsec_env" where
  "sample_enc_env =
     sample_env0\<lparr>xmlSecKeyDataIdsGet := [xmlSecKeyDataEncryptedKeyKlass, sample_rsa_klass],
                 xmlSecKeyDataXmlRead := (\<lambda>d k n c.
                   if klassName d = ''enc-key''
                   then xmlSecKeyDataEncryptedKeyXmlRead sample_env0 k n c
                   else xmlSecKeyDataXmlRead sample_env0 d k n c)\<rparr>"

definition sample_enc_node :: xmlNode where
  "sample_enc_node = XmlElement ''EncryptedKey'' (Some xmlSecEncNs) [] []"

text \<open>A RetrievalMethod element without a Type attribute.\<close>

definition sample_retrieval_node :: xmlNode where
  "sample_retrieval_node =
     XmlElement ''RetrievalMethod'' (Some xmlSecDSigNs) [(''URI'', ''#k1'')] []"

text \<open>
  A RetrievalMethod element that declares the type of RSA key values, and the sample
  environment with an XML parser that returns a document whose root is an RSAKeyValue
  element.
\<close>

definition sample_typed_retrieval_node :: xmlNode where
  "sample_typed_retrieval_node =
     XmlElement ''RetrievalMethod'' (Some xmlSecDSigNs)
       [(''Type'', ''http://www.w3.org/2000/09/xmldsig#RSAKeyValue''), (''URI'', ''#k1'')] []"

definition sample_fetch_env :: "(nat, nat, nat) xmlsec_env" where
  "sample_fetch_env = sample_env0\<lparr>xmlRecoverMemory := (\<lambda>b sz. Some [sample_rsa_node])\<rparr>"

subsection \<open>Dispatch at one recursion level\<close>

text \<open>
  To state at which value of a recursion counter a handler dispatches, the environment
  is restricted: in \<open>only_at_retrieval_level L env\<close> the key data dispatch
  (\<^verbatim>\<open>xmlSecKeyDataXmlRead\<close>, \<^verbatim>\<open>xmlSecKeyDataBinRead\<close>) refuses every
  context whose \<^verbatim>\<open>curRetrievalMethodLevel\<close> is not \<open>L\<close> and is the
  dispatch of \<open>env\<close> otherwise. A handler that returns the same in both
  environments dispatches at level \<open>L\<close> only. Likewise for
  \<^verbatim>\<open>curKeyInfoReferenceLevel\<close>, for \<^verbatim>\<open>curEncryptedKeyLevel\<close> and
  the two generating functions of the encryption engine, which receive the KeyInfo
  context, and for \<^verbatim>\<open>curEncryptedKeyLevel\<close> and the binary read.
\<close>

definition only_at_retrieval_level ::
  "int \<Rightarrow> ('e, 'p, 't) xmlsec_env \<Rightarrow> ('e, 'p, 't) xmlsec_env" where
  "only_at_retrieval_level L env =
     env\<lparr>xmlSecKeyDataXmlRead := (\<lambda>d k n c.
            if curRetrievalMethodLevel c = L then xmlSecKeyDataXmlRead env d k n c
            else (-1, k, c)),
         xmlSecKeyDataBinRead := (\<lambda>d k b sz c.
            if curRetrievalMethodLevel c = L then xmlSecKeyDataBinRead env d k b sz c
            else (-1, k, c))\<rparr>"

definition only_at_reference_level ::
  "int \<Rightarrow> ('e, 'p, 't) xmlsec_env \<Rightarrow> ('e, 'p, 't) xmlsec_env" where
  "only_at_reference_level L env =
     env\<lparr>xmlSecKeyDataXmlRead := (\<lambda>d k n c.
            if curKeyInfoReferenceLevel c = L then xmlSecKeyDataXmlRead env d k n c
            else (-1, k, c))\<rparr>"

definition only_at_encrypted_key_level ::
  "int \<Rightarrow> ('e, 'p, 't) xmlsec_env \<Rightarrow> ('e, 'p, 't) xmlsec_env" where
  "only_at_encrypted_key_level L env =
     env\<lparr>xmlSecEncCtxDerivedKeyGenerate := (\<lambda>e d n c.
            if curEncryptedKeyLevel c = L then xmlSecEncCtxDerivedKeyGenerate env e d n c
            else (None, c)),
         xmlSecEncCtxAgreementMethodGenerate := (\<lambda>e d n c.
            if curEncryptedKeyLevel c = L then xmlSecEncCtxAgreementMethodGenerate env e d n c
            else (None, c))\<rparr>"

definition bin_read_only_at_encrypted_key_level ::
  "int \<Rightarrow> ('e, 'p, 't) xmlsec_env \<Rightarrow> ('e, 'p, 't) xmlsec_env" where
  "bin_read_only_at_encrypted_key_level L env =
     env\<lparr>xmlSecKeyDataBinRead := (\<lambda>d k b sz c.
            if curEncryptedKeyLevel c = L then xmlSecKeyDataBinRead env d k b sz c
            else (-1, k, c))\<rparr>"

text \<open>
  The sample environment with the RetrievalMethod read handler of this file behind the
  RetrievalMethod descriptor, and an XML parser that returns a document whose root is
  a RetrievalMethod element without a Type attribute.
\<close>

definition sample_nested_env :: "(nat, nat, nat) xmlsec_env" where
  "sample_nested_env =
     sample_env0\<lparr>xmlRecoverMemory := (\<lambda>b sz. Some [sample_retrieval_node]),
                 xmlSecKeyDataXmlRead := (\<lambda>d k n c.
                   if klassName d = ''retrieval-method''
                   then xmlSecKeyDataRetrievalMethodXmlRead sample_env0 k n c
                   else xmlSecKeyDataXmlRead sample_env0 d k n c)\<rparr>"

section \<open>Properties\<close>

text \<open>Evaluation of the sample data and of the constants.\<close>

lemmas sample_simps =
  sample_env0_def sample_ctx_def sample_key_def sample_rsa_klass_def sample_rsa_node_def
  sample_name_node_def sample_rsa_key_def sample_alice_key_def
  xmlSecKeyDataNameKlass_def xmlSecKeyDataValueKlass_def xmlSecKeyDataRetrievalMethodKlass_def
  xmlSecDSigNs_def xmlSecPtrListGetSize_def
  xmlSecKeyDataUsageKeyInfoNode_def xmlSecKeyDataUsageKeyInfoNodeRead_def
  xmlSecKeyDataUsageKeyInfoNodeWrite_def xmlSecKeyDataUsageKeyValueNodeRead_def
  xmlSecKeyDataUsageKeyValueNodeWrite_def xmlSecKeyDataUsageRetrievalMethodNodeXml_def
  xmlSecKeyDataUsageRetrievalMethodNodeBin_def xmlSecKeyDataUsageRetrievalMethodNode_def
  XMLSEC_KEYINFO_FLAGS_DONT_STOP_ON_KEY_FOUND_def XMLSEC_KEYINFO_FLAGS_STOP_ON_UNKNOWN_CHILD_def
  XMLSEC_KEYINFO_FLAGS_KEYVALUE_STOP_ON_UNKNOWN_CHILD_def
  XMLSEC_KEYINFO_FLAGS_RETRMETHOD_STOP_ON_UNKNOWN_HREF_def
  XMLSEC_KEYINFO_FLAGS_RETRMETHOD_STOP_ON_MISMATCH_HREF_def
  XMLSEC_KEYINFO_FLAGS_ENCKEY_DONT_STOP_ON_FAILED_DECRYPTION_def

lemma xmlSecGetNextElementNode_loop:
  "xmlSecKeyInfoNodeRead_loop env (xmlSecGetNextElementNode cur) key ctx
     = xmlSecKeyInfoNodeRead_loop env cur key ctx"
  by (induction cur rule: xmlSecGetNextElementNode.induct) simp_all

lemma xmlSecGetNextElementNode_set:
  "set (xmlSecGetNextElementNode cur) \<subseteq> set cur"
  by (induction cur rule: xmlSecGetNextElementNode.induct) auto

lemma read_loop_stop:
  "(flags ctx AND XMLSEC_KEYINFO_FLAGS_DONT_STOP_ON_KEY_FOUND) = 0 \<Longrightarrow>
   xmlSecKeyIsValid env key \<noteq> 0 \<Longrightarrow>
   xmlSecKeyMatch env key None (keyReq ctx) \<noteq> 0 \<Longrightarrow>
   xmlSecKeyInfoNodeRead_loop env cur key ctx = (0, key, ctx)"
proof (induction cur)
  case Nil
  then show ?case by simp
next
  case (Cons c nxt)
  then show ?case by (cases c) simp_all
qed

lemma read_loop_all_unknown:
  "(flags ctx AND XMLSEC_KEYINFO_FLAGS_STOP_ON_UNKNOWN_CHILD) = 0 \<Longrightarrow>
   (\<forall>n ns ps cs. XmlElement n ns ps cs \<in> set cur \<longrightarrow>
      (if xmlSecPtrListGetSize (enabledKeyData ctx) > 0
       then xmlSecKeyDataIdListFindByNode (enabledKeyData ctx) (Some n) ns
              xmlSecKeyDataUsageKeyInfoNodeRead
       else xmlSecKeyDataIdListFindByNode (xmlSecKeyDataIdsGet env) (Some n) ns
              xmlSecKeyDataUsageKeyInfoNodeRead) = xmlSecKeyDataIdUnknown) \<Longrightarrow>
   xmlSecKeyInfoNodeRead_loop env cur key ctx = (0, key, ctx)"
proof (induction cur)
  case Nil
  then show ?case by simp
next
  case (Cons c nxt)
  have rest: "xmlSecKeyInfoNodeRead_loop env nxt key ctx = (0, key, ctx)"
  proof (rule Cons.IH [OF Cons.prems(1)])
    show "\<forall>n ns ps cs. XmlElement n ns ps cs \<in> set nxt \<longrightarrow>
      (if xmlSecPtrListGetSize (enabledKeyData ctx) > 0
       then xmlSecKeyDataIdListFindByNode (enabledKeyData ctx) (Some n) ns
              xmlSecKeyDataUsageKeyInfoNodeRead
       else xmlSecKeyDataIdListFindByNode (xmlSecKeyDataIdsGet env) (Some n) ns
              xmlSecKeyDataUsageKeyInfoNodeRead) = xmlSecKeyDataIdUnknown"
      using Cons.prems(2) by (meson list.set_intros(2))
  qed
  show ?case
  proof (cases c)
    case (XmlElement n ns ps cs)
    have here: "(if xmlSecPtrListGetSize (enabledKeyData ctx) > 0
         then xmlSecKeyDataIdListFindByNode (enabledKeyData ctx) (Some n) ns
                xmlSecKeyDataUsageKeyInfoNodeRead
         else xmlSecKeyDataIdListFindByNode (xmlSecKeyDataIdsGet env) (Some n) ns
                xmlSecKeyDataUsageKeyInfoNodeRead) = xmlSecKeyDataIdUnknown"
      using Cons.prems(2) XmlElement by (meson list.set_intros(1))
    show ?thesis
      using here rest Cons.prems(1) XmlElement
      by (simp del: xmlSecKeyDataIdListFindByNode.simps)
  next
    case (XmlOther t)
    then show ?thesis using rest by simp
  qed
qed


lemma read_loop_every_child:
  assumes keep: "\<forall>d k n c. (flags (snd (snd (xmlSecKeyDataXmlRead env d k n c)))
                    AND XMLSEC_KEYINFO_FLAGS_DONT_STOP_ON_KEY_FOUND)
                 = (flags c AND XMLSEC_KEYINFO_FLAGS_DONT_STOP_ON_KEY_FOUND)"
  shows "(flags ctx AND XMLSEC_KEYINFO_FLAGS_DONT_STOP_ON_KEY_FOUND) \<noteq> 0 \<Longrightarrow>
     xmlSecKeyInfoNodeRead_loop env cur key ctx = spec_read_every_child env cur key ctx"
proof (induction cur arbitrary: key ctx)
  case Nil
  then show ?case by simp
next
  case (Cons c nxt)
  show ?case
  proof (cases c)
    case (XmlElement n ns ps cs)
    have step: "\<And>d ret k' c'. xmlSecKeyDataXmlRead env d key (XmlElement n ns ps cs) ctx
                   = (ret, k', c') \<Longrightarrow>
                 xmlSecKeyInfoNodeRead_loop env nxt k' c' = spec_read_every_child env nxt k' c'"
    proof -
      fix d ret k' c'
      assume r: "xmlSecKeyDataXmlRead env d key (XmlElement n ns ps cs) ctx = (ret, k', c')"
      have "(flags c' AND XMLSEC_KEYINFO_FLAGS_DONT_STOP_ON_KEY_FOUND)
              = (flags ctx AND XMLSEC_KEYINFO_FLAGS_DONT_STOP_ON_KEY_FOUND)"
        using keep [rule_format, of d key "XmlElement n ns ps cs" ctx] r by simp
      then show "xmlSecKeyInfoNodeRead_loop env nxt k' c' = spec_read_every_child env nxt k' c'"
        using Cons.IH Cons.prems by simp
    qed
    show ?thesis
      using XmlElement Cons.prems Cons.IH [OF Cons.prems] step
      by (simp del: xmlSecKeyDataIdListFindByNode.simps split: option.splits prod.splits)
  next
    case (XmlOther t)
    then show ?thesis using Cons by simp
  qed
qed

text \<open>
  Claim C1. In read mode the pass is the loop over the children of the KeyInfo node.
  Before each iteration (that is, for every state \<open>(cur, key, ctx)\<close> of the loop):
  if \<^verbatim>\<open>DONT_STOP_ON_KEY_FOUND\<close> is clear, the key is valid and the key
  requirement matches it, the loop returns success at once, with the key and the context
  untouched, so no further child is dispatched; in particular, once a handler has
  returned such a key, the result of the pass does not depend on the following siblings.
  If the flag is set (and the handlers do not clear it), the loop is the pass that
  processes every element child, whatever the state of the key.
\<close>

theorem C1_read_stops_once_key_found:
  "(mode ctx = xmlSecKeyInfoModeRead \<longrightarrow>
      xmlSecKeyInfoNodeRead env keyInfoNode key ctx
        = xmlSecKeyInfoNodeRead_loop env (nodeChildren keyInfoNode) key ctx)
   \<and> ((flags ctx AND XMLSEC_KEYINFO_FLAGS_DONT_STOP_ON_KEY_FOUND) = 0
        \<and> xmlSecKeyIsValid env key \<noteq> 0
        \<and> xmlSecKeyMatch env key None (keyReq ctx) \<noteq> 0 \<longrightarrow>
      xmlSecKeyInfoNodeRead_loop env cur key ctx = (0, key, ctx))
   \<and> (\<forall>n ns ps cs nxt dataId ret key' ctx'.
          ((flags ctx AND XMLSEC_KEYINFO_FLAGS_DONT_STOP_ON_KEY_FOUND) \<noteq> 0
             \<or> xmlSecKeyIsValid env key = 0
             \<or> xmlSecKeyMatch env key None (keyReq ctx) = 0)
        \<and> (if xmlSecPtrListGetSize (enabledKeyData ctx) > 0
            then xmlSecKeyDataIdListFindByNode (enabledKeyData ctx) (Some n) ns
                   xmlSecKeyDataUsageKeyInfoNodeRead
            else xmlSecKeyDataIdListFindByNode (xmlSecKeyDataIdsGet env) (Some n) ns
                   xmlSecKeyDataUsageKeyInfoNodeRead) = Some dataId
        \<and> xmlSecKeyDataXmlRead env dataId key (XmlElement n ns ps cs) ctx = (ret, key', ctx')
        \<and> 0 \<le> ret
        \<and> (flags ctx' AND XMLSEC_KEYINFO_FLAGS_DONT_STOP_ON_KEY_FOUND) = 0
        \<and> xmlSecKeyIsValid env key' \<noteq> 0
        \<and> xmlSecKeyMatch env key' None (keyReq ctx') \<noteq> 0 \<longrightarrow>
      xmlSecKeyInfoNodeRead_loop env (XmlElement n ns ps cs # nxt) key ctx = (0, key', ctx'))
   \<and> ((flags ctx AND XMLSEC_KEYINFO_FLAGS_DONT_STOP_ON_KEY_FOUND) \<noteq> 0
        \<and> (\<forall>d k n c. (flags (snd (snd (xmlSecKeyDataXmlRead env d k n c)))
                         AND XMLSEC_KEYINFO_FLAGS_DONT_STOP_ON_KEY_FOUND)
                      = (flags c AND XMLSEC_KEYINFO_FLAGS_DONT_STOP_ON_KEY_FOUND)) \<longrightarrow>
      xmlSecKeyInfoNodeRead_loop env cur key ctx = spec_read_every_child env cur key ctx)"
proof -
  have a: "mode ctx = xmlSecKeyInfoModeRead \<longrightarrow>
      xmlSecKeyInfoNodeRead env keyInfoNode key ctx
        = xmlSecKeyInfoNodeRead_loop env (nodeChildren keyInfoNode) key ctx"
    by (simp add: xmlSecKeyInfoNodeRead_def xmlSecGetNextElementNode_loop)
  have b: "(flags ctx AND XMLSEC_KEYINFO_FLAGS_DONT_STOP_ON_KEY_FOUND) = 0
        \<and> xmlSecKeyIsValid env key \<noteq> 0
        \<and> xmlSecKeyMatch env key None (keyReq ctx) \<noteq> 0 \<longrightarrow>
      xmlSecKeyInfoNodeRead_loop env cur key ctx = (0, key, ctx)"
    using read_loop_stop [where ctx = ctx and env = env and key = key and cur = cur] by blast
  have c: "\<forall>n ns ps cs nxt dataId ret key' ctx'.
          ((flags ctx AND XMLSEC_KEYINFO_FLAGS_DONT_STOP_ON_KEY_FOUND) \<noteq> 0
             \<or> xmlSecKeyIsValid env key = 0
             \<or> xmlSecKeyMatch env key None (keyReq ctx) = 0)
        \<and> (if xmlSecPtrListGetSize (enabledKeyData ctx) > 0
            then xmlSecKeyDataIdListFindByNode (enabledKeyData ctx) (Some n) ns
                   xmlSecKeyDataUsageKeyInfoNodeRead
            else xmlSecKeyDataIdListFindByNode (xmlSecKeyDataIdsGet env) (Some n) ns
                   xmlSecKeyDataUsageKeyInfoNodeRead) = Some dataId
        \<and> xmlSecKeyDataXmlRead env dataId key (XmlElement n ns ps cs) ctx = (ret, key', ctx')
        \<and> 0 \<le> ret
        \<and> (flags ctx' AND XMLSEC_KEYINFO_FLAGS_DONT_STOP_ON_KEY_FOUND) = 0
        \<and> xmlSecKeyIsValid env key' \<noteq> 0
        \<and> xmlSecKeyMatch env key' None (keyReq ctx') \<noteq> 0 \<longrightarrow>
      xmlSecKeyInfoNodeRead_loop env (XmlElement n ns ps cs # nxt) key ctx = (0, key', ctx')"
  proof (intro allI impI)
    fix n ns ps cs nxt dataId ret key' ctx'
    assume h: "((flags ctx AND XMLSEC_KEYINFO_FLAGS_DONT_STOP_ON_KEY_FOUND) \<noteq> 0
             \<or> xmlSecKeyIsValid env key = 0
             \<or> xmlSecKeyMatch env key None (keyReq ctx) = 0)
        \<and> (if xmlSecPtrListGetSize (enabledKeyData ctx) > 0
            then xmlSecKeyDataIdListFindByNode (enabledKeyData ctx) (Some n) ns
                   xmlSecKeyDataUsageKeyInfoNodeRead
            else xmlSecKeyDataIdListFindByNode (xmlSecKeyDataIdsGet env) (Some n) ns
                   xmlSecKeyDataUsageKeyInfoNodeRead) = Some dataId
        \<and> xmlSecKeyDataXmlRead env dataId key (XmlElement n ns ps cs) ctx = (ret, key', ctx')
        \<and> 0 \<le> ret
        \<and> (flags ctx' AND XMLSEC_KEYINFO_FLAGS_DONT_STOP_ON_KEY_FOUND) = 0
        \<and> xmlSecKeyIsValid env key' \<noteq> 0
        \<and> xmlSecKeyMatch env key' None (keyReq ctx') \<noteq> 0"
    have stop: "xmlSecKeyInfoNodeRead_loop env nxt key' ctx' = (0, key', ctx')"
      using h by (intro read_loop_stop) simp_all
    have "xmlSecKeyInfoNodeRead_loop env (XmlElement n ns ps cs # nxt) key ctx
            = xmlSecKeyInfoNodeRead_loop env nxt key' ctx'"
      using h by (simp del: xmlSecKeyDataIdListFindByNode.simps)
    then show "xmlSecKeyInfoNodeRead_loop env (XmlElement n ns ps cs # nxt) key ctx
                 = (0, key', ctx')"
      using stop by simp
  qed
  have d: "(flags ctx AND XMLSEC_KEYINFO_FLAGS_DONT_STOP_ON_KEY_FOUND) \<noteq> 0
        \<and> (\<forall>d k n c. (flags (snd (snd (xmlSecKeyDataXmlRead env d k n c)))
                         AND XMLSEC_KEYINFO_FLAGS_DONT_STOP_ON_KEY_FOUND)
                      = (flags c AND XMLSEC_KEYINFO_FLAGS_DONT_STOP_ON_KEY_FOUND)) \<longrightarrow>
      xmlSecKeyInfoNodeRead_loop env cur key ctx = spec_read_every_child env cur key ctx"
    using read_loop_every_child [where env = env and ctx = ctx and cur = cur and key = key]
    by blast
  show ?thesis using a b c d by blast
qed

theorem C1_read_stops_once_key_found_witness:
  "mode sample_ctx = xmlSecKeyInfoModeRead
   \<and> (flags sample_ctx AND XMLSEC_KEYINFO_FLAGS_DONT_STOP_ON_KEY_FOUND) = 0
   \<and> xmlSecKeyIsValid sample_env0 sample_key = 0
   \<and> xmlSecKeyDataXmlRead sample_env0 sample_rsa_klass sample_key sample_rsa_node sample_ctx
       = (0, sample_rsa_key, sample_ctx)
   \<and> xmlSecKeyIsValid sample_env0 sample_rsa_key = 1
   \<and> xmlSecKeyMatch sample_env0 sample_rsa_key None (keyReq sample_ctx) = 1
   \<and> fst (xmlSecKeyDataXmlRead sample_env0 xmlSecKeyDataNameKlass sample_rsa_key
             sample_name_node sample_ctx) = -1
   \<and> xmlSecKeyInfoNodeRead sample_env0
        (XmlElement ''KeyInfo'' (Some xmlSecDSigNs) [] [sample_rsa_node, sample_name_node])
        sample_key sample_ctx = (0, sample_rsa_key, sample_ctx)
   \<and> xmlSecKeyInfoNodeRead_loop sample_env0 [sample_name_node] sample_rsa_key sample_ctx
       = (0, sample_rsa_key, sample_ctx)
   \<and> (flags (sample_ctx\<lparr>flags := 1\<rparr>) AND XMLSEC_KEYINFO_FLAGS_DONT_STOP_ON_KEY_FOUND) = 1
   \<and> xmlSecKeyInfoNodeRead_loop sample_env0 [sample_name_node] sample_rsa_key
        (sample_ctx\<lparr>flags := 1\<rparr>)
       = spec_read_every_child sample_env0 [sample_name_node] sample_rsa_key
           (sample_ctx\<lparr>flags := 1\<rparr>)
   \<and> fst (xmlSecKeyInfoNodeRead_loop sample_env0 [sample_name_node] sample_rsa_key
            (sample_ctx\<lparr>flags := 1\<rparr>)) = -1"
proof -
  have keep: "\<forall>d k n c. (flags (snd (snd (xmlSecKeyDataXmlRead sample_env0 d k n c)))
                         AND XMLSEC_KEYINFO_FLAGS_DONT_STOP_ON_KEY_FOUND)
                      = (flags c AND XMLSEC_KEYINFO_FLAGS_DONT_STOP_ON_KEY_FOUND)"
    by (simp add: sample_env0_def)
  have rd: "mode sample_ctx = xmlSecKeyInfoModeRead"
    and clear: "(flags sample_ctx AND XMLSEC_KEYINFO_FLAGS_DONT_STOP_ON_KEY_FOUND) = 0"
    and invalid: "xmlSecKeyIsValid sample_env0 sample_key = 0"
    and valid: "xmlSecKeyIsValid sample_env0 sample_rsa_key = 1"
    and matches: "xmlSecKeyMatch sample_env0 sample_rsa_key None (keyReq sample_ctx) = 1"
    and setf: "(flags (sample_ctx\<lparr>flags := 1\<rparr>)
                 AND XMLSEC_KEYINFO_FLAGS_DONT_STOP_ON_KEY_FOUND) = 1"
    by (simp_all add: sample_simps)
  have rsa: "xmlSecKeyDataXmlRead sample_env0 sample_rsa_klass sample_key
               (XmlElement ''RSAKeyValue'' (Some xmlSecDSigNs) [] []) sample_ctx
             = (0, sample_rsa_key, sample_ctx)"
    and name: "fst (xmlSecKeyDataXmlRead sample_env0 xmlSecKeyDataNameKlass sample_rsa_key
                 sample_name_node sample_ctx) = -1"
    by (simp_all add: sample_simps)
  have look: "(if xmlSecPtrListGetSize (enabledKeyData sample_ctx) > 0
            then xmlSecKeyDataIdListFindByNode (enabledKeyData sample_ctx)
                   (Some ''RSAKeyValue'') (Some xmlSecDSigNs) xmlSecKeyDataUsageKeyInfoNodeRead
            else xmlSecKeyDataIdListFindByNode (xmlSecKeyDataIdsGet sample_env0)
                   (Some ''RSAKeyValue'') (Some xmlSecDSigNs) xmlSecKeyDataUsageKeyInfoNodeRead)
           = Some sample_rsa_klass"
    by (simp add: sample_simps)
  note at_entry = C1_read_stops_once_key_found [where env = sample_env0 and ctx = sample_ctx
      and key = sample_key
      and keyInfoNode = "XmlElement ''KeyInfo'' (Some xmlSecDSigNs) []
                           [sample_rsa_node, sample_name_node]"]
  have pass: "xmlSecKeyInfoNodeRead sample_env0
        (XmlElement ''KeyInfo'' (Some xmlSecDSigNs) [] [sample_rsa_node, sample_name_node])
        sample_key sample_ctx = (0, sample_rsa_key, sample_ctx)"
    using at_entry [THEN conjunct1] rd
      at_entry [THEN conjunct2, THEN conjunct2, THEN conjunct1, rule_format,
        where n = "''RSAKeyValue''" and ns = "Some xmlSecDSigNs" and ps = "[]" and cs = "[]"
          and nxt = "[sample_name_node]" and dataId = sample_rsa_klass and ret = 0
          and key' = sample_rsa_key and ctx' = sample_ctx]
      invalid look rsa clear valid matches
    by (simp add: sample_rsa_node_def)
  note later = C1_read_stops_once_key_found [where env = sample_env0 and ctx = sample_ctx
      and key = sample_rsa_key and cur = "[sample_name_node]"]
  have stop: "xmlSecKeyInfoNodeRead_loop sample_env0 [sample_name_node] sample_rsa_key sample_ctx
       = (0, sample_rsa_key, sample_ctx)"
    using later [THEN conjunct2, THEN conjunct1] clear valid matches by simp
  note flagged = C1_read_stops_once_key_found [where env = sample_env0
      and ctx = "sample_ctx\<lparr>flags := 1\<rparr>" and key = sample_rsa_key
      and cur = "[sample_name_node]"]
  have every: "xmlSecKeyInfoNodeRead_loop sample_env0 [sample_name_node] sample_rsa_key
        (sample_ctx\<lparr>flags := 1\<rparr>)
       = spec_read_every_child sample_env0 [sample_name_node] sample_rsa_key
           (sample_ctx\<lparr>flags := 1\<rparr>)"
    using flagged [THEN conjunct2, THEN conjunct2, THEN conjunct2] setf keep by simp
  have fails: "fst (spec_read_every_child sample_env0 [sample_name_node] sample_rsa_key
           (sample_ctx\<lparr>flags := 1\<rparr>)) = -1"
    by (simp add: sample_simps)
  show ?thesis
    using rd clear invalid rsa valid matches name pass stop setf every fails
    by (simp add: sample_rsa_node_def)
qed

text \<open>
  Claim C10. A read pass over a KeyInfo node without element children, or over one
  whose element children all fail to resolve to a handler while
  \<^verbatim>\<open>STOP_ON_UNKNOWN_CHILD\<close> is clear, returns 0 and leaves the key (and the
  context) as they were: success of the pass says nothing about the key.
\<close>

theorem C10_read_succeeds_without_a_key:
  "mode ctx = xmlSecKeyInfoModeRead \<Longrightarrow>
   xmlSecGetNextElementNode (nodeChildren keyInfoNode) = []
   \<or> ((flags ctx AND XMLSEC_KEYINFO_FLAGS_STOP_ON_UNKNOWN_CHILD) = 0
       \<and> (\<forall>n ns ps cs. XmlElement n ns ps cs \<in> set (nodeChildren keyInfoNode) \<longrightarrow>
            (if xmlSecPtrListGetSize (enabledKeyData ctx) > 0
             then xmlSecKeyDataIdListFindByNode (enabledKeyData ctx) (Some n) ns
                    xmlSecKeyDataUsageKeyInfoNodeRead
             else xmlSecKeyDataIdListFindByNode (xmlSecKeyDataIdsGet env) (Some n) ns
                    xmlSecKeyDataUsageKeyInfoNodeRead) = xmlSecKeyDataIdUnknown)) \<Longrightarrow>
   xmlSecKeyInfoNodeRead env keyInfoNode key ctx = (0, key, ctx)"
proof -
  assume rd: "mode ctx = xmlSecKeyInfoModeRead"
  assume "xmlSecGetNextElementNode (nodeChildren keyInfoNode) = []
   \<or> ((flags ctx AND XMLSEC_KEYINFO_FLAGS_STOP_ON_UNKNOWN_CHILD) = 0
       \<and> (\<forall>n ns ps cs. XmlElement n ns ps cs \<in> set (nodeChildren keyInfoNode) \<longrightarrow>
            (if xmlSecPtrListGetSize (enabledKeyData ctx) > 0
             then xmlSecKeyDataIdListFindByNode (enabledKeyData ctx) (Some n) ns
                    xmlSecKeyDataUsageKeyInfoNodeRead
             else xmlSecKeyDataIdListFindByNode (xmlSecKeyDataIdsGet env) (Some n) ns
                    xmlSecKeyDataUsageKeyInfoNodeRead) = xmlSecKeyDataIdUnknown))"
  then show ?thesis
  proof
    assume "xmlSecGetNextElementNode (nodeChildren keyInfoNode) = []"
    then show ?thesis using rd by (simp add: xmlSecKeyInfoNodeRead_def)
  next
    assume u: "(flags ctx AND XMLSEC_KEYINFO_FLAGS_STOP_ON_UNKNOWN_CHILD) = 0
       \<and> (\<forall>n ns ps cs. XmlElement n ns ps cs \<in> set (nodeChildren keyInfoNode) \<longrightarrow>
            (if xmlSecPtrListGetSize (enabledKeyData ctx) > 0
             then xmlSecKeyDataIdListFindByNode (enabledKeyData ctx) (Some n) ns
                    xmlSecKeyDataUsageKeyInfoNodeRead
             else xmlSecKeyDataIdListFindByNode (xmlSecKeyDataIdsGet env) (Some n) ns
                    xmlSecKeyDataUsageKeyInfoNodeRead) = xmlSecKeyDataIdUnknown)"
    have "xmlSecKeyInfoNodeRead_loop env (nodeChildren keyInfoNode) key ctx = (0, key, ctx)"
      using u by (intro read_loop_all_unknown) simp_all
    then show ?thesis
      using rd by (simp add: xmlSecKeyInfoNodeRead_def xmlSecGetNextElementNode_loop)
  qed
qed

theorem C10_read_succeeds_without_a_key_witness:
  "mode sample_ctx = xmlSecKeyInfoModeRead
   \<and> xmlSecGetNextElementNode (nodeChildren (XmlElement ''KeyInfo'' (Some xmlSecDSigNs) []
         [XmlOther ''text''])) = []
   \<and> xmlSecKeyInfoNodeRead sample_env0
        (XmlElement ''KeyInfo'' (Some xmlSecDSigNs) [] [XmlOther ''text''])
        sample_key sample_ctx = (0, sample_key, sample_ctx)
   \<and> xmlSecKeyIsValid sample_env0 sample_key = 0
   \<and> xmlSecKeyInfoNodeRead sample_env0
        (XmlElement ''KeyInfo'' (Some xmlSecDSigNs) []
           [XmlElement ''Foo'' None [] [], XmlOther ''text'', XmlElement ''Bar'' None [] []])
        sample_key sample_ctx = (0, sample_key, sample_ctx)"
proof -
  have rd: "mode sample_ctx = xmlSecKeyInfoModeRead"
    by (simp add: sample_simps)
  have none: "xmlSecGetNextElementNode (nodeChildren (XmlElement ''KeyInfo''
                 (Some xmlSecDSigNs) [] [XmlOther ''text''])) = []"
    by simp
  have unknown: "(flags sample_ctx AND XMLSEC_KEYINFO_FLAGS_STOP_ON_UNKNOWN_CHILD) = 0
       \<and> (\<forall>n ns ps cs. XmlElement n ns ps cs \<in> set (nodeChildren
               (XmlElement ''KeyInfo'' (Some xmlSecDSigNs) []
                  [XmlElement ''Foo'' None [] [], XmlOther ''text'',
                   XmlElement ''Bar'' None [] []])) \<longrightarrow>
            (if xmlSecPtrListGetSize (enabledKeyData sample_ctx) > 0
             then xmlSecKeyDataIdListFindByNode (enabledKeyData sample_ctx) (Some n) ns
                    xmlSecKeyDataUsageKeyInfoNodeRead
             else xmlSecKeyDataIdListFindByNode (xmlSecKeyDataIdsGet sample_env0) (Some n) ns
                    xmlSecKeyDataUsageKeyInfoNodeRead) = xmlSecKeyDataIdUnknown)"
    by (auto simp add: sample_simps)
  have invalid: "xmlSecKeyIsValid sample_env0 sample_key = 0"
    by (simp add: sample_simps)
  show ?thesis
    using C10_read_succeeds_without_a_key [OF rd disjI1 [OF none], of sample_env0 sample_key]
      C10_read_succeeds_without_a_key [OF rd disjI2 [OF unknown], of sample_key]
      rd none invalid
    by simp
qed

text \<open>
  Claim C7. KeyValue read: without an element child the handler succeeds and leaves
  the key alone; with exactly one element child it dispatches that child when a handler
  resolves, and otherwise ignores it, or fails when
  \<^verbatim>\<open>KEYVALUE_STOP_ON_UNKNOWN_CHILD\<close> is set; with a second element child it
  returns -1 in every case.
\<close>

theorem C7_keyvalue_read_children:
  "mode ctx = xmlSecKeyInfoModeRead \<Longrightarrow>
   (xmlSecGetNextElementNode (nodeChildren node) = [] \<longrightarrow>
      xmlSecKeyDataValueXmlRead env key node ctx = (0, key, ctx))
   \<and> (\<forall>cur nxt. xmlSecGetNextElementNode (nodeChildren node) = cur # nxt
          \<and> xmlSecGetNextElementNode nxt = [] \<longrightarrow>
        (case (if xmlSecPtrListGetSize (enabledKeyData ctx) > 0
               then xmlSecKeyDataIdListFindByNode (enabledKeyData ctx)
                      (xmlNodeName cur) (xmlSecGetNodeNsHref cur)
                      xmlSecKeyDataUsageKeyValueNodeRead
               else xmlSecKeyDataIdListFindByNode (xmlSecKeyDataIdsGet env)
                      (xmlNodeName cur) (xmlSecGetNodeNsHref cur)
                      xmlSecKeyDataUsageKeyValueNodeRead) of
           Some dataId \<Rightarrow>
             xmlSecKeyDataValueXmlRead env key node ctx =
               (case xmlSecKeyDataXmlRead env dataId key cur ctx of
                  (ret, key', ctx') \<Rightarrow> (if ret < 0 then -1 else 0, key', ctx'))
         | None \<Rightarrow>
             xmlSecKeyDataValueXmlRead env key node ctx =
               (if (flags ctx AND XMLSEC_KEYINFO_FLAGS_KEYVALUE_STOP_ON_UNKNOWN_CHILD) \<noteq> 0
                then -1 else 0, key, ctx)))
   \<and> (\<forall>cur nxt. xmlSecGetNextElementNode (nodeChildren node) = cur # nxt
          \<and> xmlSecGetNextElementNode nxt \<noteq> [] \<longrightarrow>
        fst (xmlSecKeyDataValueXmlRead env key node ctx) = -1)"
proof (intro conjI allI impI)
  assume rd: "mode ctx = xmlSecKeyInfoModeRead"
  {
    assume "xmlSecGetNextElementNode (nodeChildren node) = []"
    then show "xmlSecKeyDataValueXmlRead env key node ctx = (0, key, ctx)"
      using rd by (simp add: xmlSecKeyDataValueXmlRead_def)
  }
  {
    fix cur nxt
    assume one: "xmlSecGetNextElementNode (nodeChildren node) = cur # nxt
                   \<and> xmlSecGetNextElementNode nxt = []"
    define L where "L = (if xmlSecPtrListGetSize (enabledKeyData ctx) > 0
               then xmlSecKeyDataIdListFindByNode (enabledKeyData ctx)
                      (xmlNodeName cur) (xmlSecGetNodeNsHref cur)
                      xmlSecKeyDataUsageKeyValueNodeRead
               else xmlSecKeyDataIdListFindByNode (xmlSecKeyDataIdsGet env)
                      (xmlNodeName cur) (xmlSecGetNodeNsHref cur)
                      xmlSecKeyDataUsageKeyValueNodeRead)"
    have "case L of
           Some dataId \<Rightarrow>
             xmlSecKeyDataValueXmlRead env key node ctx =
               (case xmlSecKeyDataXmlRead env dataId key cur ctx of
                  (ret, key', ctx') \<Rightarrow> (if ret < 0 then -1 else 0, key', ctx'))
         | None \<Rightarrow>
             xmlSecKeyDataValueXmlRead env key node ctx =
               (if (flags ctx AND XMLSEC_KEYINFO_FLAGS_KEYVALUE_STOP_ON_UNKNOWN_CHILD) \<noteq> 0
                then -1 else 0, key, ctx)"
    proof (cases L)
      case None
      then show ?thesis
        using rd one unfolding L_def xmlSecKeyDataValueXmlRead_def by simp
    next
      case (Some d)
      obtain ret k' c' where r: "xmlSecKeyDataXmlRead env d key cur ctx = (ret, k', c')"
        by (cases "xmlSecKeyDataXmlRead env d key cur ctx") auto
      show ?thesis
        using rd one Some r unfolding L_def xmlSecKeyDataValueXmlRead_def by simp
    qed
    then show "case (if xmlSecPtrListGetSize (enabledKeyData ctx) > 0
               then xmlSecKeyDataIdListFindByNode (enabledKeyData ctx)
                      (xmlNodeName cur) (xmlSecGetNodeNsHref cur)
                      xmlSecKeyDataUsageKeyValueNodeRead
               else xmlSecKeyDataIdListFindByNode (xmlSecKeyDataIdsGet env)
                      (xmlNodeName cur) (xmlSecGetNodeNsHref cur)
                      xmlSecKeyDataUsageKeyValueNodeRead) of
           Some dataId \<Rightarrow>
             xmlSecKeyDataValueXmlRead env key node ctx =
               (case xmlSecKeyDataXmlRead env dataId key cur ctx of
                  (ret, key', ctx') \<Rightarrow> (if ret < 0 then -1 else 0, key', ctx'))
         | None \<Rightarrow>
             xmlSecKeyDataValueXmlRead env key node ctx =
               (if (flags ctx AND XMLSEC_KEYINFO_FLAGS_KEYVALUE_STOP_ON_UNKNOWN_CHILD) \<noteq> 0
                then -1 else 0, key, ctx)"
      unfolding L_def .
  }
  {
    fix cur nxt
    assume two: "xmlSecGetNextElementNode (nodeChildren node) = cur # nxt
                   \<and> xmlSecGetNextElementNode nxt \<noteq> []"
    define L where "L = (if xmlSecPtrListGetSize (enabledKeyData ctx) > 0
               then xmlSecKeyDataIdListFindByNode (enabledKeyData ctx)
                      (xmlNodeName cur) (xmlSecGetNodeNsHref cur)
                      xmlSecKeyDataUsageKeyValueNodeRead
               else xmlSecKeyDataIdListFindByNode (xmlSecKeyDataIdsGet env)
                      (xmlNodeName cur) (xmlSecGetNodeNsHref cur)
                      xmlSecKeyDataUsageKeyValueNodeRead)"
    show "fst (xmlSecKeyDataValueXmlRead env key node ctx) = -1"
    proof (cases L)
      case None
      then show ?thesis
        using rd two unfolding L_def xmlSecKeyDataValueXmlRead_def by simp
    next
      case (Some d)
      obtain ret k' c' where r: "xmlSecKeyDataXmlRead env d key cur ctx = (ret, k', c')"
        by (cases "xmlSecKeyDataXmlRead env d key cur ctx") auto
      show ?thesis
        using rd two Some r unfolding L_def xmlSecKeyDataValueXmlRead_def by simp
    qed
  }
qed


theorem C7_keyvalue_read_children_witness:
  "mode sample_ctx = xmlSecKeyInfoModeRead
   \<and> xmlSecKeyDataValueXmlRead sample_env0 sample_key
        (XmlElement ''KeyValue'' (Some xmlSecDSigNs) [] [XmlOther ''text'']) sample_ctx
       = (0, sample_key, sample_ctx)
   \<and> xmlSecKeyDataValueXmlRead sample_env0 sample_key
        (XmlElement ''KeyValue'' (Some xmlSecDSigNs) [] [sample_rsa_node]) sample_ctx
       = (0, sample_rsa_key, sample_ctx)
   \<and> xmlSecKeyDataValueXmlRead sample_env0 sample_key
        (XmlElement ''KeyValue'' (Some xmlSecDSigNs) [] [XmlElement ''Foo'' None [] []])
        sample_ctx
       = (0, sample_key, sample_ctx)
   \<and> fst (xmlSecKeyDataValueXmlRead sample_env0 sample_key
        (XmlElement ''KeyValue'' (Some xmlSecDSigNs) []
           [XmlElement ''Foo'' None [] [], sample_rsa_node]) sample_ctx) = -1"
proof -
  have rd: "mode sample_ctx = xmlSecKeyInfoModeRead"
    by (simp add: sample_simps)
  note zero = C7_keyvalue_read_children [OF rd, of
      "XmlElement ''KeyValue'' (Some xmlSecDSigNs) [] [XmlOther ''text'']"
      sample_env0 sample_key, THEN conjunct1]
  note one = C7_keyvalue_read_children [OF rd, of
      "XmlElement ''KeyValue'' (Some xmlSecDSigNs) [] [sample_rsa_node]"
      sample_env0 sample_key, THEN conjunct2, THEN conjunct1, rule_format,
      of sample_rsa_node "[]"]
  note unknown = C7_keyvalue_read_children [OF rd, of
      "XmlElement ''KeyValue'' (Some xmlSecDSigNs) [] [XmlElement ''Foo'' None [] []]"
      sample_env0 sample_key, THEN conjunct2, THEN conjunct1, rule_format,
      of "XmlElement ''Foo'' None [] []" "[]"]
  note two = C7_keyvalue_read_children [OF rd, of
      "XmlElement ''KeyValue'' (Some xmlSecDSigNs) []
         [XmlElement ''Foo'' None [] [], sample_rsa_node]"
      sample_env0 sample_key, THEN conjunct2, THEN conjunct2, rule_format,
      of "XmlElement ''Foo'' None [] []" "[sample_rsa_node]"]
  have z: "xmlSecKeyDataValueXmlRead sample_env0 sample_key
        (XmlElement ''KeyValue'' (Some xmlSecDSigNs) [] [XmlOther ''text'']) sample_ctx
       = (0, sample_key, sample_ctx)"
    using zero by simp
  have o: "xmlSecKeyDataValueXmlRead sample_env0 sample_key
        (XmlElement ''KeyValue'' (Some xmlSecDSigNs) [] [sample_rsa_node]) sample_ctx
       = (0, sample_rsa_key, sample_ctx)"
    using one by (simp add: sample_simps)
  have u: "xmlSecKeyDataValueXmlRead sample_env0 sample_key
        (XmlElement ''KeyValue'' (Some xmlSecDSigNs) [] [XmlElement ''Foo'' None [] []])
        sample_ctx
       = (0, sample_key, sample_ctx)"
    using unknown by (simp add: sample_simps)
  have t: "fst (xmlSecKeyDataValueXmlRead sample_env0 sample_key
        (XmlElement ''KeyValue'' (Some xmlSecDSigNs) []
           [XmlElement ''Foo'' None [] [], sample_rsa_node]) sample_ctx) = -1"
    using two by (simp add: sample_simps)
  show ?thesis using rd z o u t by simp
qed



text \<open>
  Claim C6, as amended. KeyName read with non-empty trimmed text \<open>newName\<close>, for a
  key that already has a value, or in a context without a keys manager: a key with a
  different name makes the handler fail (the error it reports there is
  \<^verbatim>\<open>XMLSEC_ERRORS_R_INVALID_KEY_DATA\<close>) and the key stays as it is; a key with
  the same name makes it succeed and the key stays as it is; a key without a name gets
  the new name.
\<close>

theorem C6_keyname_read_checks_the_name:
  "mode ctx = xmlSecKeyInfoModeRead \<Longrightarrow>
   xmlSecGetNodeContentAndTrim env node = Some newName \<Longrightarrow>
   xmlSecKeyGetValue key \<noteq> None \<or> keysMngr ctx = None \<Longrightarrow>
   (\<forall>oldName. xmlSecKeyGetName key = Some oldName \<and> oldName \<noteq> newName \<longrightarrow>
      xmlSecKeyDataNameXmlRead env key node ctx = (-1, key, ctx))
   \<and> (xmlSecKeyGetName key = Some newName \<longrightarrow>
      xmlSecKeyDataNameXmlRead env key node ctx = (0, key, ctx))
   \<and> (xmlSecKeyGetName key = None \<longrightarrow>
      xmlSecKeyDataNameXmlRead env key node ctx = (0, key\<lparr>keyName := Some newName\<rparr>, ctx))"
  by (auto simp add: xmlSecKeyDataNameXmlRead_def xmlSecKeySetName_def
        split: option.splits)

theorem C6_keyname_read_checks_the_name_witness:
  "mode sample_ctx = xmlSecKeyInfoModeRead
   \<and> xmlSecGetNodeContentAndTrim sample_env0 sample_name_node = Some ''bob''
   \<and> keysMngr sample_ctx = None
   \<and> xmlSecKeyGetName sample_alice_key = Some ''alice'' \<and> ''alice'' \<noteq> ''bob''
   \<and> xmlSecKeyDataNameXmlRead sample_env0 sample_alice_key sample_name_node sample_ctx
       = (-1, sample_alice_key, sample_ctx)
   \<and> xmlSecKeyGetName (sample_alice_key\<lparr>keyName := Some ''bob''\<rparr>) = Some ''bob''
   \<and> xmlSecKeyDataNameXmlRead sample_env0 (sample_alice_key\<lparr>keyName := Some ''bob''\<rparr>)
        sample_name_node sample_ctx
       = (0, sample_alice_key\<lparr>keyName := Some ''bob''\<rparr>, sample_ctx)
   \<and> xmlSecKeyGetName sample_key = None
   \<and> xmlSecKeyDataNameXmlRead sample_env0 sample_key sample_name_node sample_ctx
       = (0, sample_key\<lparr>keyName := Some ''bob''\<rparr>, sample_ctx)"
proof -
  have rd: "mode sample_ctx = xmlSecKeyInfoModeRead"
    by (simp add: sample_simps)
  have content: "xmlSecGetNodeContentAndTrim sample_env0 sample_name_node = Some ''bob''"
    by (simp add: sample_simps)
  have nomngr: "keysMngr sample_ctx = None"
    by (simp add: sample_simps)
  have names: "xmlSecKeyGetName sample_alice_key = Some ''alice''"
    "xmlSecKeyGetName (sample_alice_key\<lparr>keyName := Some ''bob''\<rparr>) = Some ''bob''"
    "xmlSecKeyGetName sample_key = None"
    by (simp_all add: xmlSecKeyGetName_def sample_simps)
  show ?thesis
    using C6_keyname_read_checks_the_name [OF rd content disjI2 [OF nomngr], of sample_alice_key]
      C6_keyname_read_checks_the_name [OF rd content disjI2 [OF nomngr],
        of "sample_alice_key\<lparr>keyName := Some ''bob''\<rparr>"]
      C6_keyname_read_checks_the_name [OF rd content disjI2 [OF nomngr], of sample_key]
      rd content nomngr names
    by simp
qed

text \<open>
  The claim as it stands fails for a key without a value in a context with a keys
  manager: when the manager does not know the name, a key called alice passes a KeyName
  bob (no error, no change), and a key without a name does not get one.
\<close>

theorem C6_keyname_read_counterexample:
  "mode (sample_ctx\<lparr>keysMngr := Some 0\<rparr>) = xmlSecKeyInfoModeRead
   \<and> xmlSecGetNodeContentAndTrim sample_env0 sample_name_node = Some ''bob''
   \<and> xmlSecKeyGetName sample_alice_key = Some ''alice'' \<and> ''alice'' \<noteq> ''bob''
   \<and> xmlSecKeyDataNameXmlRead sample_env0 sample_alice_key sample_name_node
        (sample_ctx\<lparr>keysMngr := Some 0\<rparr>)
       = (0, sample_alice_key, sample_ctx\<lparr>keysMngr := Some 0\<rparr>)
   \<and> xmlSecKeyGetName sample_key = None
   \<and> xmlSecKeyDataNameXmlRead sample_env0 sample_key sample_name_node
        (sample_ctx\<lparr>keysMngr := Some 0\<rparr>)
       = (0, sample_key, sample_ctx\<lparr>keysMngr := Some 0\<rparr>)
   \<and> xmlSecKeyGetName (fst (snd (xmlSecKeyDataNameXmlRead sample_env0 sample_key
        sample_name_node (sample_ctx\<lparr>keysMngr := Some 0\<rparr>)))) = None"
  by (simp add: xmlSecKeyDataNameXmlRead_def xmlSecKeyGetName_def xmlSecKeyGetValue_def
        sample_simps)

lemma CopyUserPref_frame:
  "xmlSecKeyInfoCtxCopyUserPref env dst src = (ret, dst') \<Longrightarrow>
     curRetrievalMethodLevel dst' = curRetrievalMethodLevel dst
   \<and> curKeyInfoReferenceLevel dst' = curKeyInfoReferenceLevel dst
   \<and> curEncryptedKeyLevel dst' = curEncryptedKeyLevel dst
   \<and> operation dst' = operation dst
   \<and> keyReq dst' = keyReq dst
   \<and> mode dst' = mode dst
   \<and> result (retrievalMethodCtx dst') = result (retrievalMethodCtx dst)
   \<and> transformState (retrievalMethodCtx dst') = transformState (retrievalMethodCtx dst)
   \<and> result (keyInfoReferenceCtx dst') = result (keyInfoReferenceCtx dst)
   \<and> transformState (keyInfoReferenceCtx dst') = transformState (keyInfoReferenceCtx dst)"
  by (auto simp add: xmlSecKeyInfoCtxCopyUserPref_def xmlSecPtrListCopy_def Let_def
        split: prod.splits if_splits option.splits)


lemma CopyUserPref_success:
  "xmlSecKeyInfoCtxCopyUserPref env dst src = (0, dst') \<Longrightarrow>
   dst' = dst\<lparr>userData := userData src, flags := flags src, flags2 := flags2 src,
              keysMngr := keysMngr src, base64LineSize := base64LineSize src,
              enabledKeyData := enabledKeyData src,
              maxRetrievalMethodLevel := maxRetrievalMethodLevel src,
              retrievalMethodCtx := (retrievalMethodCtx dst)\<lparr>transformPrefs :=
                snd (xmlSecTransformCtxCopyUserPref env
                       (transformPrefs (retrievalMethodCtx dst))
                       (transformPrefs (retrievalMethodCtx src)))\<rparr>,
              maxKeyInfoReferenceLevel := maxKeyInfoReferenceLevel src,
              keyInfoReferenceCtx := (keyInfoReferenceCtx dst)\<lparr>transformPrefs :=
                snd (xmlSecTransformCtxCopyUserPref env
                       (transformPrefs (keyInfoReferenceCtx dst))
                       (transformPrefs (keyInfoReferenceCtx src)))\<rparr>,
              encCtx := (case (encCtx src, encCtx dst) of
                           (Some es, Some ed) \<Rightarrow>
                             Some (snd (xmlSecEncCtxCopyUserPref env
                                     (encCtxSetMode env ed xmlEncCtxModeEncryptedKey) es))
                         | _ \<Rightarrow> encCtx dst),
              maxEncryptedKeyLevel := maxEncryptedKeyLevel src,
              certsVerificationTime := certsVerificationTime src,
              certsVerificationDepth := certsVerificationDepth src\<rparr>"
  by (auto simp add: xmlSecKeyInfoCtxCopyUserPref_def xmlSecPtrListCopy_def Let_def
        split: prod.splits if_splits option.splits)

lemma CopyUserPref_status:
  "fst (xmlSecKeyInfoCtxCopyUserPref env dst src) = 0
   \<or> fst (xmlSecKeyInfoCtxCopyUserPref env dst src) = -1"
  by (auto simp add: xmlSecKeyInfoCtxCopyUserPref_def xmlSecPtrListCopy_def Let_def
        split: prod.splits if_splits option.splits)


lemma CreateEncCtx_frame:
  "xmlSecKeyInfoCtxCreateEncCtx env ctx = (ret, ctx') \<Longrightarrow> ctx' = ctx\<lparr>encCtx := encCtx ctx'\<rparr>"
  by (auto simp add: xmlSecKeyInfoCtxCreateEncCtx_def Let_def
        split: prod.splits if_splits option.splits xmlSecKeyInfoMode.splits)

lemma prepareEncCtx_frame:
  "xmlSecKeyInfoCtx_prepareEncCtx env ctx = (ret, ctx') \<Longrightarrow>
   ctx' = ctx\<lparr>encCtx := encCtx ctx'\<rparr>"
proof -
  assume p: "xmlSecKeyInfoCtx_prepareEncCtx env ctx = (ret, ctx')"
  obtain r1 c1 where first:
    "(case encCtx ctx of
        Some e \<Rightarrow> (0, ctx\<lparr>encCtx := Some (xmlSecEncCtxReset env e)\<rparr>)
      | None \<Rightarrow> xmlSecKeyInfoCtxCreateEncCtx env ctx) = (r1, c1)"
    by (cases "(case encCtx ctx of
        Some e \<Rightarrow> (0, ctx\<lparr>encCtx := Some (xmlSecEncCtxReset env e)\<rparr>)
      | None \<Rightarrow> xmlSecKeyInfoCtxCreateEncCtx env ctx)") auto
  have c1: "c1 = ctx\<lparr>encCtx := encCtx c1\<rparr>"
    using first CreateEncCtx_frame [of env ctx r1 c1]
    by (cases "encCtx ctx") auto
  have "ctx' = ctx \<or> ctx' = c1 \<or> (\<exists>e. ctx' = c1\<lparr>encCtx := Some e\<rparr>)"
    using p first
    by (auto simp add: xmlSecKeyInfoCtx_prepareEncCtx_def Let_def
          split: prod.splits if_splits option.splits)
  then show ?thesis
  proof (elim disjE exE)
    assume "ctx' = ctx" then show ?thesis by simp
  next
    assume "ctx' = c1" then show ?thesis using c1 by simp
  next
    fix e assume e: "ctx' = c1\<lparr>encCtx := Some e\<rparr>"
    have "c1\<lparr>encCtx := Some e\<rparr> = ctx\<lparr>encCtx := Some e\<rparr>"
      by (subst c1) simp
    then show ?thesis using e by simp
  qed
qed

lemma prepareEncCtx_fields:
  assumes "xmlSecKeyInfoCtx_prepareEncCtx env ctx = (ret, ctx')"
  shows "flags ctx' = flags ctx" and "curEncryptedKeyLevel ctx' = curEncryptedKeyLevel ctx"
    and "keyReq ctx' = keyReq ctx"
proof -
  have f: "ctx' = ctx\<lparr>encCtx := encCtx ctx'\<rparr>"
    using assms by (rule prepareEncCtx_frame)
  show "flags ctx' = flags ctx" by (subst f) simp
  show "curEncryptedKeyLevel ctx' = curEncryptedKeyLevel ctx" by (subst f) simp
  show "keyReq ctx' = keyReq ctx" by (subst f) simp
qed

lemma EncryptedKeyXmlRead_failed_decryption:
  assumes rd: "mode ctx = xmlSecKeyInfoModeRead"
    and prep: "xmlSecKeyInfoCtx_prepareEncCtx env ctx = (ret, ctx3)"
    and ok: "\<not> ret < 0"
    and e3: "encCtx ctx3 = Some e3"
    and dec: "xmlSecEncCtxDecryptToBuffer env e3 node = (res, e4)"
    and nodata: "res = None \<or> (\<exists>buf. res = Some buf \<and> xmlSecBufferGetData buf = None)"
  shows "xmlSecKeyDataEncryptedKeyXmlRead env key node ctx =
           (if (flags ctx AND XMLSEC_KEYINFO_FLAGS_ENCKEY_DONT_STOP_ON_FAILED_DECRYPTION) \<noteq> 0
            then -1 else 0, key, ctx3\<lparr>encCtx := Some e4\<rparr>)"
proof -
  have fl: "flags ctx3 = flags ctx"
    using prep by (rule prepareEncCtx_fields)
  have none: "(case res of None \<Rightarrow> None | Some buf \<Rightarrow> xmlSecBufferGetData buf) = None"
    using nodata by auto
  show ?thesis
    using rd prep ok e3 dec none fl
    by (simp add: xmlSecKeyDataEncryptedKeyXmlRead_def Let_def)
qed

lemma generatedKeyXmlRead_failed_generation:
  assumes rd: "mode ctx = xmlSecKeyInfoModeRead"
    and prep: "xmlSecKeyInfoCtx_prepareEncCtx env ctx = (ret, ctx3)"
    and ok: "\<not> ret < 0"
    and e3: "encCtx ctx3 = Some e3"
    and gen: "generate e3 (keyId (keyReq ctx3)) node
                (ctx3\<lparr>curEncryptedKeyLevel := curEncryptedKeyLevel ctx3 + 1\<rparr>) = (None, ctx')"
  shows "xmlSecKeyData_generatedKeyXmlRead env generate key node ctx =
           (if (flags ctx' AND XMLSEC_KEYINFO_FLAGS_ENCKEY_DONT_STOP_ON_FAILED_DECRYPTION) \<noteq> 0
            then -1 else 0, key,
            ctx'\<lparr>curEncryptedKeyLevel := curEncryptedKeyLevel ctx' - 1\<rparr>)"
  using rd prep ok e3 gen
  by (simp add: xmlSecKeyData_generatedKeyXmlRead_def Let_def)


text \<open>
  Claim C5. EncryptedKey, DerivedKey and AgreementMethod read, once the encryption
  context is ready (\<open>ctx3\<close>, with encryption context \<open>e3\<close>): when the
  decryption returns no buffer or a buffer without data, or the generation returns no
  key, the handler returns -1 if \<^verbatim>\<open>ENCKEY_DONT_STOP_ON_FAILED_DECRYPTION\<close> is
  set and 0 if it is clear, and in both cases the key is the caller's key, unchanged.
  After a return of 0 with the key unchanged the read loop of the driver goes on with the
  following siblings.
\<close>

theorem C5_failed_decryption_swallowed_unless_flag:
  "mode ctx = xmlSecKeyInfoModeRead \<Longrightarrow>
   xmlSecKeyInfoCtx_prepareEncCtx env ctx = (ret, ctx3) \<Longrightarrow> \<not> ret < 0 \<Longrightarrow>
   encCtx ctx3 = Some e3 \<Longrightarrow>
   (\<forall>res e4. xmlSecEncCtxDecryptToBuffer env e3 node = (res, e4)
        \<and> (res = None \<or> (\<exists>buf. res = Some buf \<and> xmlSecBufferGetData buf = None)) \<longrightarrow>
      xmlSecKeyDataEncryptedKeyXmlRead env key node ctx =
        (if (flags ctx AND XMLSEC_KEYINFO_FLAGS_ENCKEY_DONT_STOP_ON_FAILED_DECRYPTION) \<noteq> 0
         then -1 else 0, key, ctx3\<lparr>encCtx := Some e4\<rparr>))
   \<and> (\<forall>ctx'. xmlSecEncCtxDerivedKeyGenerate env e3 (keyId (keyReq ctx3)) node
                (ctx3\<lparr>curEncryptedKeyLevel := curEncryptedKeyLevel ctx3 + 1\<rparr>) = (None, ctx')
        \<longrightarrow>
      xmlSecKeyDataDerivedKeyXmlRead env key node ctx =
        (if (flags ctx' AND XMLSEC_KEYINFO_FLAGS_ENCKEY_DONT_STOP_ON_FAILED_DECRYPTION) \<noteq> 0
         then -1 else 0, key, ctx'\<lparr>curEncryptedKeyLevel := curEncryptedKeyLevel ctx' - 1\<rparr>))
   \<and> (\<forall>ctx'. xmlSecEncCtxAgreementMethodGenerate env e3 (keyId (keyReq ctx3)) node
                (ctx3\<lparr>curEncryptedKeyLevel := curEncryptedKeyLevel ctx3 + 1\<rparr>) = (None, ctx')
        \<longrightarrow>
      xmlSecKeyDataAgreementMethodXmlRead env key node ctx =
        (if (flags ctx' AND XMLSEC_KEYINFO_FLAGS_ENCKEY_DONT_STOP_ON_FAILED_DECRYPTION) \<noteq> 0
         then -1 else 0, key, ctx'\<lparr>curEncryptedKeyLevel := curEncryptedKeyLevel ctx' - 1\<rparr>))
   \<and> (\<forall>n ns ps cs nxt dataId ctx'.
          ((flags ctx AND XMLSEC_KEYINFO_FLAGS_DONT_STOP_ON_KEY_FOUND) \<noteq> 0
             \<or> xmlSecKeyIsValid env key = 0
             \<or> xmlSecKeyMatch env key None (keyReq ctx) = 0)
        \<and> (if xmlSecPtrListGetSize (enabledKeyData ctx) > 0
            then xmlSecKeyDataIdListFindByNode (enabledKeyData ctx) (Some n) ns
                   xmlSecKeyDataUsageKeyInfoNodeRead
            else xmlSecKeyDataIdListFindByNode (xmlSecKeyDataIdsGet env) (Some n) ns
                   xmlSecKeyDataUsageKeyInfoNodeRead) = Some dataId
        \<and> xmlSecKeyDataXmlRead env dataId key (XmlElement n ns ps cs) ctx = (0, key, ctx')
        \<longrightarrow>
      xmlSecKeyInfoNodeRead_loop env (XmlElement n ns ps cs # nxt) key ctx
        = xmlSecKeyInfoNodeRead_loop env nxt key ctx')"
proof (intro conjI allI impI)
  assume rd: "mode ctx = xmlSecKeyInfoModeRead"
    and prep: "xmlSecKeyInfoCtx_prepareEncCtx env ctx = (ret, ctx3)"
    and ok: "\<not> ret < 0"
    and e3: "encCtx ctx3 = Some e3"
  {
    fix res e4
    assume "xmlSecEncCtxDecryptToBuffer env e3 node = (res, e4)
        \<and> (res = None \<or> (\<exists>buf. res = Some buf \<and> xmlSecBufferGetData buf = None))"
    then show "xmlSecKeyDataEncryptedKeyXmlRead env key node ctx =
        (if (flags ctx AND XMLSEC_KEYINFO_FLAGS_ENCKEY_DONT_STOP_ON_FAILED_DECRYPTION) \<noteq> 0
         then -1 else 0, key, ctx3\<lparr>encCtx := Some e4\<rparr>)"
      using EncryptedKeyXmlRead_failed_decryption [OF rd prep ok e3] by blast
  }
  {
    fix ctx'
    assume "xmlSecEncCtxDerivedKeyGenerate env e3 (keyId (keyReq ctx3)) node
                (ctx3\<lparr>curEncryptedKeyLevel := curEncryptedKeyLevel ctx3 + 1\<rparr>) = (None, ctx')"
    then show "xmlSecKeyDataDerivedKeyXmlRead env key node ctx =
        (if (flags ctx' AND XMLSEC_KEYINFO_FLAGS_ENCKEY_DONT_STOP_ON_FAILED_DECRYPTION) \<noteq> 0
         then -1 else 0, key, ctx'\<lparr>curEncryptedKeyLevel := curEncryptedKeyLevel ctx' - 1\<rparr>)"
      unfolding xmlSecKeyDataDerivedKeyXmlRead_def
      by (rule generatedKeyXmlRead_failed_generation [OF rd prep ok e3])
  }
  {
    fix ctx'
    assume "xmlSecEncCtxAgreementMethodGenerate env e3 (keyId (keyReq ctx3)) node
                (ctx3\<lparr>curEncryptedKeyLevel := curEncryptedKeyLevel ctx3 + 1\<rparr>) = (None, ctx')"
    then show "xmlSecKeyDataAgreementMethodXmlRead env key node ctx =
        (if (flags ctx' AND XMLSEC_KEYINFO_FLAGS_ENCKEY_DONT_STOP_ON_FAILED_DECRYPTION) \<noteq> 0
         then -1 else 0, key, ctx'\<lparr>curEncryptedKeyLevel := curEncryptedKeyLevel ctx' - 1\<rparr>)"
      unfolding xmlSecKeyDataAgreementMethodXmlRead_def
      by (rule generatedKeyXmlRead_failed_generation [OF rd prep ok e3])
  }
  {
    fix n ns ps cs nxt dataId ctx'
    assume "((flags ctx AND XMLSEC_KEYINFO_FLAGS_DONT_STOP_ON_KEY_FOUND) \<noteq> 0
             \<or> xmlSecKeyIsValid env key = 0
             \<or> xmlSecKeyMatch env key None (keyReq ctx) = 0)
        \<and> (if xmlSecPtrListGetSize (enabledKeyData ctx) > 0
            then xmlSecKeyDataIdListFindByNode (enabledKeyData ctx) (Some n) ns
                   xmlSecKeyDataUsageKeyInfoNodeRead
            else xmlSecKeyDataIdListFindByNode (xmlSecKeyDataIdsGet env) (Some n) ns
                   xmlSecKeyDataUsageKeyInfoNodeRead) = Some dataId
        \<and> xmlSecKeyDataXmlRead env dataId key (XmlElement n ns ps cs) ctx = (0, key, ctx')"
    then show "xmlSecKeyInfoNodeRead_loop env (XmlElement n ns ps cs # nxt) key ctx
        = xmlSecKeyInfoNodeRead_loop env nxt key ctx'"
      by (simp del: xmlSecKeyDataIdListFindByNode.simps)
  }
qed

lemma sample_prepare:
  "xmlSecKeyInfoCtx_prepareEncCtx sample_enc_env (sample_ctx\<lparr>flags := f\<rparr>)
     = (0, sample_ctx\<lparr>flags := f, encCtx := Some 0\<rparr>)"
  by (simp add: xmlSecKeyInfoCtx_prepareEncCtx_def xmlSecKeyInfoCtxCreateEncCtx_def
        xmlSecKeyInfoCtxCopyUserPref_def xmlSecPtrListCopy_def Let_def
        sample_enc_env_def sample_env0_def sample_ctx_def)


theorem C5_failed_decryption_swallowed_unless_flag_witness:
  "mode (sample_ctx\<lparr>flags := 0\<rparr>) = xmlSecKeyInfoModeRead
   \<and> xmlSecKeyInfoCtx_prepareEncCtx sample_enc_env (sample_ctx\<lparr>flags := 0\<rparr>)
       = (0, sample_ctx\<lparr>flags := 0, encCtx := Some 0\<rparr>)
   \<and> xmlSecEncCtxDecryptToBuffer sample_enc_env 0 sample_enc_node = (None, 0)
   \<and> xmlSecKeyDataEncryptedKeyXmlRead sample_enc_env sample_key sample_enc_node
        (sample_ctx\<lparr>flags := 0\<rparr>)
       = (0, sample_key, sample_ctx\<lparr>flags := 0, encCtx := Some 0\<rparr>)
   \<and> xmlSecKeyDataEncryptedKeyXmlRead sample_enc_env sample_key sample_enc_node
        (sample_ctx\<lparr>flags := 0x1000\<rparr>)
       = (-1, sample_key, sample_ctx\<lparr>flags := 0x1000, encCtx := Some 0\<rparr>)
   \<and> xmlSecKeyDataDerivedKeyXmlRead sample_enc_env sample_key sample_enc_node
        (sample_ctx\<lparr>flags := 0\<rparr>)
       = (0, sample_key, sample_ctx\<lparr>flags := 0, encCtx := Some 0\<rparr>)
   \<and> xmlSecKeyDataAgreementMethodXmlRead sample_enc_env sample_key sample_enc_node
        (sample_ctx\<lparr>flags := 0x1000\<rparr>)
       = (-1, sample_key, sample_ctx\<lparr>flags := 0x1000, encCtx := Some 0\<rparr>)
   \<and> xmlSecKeyInfoNodeRead_loop sample_enc_env [sample_enc_node, sample_rsa_node] sample_key
        (sample_ctx\<lparr>flags := 0\<rparr>)
       = (0, sample_rsa_key, sample_ctx\<lparr>flags := 0, encCtx := Some 0\<rparr>)"
proof -
  have rd: "\<And>f. mode (sample_ctx\<lparr>flags := f\<rparr>) = xmlSecKeyInfoModeRead"
    by (simp add: sample_simps)
  have ok: "\<not> (0::int) < 0" by simp
  have e3: "\<And>f. encCtx (sample_ctx\<lparr>flags := f, encCtx := Some 0\<rparr>) = Some 0" by simp
  note c5 = C5_failed_decryption_swallowed_unless_flag [OF rd sample_prepare ok e3]
  have dec: "xmlSecEncCtxDecryptToBuffer sample_enc_env 0 sample_enc_node = (None, 0)"
    by (simp add: sample_enc_env_def sample_env0_def)
  have enc: "\<And>f. xmlSecKeyDataEncryptedKeyXmlRead sample_enc_env sample_key sample_enc_node
        (sample_ctx\<lparr>flags := f\<rparr>)
       = (if (f AND XMLSEC_KEYINFO_FLAGS_ENCKEY_DONT_STOP_ON_FAILED_DECRYPTION) \<noteq> 0
          then -1 else 0, sample_key, sample_ctx\<lparr>flags := f, encCtx := Some 0\<rparr>)"
    using c5 [where node = sample_enc_node and key = sample_key, THEN conjunct1, rule_format,
        where res = None and ?e4.0 = 0] dec
    by simp
  have gen: "\<And>f. xmlSecEncCtxDerivedKeyGenerate sample_enc_env 0
               (keyId (keyReq (sample_ctx\<lparr>flags := f, encCtx := Some 0\<rparr>))) sample_enc_node
               (sample_ctx\<lparr>flags := f, encCtx := Some 0,
                  curEncryptedKeyLevel :=
                    curEncryptedKeyLevel (sample_ctx\<lparr>flags := f, encCtx := Some 0\<rparr>) + 1\<rparr>)
             = (None, sample_ctx\<lparr>flags := f, encCtx := Some 0, curEncryptedKeyLevel := 1\<rparr>)"
    by (simp add: sample_enc_env_def sample_env0_def sample_ctx_def)
  have agr: "\<And>f. xmlSecEncCtxAgreementMethodGenerate sample_enc_env 0
               (keyId (keyReq (sample_ctx\<lparr>flags := f, encCtx := Some 0\<rparr>))) sample_enc_node
               (sample_ctx\<lparr>flags := f, encCtx := Some 0,
                  curEncryptedKeyLevel :=
                    curEncryptedKeyLevel (sample_ctx\<lparr>flags := f, encCtx := Some 0\<rparr>) + 1\<rparr>)
             = (None, sample_ctx\<lparr>flags := f, encCtx := Some 0, curEncryptedKeyLevel := 1\<rparr>)"
    by (simp add: sample_enc_env_def sample_env0_def sample_ctx_def)
  have der: "xmlSecKeyDataDerivedKeyXmlRead sample_enc_env sample_key sample_enc_node
        (sample_ctx\<lparr>flags := 0\<rparr>)
       = (0, sample_key, sample_ctx\<lparr>flags := 0, encCtx := Some 0\<rparr>)"
    using c5 [where key = sample_key, THEN conjunct2, THEN conjunct1, rule_format, OF gen,
        where f = 0]
    by (simp add: sample_ctx_def)
  have agm: "xmlSecKeyDataAgreementMethodXmlRead sample_enc_env sample_key sample_enc_node
        (sample_ctx\<lparr>flags := 0x1000\<rparr>)
       = (-1, sample_key, sample_ctx\<lparr>flags := 0x1000, encCtx := Some 0\<rparr>)"
    using c5 [where key = sample_key, THEN conjunct2, THEN conjunct2, THEN conjunct1,
        rule_format, OF agr, where f = "0x1000"]
    by (simp add: sample_ctx_def
          XMLSEC_KEYINFO_FLAGS_ENCKEY_DONT_STOP_ON_FAILED_DECRYPTION_def)
  have cond: "xmlSecKeyIsValid sample_enc_env sample_key = 0"
    by (simp add: sample_enc_env_def sample_env0_def sample_key_def)
  have look: "(if xmlSecPtrListGetSize (enabledKeyData (sample_ctx\<lparr>flags := 0\<rparr>)) > 0
            then xmlSecKeyDataIdListFindByNode (enabledKeyData (sample_ctx\<lparr>flags := 0\<rparr>))
                   (Some ''EncryptedKey'') (Some xmlSecEncNs) xmlSecKeyDataUsageKeyInfoNodeRead
            else xmlSecKeyDataIdListFindByNode (xmlSecKeyDataIdsGet sample_enc_env)
                   (Some ''EncryptedKey'') (Some xmlSecEncNs) xmlSecKeyDataUsageKeyInfoNodeRead)
           = Some xmlSecKeyDataEncryptedKeyKlass"
    by (simp add: sample_enc_env_def xmlSecKeyDataEncryptedKeyKlass_def sample_simps)
  have disp: "xmlSecKeyDataXmlRead sample_enc_env xmlSecKeyDataEncryptedKeyKlass sample_key
                (XmlElement ''EncryptedKey'' (Some xmlSecEncNs) [] []) (sample_ctx\<lparr>flags := 0\<rparr>)
              = (0, sample_key, sample_ctx\<lparr>flags := 0, encCtx := Some 0\<rparr>)"
    by (simp add: sample_enc_env_def xmlSecKeyDataEncryptedKeyKlass_def
          xmlSecKeyDataEncryptedKeyXmlRead_def xmlSecKeyInfoCtx_prepareEncCtx_def
          xmlSecKeyInfoCtxCreateEncCtx_def xmlSecKeyInfoCtxCopyUserPref_def
          xmlSecPtrListCopy_def Let_def sample_env0_def sample_ctx_def
          XMLSEC_KEYINFO_FLAGS_ENCKEY_DONT_STOP_ON_FAILED_DECRYPTION_def)
  have rest: "xmlSecKeyInfoNodeRead_loop sample_enc_env [sample_rsa_node] sample_key
                (sample_ctx\<lparr>flags := 0, encCtx := Some 0\<rparr>)
              = (0, sample_rsa_key, sample_ctx\<lparr>flags := 0, encCtx := Some 0\<rparr>)"
    by (simp add: sample_enc_env_def xmlSecKeyDataEncryptedKeyKlass_def xmlSecEncNs_def
          sample_simps)
  have pass: "xmlSecKeyInfoNodeRead_loop sample_enc_env [sample_enc_node, sample_rsa_node]
                sample_key (sample_ctx\<lparr>flags := 0\<rparr>)
              = (0, sample_rsa_key, sample_ctx\<lparr>flags := 0, encCtx := Some 0\<rparr>)"
    using C5_failed_decryption_swallowed_unless_flag [OF rd [of 0] sample_prepare [of 0] ok
        e3 [of 0], where key = sample_key,
        THEN conjunct2, THEN conjunct2, THEN conjunct2, rule_format,
        OF conjI [OF disjI2 [OF disjI1 [OF cond]] conjI [OF look disp]],
        where nxt = "[sample_rsa_node]"]
      rest
    by (simp add: sample_enc_node_def)
  show ?thesis
    using rd [of 0] sample_prepare [of 0] dec enc [of 0] enc [of "0x1000"] der agm pass
    by (simp add: XMLSEC_KEYINFO_FLAGS_ENCKEY_DONT_STOP_ON_FAILED_DECRYPTION_def)
qed

text \<open>
  Claim C8. Whatever \<^verbatim>\<open>xmlSecKeyInfoCtxCopyUserPref\<close> returns, the three
  current levels, the operation, the key requirement, the mode and the results and engine
  states of both transform contexts of \<open>dst\<close> are as before. When it returns 0,
  \<open>dst\<close> is changed in exactly these fields: user data, flags, flags2, keys
  manager, base64 line size, the list of enabled key data (the list of \<open>src\<close>),
  the three maximum levels, the preference parts of both transform contexts (what the
  transform engine's preference copy returns), the two certificate verification settings;
  and, when both contexts have an encryption context, that of \<open>dst\<close> (set to
  encrypted-key mode and passed to the encryption engine's preference copy).
\<close>

theorem C8_copy_user_pref_copies_settings_only:
  "xmlSecKeyInfoCtxCopyUserPref env dst src = (ret, dst') \<Longrightarrow>
   (ret = 0 \<or> ret = -1)
   \<and> curRetrievalMethodLevel dst' = curRetrievalMethodLevel dst
   \<and> curKeyInfoReferenceLevel dst' = curKeyInfoReferenceLevel dst
   \<and> curEncryptedKeyLevel dst' = curEncryptedKeyLevel dst
   \<and> operation dst' = operation dst
   \<and> keyReq dst' = keyReq dst
   \<and> mode dst' = mode dst
   \<and> result (retrievalMethodCtx dst') = result (retrievalMethodCtx dst)
   \<and> transformState (retrievalMethodCtx dst') = transformState (retrievalMethodCtx dst)
   \<and> result (keyInfoReferenceCtx dst') = result (keyInfoReferenceCtx dst)
   \<and> transformState (keyInfoReferenceCtx dst') = transformState (keyInfoReferenceCtx dst)
   \<and> (ret = 0 \<longrightarrow>
        dst' = dst\<lparr>userData := userData src, flags := flags src, flags2 := flags2 src,
              keysMngr := keysMngr src, base64LineSize := base64LineSize src,
              enabledKeyData := enabledKeyData src,
              maxRetrievalMethodLevel := maxRetrievalMethodLevel src,
              retrievalMethodCtx := (retrievalMethodCtx dst)\<lparr>transformPrefs :=
                snd (xmlSecTransformCtxCopyUserPref env
                       (transformPrefs (retrievalMethodCtx dst))
                       (transformPrefs (retrievalMethodCtx src)))\<rparr>,
              maxKeyInfoReferenceLevel := maxKeyInfoReferenceLevel src,
              keyInfoReferenceCtx := (keyInfoReferenceCtx dst)\<lparr>transformPrefs :=
                snd (xmlSecTransformCtxCopyUserPref env
                       (transformPrefs (keyInfoReferenceCtx dst))
                       (transformPrefs (keyInfoReferenceCtx src)))\<rparr>,
              encCtx := (case (encCtx src, encCtx dst) of
                           (Some es, Some ed) \<Rightarrow>
                             Some (snd (xmlSecEncCtxCopyUserPref env
                                     (encCtxSetMode env ed xmlEncCtxModeEncryptedKey) es))
                         | _ \<Rightarrow> encCtx dst),
              maxEncryptedKeyLevel := maxEncryptedKeyLevel src,
              certsVerificationTime := certsVerificationTime src,
              certsVerificationDepth := certsVerificationDepth src\<rparr>)"
proof -
  assume c: "xmlSecKeyInfoCtxCopyUserPref env dst src = (ret, dst')"
  have st: "ret = 0 \<or> ret = -1"
    using CopyUserPref_status [of env dst src] c by simp
  show ?thesis
    using st CopyUserPref_frame [OF c] CopyUserPref_success [of env dst src dst'] c
    by blast
qed


theorem C8_copy_user_pref_copies_settings_only_witness:
  "xmlSecKeyInfoCtxCopyUserPref sample_env0
      (sample_ctx\<lparr>curRetrievalMethodLevel := 1, operation := xmlSecTransformOperationSign\<rparr>)
      (sample_ctx\<lparr>userData := 7, flags := 3, enabledKeyData := [sample_rsa_klass],
                   maxRetrievalMethodLevel := 5, curEncryptedKeyLevel := 1\<rparr>)
     = (0, sample_ctx\<lparr>userData := 7, flags := 3, enabledKeyData := [sample_rsa_klass],
                        maxRetrievalMethodLevel := 5, curRetrievalMethodLevel := 1,
                        operation := xmlSecTransformOperationSign\<rparr>)
   \<and> curEncryptedKeyLevel (snd (xmlSecKeyInfoCtxCopyUserPref sample_env0
      (sample_ctx\<lparr>curRetrievalMethodLevel := 1, operation := xmlSecTransformOperationSign\<rparr>)
      (sample_ctx\<lparr>userData := 7, flags := 3, enabledKeyData := [sample_rsa_klass],
                   maxRetrievalMethodLevel := 5, curEncryptedKeyLevel := 1\<rparr>))) = 0"
proof -
  have run: "xmlSecKeyInfoCtxCopyUserPref sample_env0
      (sample_ctx\<lparr>curRetrievalMethodLevel := 1, operation := xmlSecTransformOperationSign\<rparr>)
      (sample_ctx\<lparr>userData := 7, flags := 3, enabledKeyData := [sample_rsa_klass],
                   maxRetrievalMethodLevel := 5, curEncryptedKeyLevel := 1\<rparr>)
     = (0, sample_ctx\<lparr>userData := 7, flags := 3, enabledKeyData := [sample_rsa_klass],
                        maxRetrievalMethodLevel := 5, curRetrievalMethodLevel := 1,
                        operation := xmlSecTransformOperationSign\<rparr>)"
    by (simp add: xmlSecKeyInfoCtxCopyUserPref_def xmlSecPtrListCopy_def Let_def
          sample_env0_def sample_ctx_def)
  have "curEncryptedKeyLevel (sample_ctx\<lparr>userData := 7, flags := 3,
            enabledKeyData := [sample_rsa_klass], maxRetrievalMethodLevel := 5,
            curRetrievalMethodLevel := 1, operation := xmlSecTransformOperationSign\<rparr>)
        = curEncryptedKeyLevel (sample_ctx\<lparr>curRetrievalMethodLevel := 1,
            operation := xmlSecTransformOperationSign\<rparr>)"
    using C8_copy_user_pref_copies_settings_only [OF run] by blast
  then show ?thesis
    using run by (simp add: sample_ctx_def)
qed

lemma RetrievalMethodXmlRead_resolve:
  assumes rd: "mode ctx = xmlSecKeyInfoModeRead" and doc: "nodeDoc env node = Some doc"
    and lvl: "curRetrievalMethodLevel ctx < maxRetrievalMethodLevel ctx"
    and d: "(case xmlGetProp node xmlSecAttrType of
      None \<Rightarrow> xmlSecKeyDataIdUnknown
    | Some t \<Rightarrow>
        if xmlSecPtrListGetSize (enabledKeyData ctx) > 0
        then xmlSecKeyDataIdListFindByHref (enabledKeyData ctx) (Some t)
               xmlSecKeyDataUsageRetrievalMethodNode
        else xmlSecKeyDataIdListFindByHref (xmlSecKeyDataIdsGet env) (Some t)
               xmlSecKeyDataUsageRetrievalMethodNode) = dataId"
  shows "xmlSecKeyDataRetrievalMethodXmlRead env key node ctx
          = (if dataId = xmlSecKeyDataIdUnknown
             then (if (flags ctx AND XMLSEC_KEYINFO_FLAGS_RETRMETHOD_STOP_ON_UNKNOWN_HREF) \<noteq> 0
                   then -1 else 0, key,
                   ctx\<lparr>curRetrievalMethodLevel := curRetrievalMethodLevel ctx + 1\<rparr>)
             else xmlSecKeyDataRetrievalMethodXmlRead_fetch env dataId doc key node
                    (ctx\<lparr>curRetrievalMethodLevel := curRetrievalMethodLevel ctx + 1\<rparr>))"
proof (cases "xmlGetProp node xmlSecAttrType")
  case None
  then have "dataId = xmlSecKeyDataIdUnknown" using d by simp
  then show ?thesis
    using rd doc lvl None by (simp add: xmlSecKeyDataRetrievalMethodXmlRead_def Let_def)
next
  case (Some t)
  show ?thesis
  proof (cases "xmlSecPtrListGetSize (enabledKeyData ctx) > 0")
    case True
    then have "xmlSecKeyDataIdListFindByHref (enabledKeyData ctx) (Some t)
               xmlSecKeyDataUsageRetrievalMethodNode = dataId"
      using d Some by simp
    then show ?thesis
      using rd doc lvl Some True
      by (simp add: xmlSecKeyDataRetrievalMethodXmlRead_def Let_def
            del: xmlSecKeyDataIdListFindByHref.simps)
  next
    case False
    then have "xmlSecKeyDataIdListFindByHref (xmlSecKeyDataIdsGet env) (Some t)
               xmlSecKeyDataUsageRetrievalMethodNode = dataId"
      using d Some by simp
    then show ?thesis
      using rd doc lvl Some False
      by (simp add: xmlSecKeyDataRetrievalMethodXmlRead_def Let_def
            del: xmlSecKeyDataIdListFindByHref.simps)
  qed
qed

lemma RetrievalMethodXmlRead_unknown_type:
  assumes rd: "mode ctx = xmlSecKeyInfoModeRead" and doc: "nodeDoc env node = Some doc"
    and lvl: "curRetrievalMethodLevel ctx < maxRetrievalMethodLevel ctx"
    and d: "(case xmlGetProp node xmlSecAttrType of
      None \<Rightarrow> xmlSecKeyDataIdUnknown
    | Some t \<Rightarrow>
        if xmlSecPtrListGetSize (enabledKeyData ctx) > 0
        then xmlSecKeyDataIdListFindByHref (enabledKeyData ctx) (Some t)
               xmlSecKeyDataUsageRetrievalMethodNode
        else xmlSecKeyDataIdListFindByHref (xmlSecKeyDataIdsGet env) (Some t)
               xmlSecKeyDataUsageRetrievalMethodNode) = xmlSecKeyDataIdUnknown"
  shows "xmlSecKeyDataRetrievalMethodXmlRead env key node ctx
          = (if (flags ctx AND XMLSEC_KEYINFO_FLAGS_RETRMETHOD_STOP_ON_UNKNOWN_HREF) \<noteq> 0
             then -1 else 0, key,
             ctx\<lparr>curRetrievalMethodLevel := curRetrievalMethodLevel ctx + 1\<rparr>)"
  using RetrievalMethodXmlRead_resolve [OF rd doc lvl d] by simp

text \<open>
  Claim C3, as amended. RetrievalMethod read, admitted by the level check, for a node
  whose Type attribute is absent or resolves to no handler: when
  \<^verbatim>\<open>RETRMETHOD_STOP_ON_UNKNOWN_HREF\<close> is clear the handler returns 0 at once; it
  sets no URI, executes no transform and dispatches nothing, so the key and the retrieval
  transform context are as they were. When the flag is set it returns -1.
\<close>

theorem C3_retrieval_of_unknown_type_is_skipped:
  "mode ctx = xmlSecKeyInfoModeRead \<Longrightarrow> nodeDoc env node = Some doc \<Longrightarrow>
   curRetrievalMethodLevel ctx < maxRetrievalMethodLevel ctx \<Longrightarrow>
   (case xmlGetProp node xmlSecAttrType of
      None \<Rightarrow> xmlSecKeyDataIdUnknown
    | Some t \<Rightarrow>
        if xmlSecPtrListGetSize (enabledKeyData ctx) > 0
        then xmlSecKeyDataIdListFindByHref (enabledKeyData ctx) (Some t)
               xmlSecKeyDataUsageRetrievalMethodNode
        else xmlSecKeyDataIdListFindByHref (xmlSecKeyDataIdsGet env) (Some t)
               xmlSecKeyDataUsageRetrievalMethodNode) = xmlSecKeyDataIdUnknown \<Longrightarrow>
   fst (xmlSecKeyDataRetrievalMethodXmlRead env key node ctx)
     = (if (flags ctx AND XMLSEC_KEYINFO_FLAGS_RETRMETHOD_STOP_ON_UNKNOWN_HREF) \<noteq> 0
        then -1 else 0)
   \<and> fst (snd (xmlSecKeyDataRetrievalMethodXmlRead env key node ctx)) = key
   \<and> retrievalMethodCtx (snd (snd (xmlSecKeyDataRetrievalMethodXmlRead env key node ctx)))
       = retrievalMethodCtx ctx"
proof -
  assume rd: "mode ctx = xmlSecKeyInfoModeRead" and doc: "nodeDoc env node = Some doc"
    and lvl: "curRetrievalMethodLevel ctx < maxRetrievalMethodLevel ctx"
    and unknown: "(case xmlGetProp node xmlSecAttrType of
      None \<Rightarrow> xmlSecKeyDataIdUnknown
    | Some t \<Rightarrow>
        if xmlSecPtrListGetSize (enabledKeyData ctx) > 0
        then xmlSecKeyDataIdListFindByHref (enabledKeyData ctx) (Some t)
               xmlSecKeyDataUsageRetrievalMethodNode
        else xmlSecKeyDataIdListFindByHref (xmlSecKeyDataIdsGet env) (Some t)
               xmlSecKeyDataUsageRetrievalMethodNode) = xmlSecKeyDataIdUnknown"
  have "xmlSecKeyDataRetrievalMethodXmlRead env key node ctx
          = (if (flags ctx AND XMLSEC_KEYINFO_FLAGS_RETRMETHOD_STOP_ON_UNKNOWN_HREF) \<noteq> 0
             then -1 else 0, key,
             ctx\<lparr>curRetrievalMethodLevel := curRetrievalMethodLevel ctx + 1\<rparr>)"
    by (rule RetrievalMethodXmlRead_unknown_type [OF rd doc lvl unknown])
  then show ?thesis by simp
qed

theorem C3_retrieval_of_unknown_type_is_skipped_witness:
  "mode sample_ctx = xmlSecKeyInfoModeRead
   \<and> nodeDoc sample_env0 sample_retrieval_node = Some []
   \<and> curRetrievalMethodLevel sample_ctx < maxRetrievalMethodLevel sample_ctx
   \<and> xmlGetProp sample_retrieval_node xmlSecAttrType = None
   \<and> fst (xmlSecKeyDataRetrievalMethodXmlRead sample_env0 sample_key sample_retrieval_node
            sample_ctx) = 0
   \<and> fst (xmlSecKeyDataRetrievalMethodXmlRead sample_env0 sample_key sample_retrieval_node
            (sample_ctx\<lparr>flags := 0x10\<rparr>)) = -1
   \<and> retrievalMethodCtx (snd (snd (xmlSecKeyDataRetrievalMethodXmlRead sample_env0 sample_key
            sample_retrieval_node sample_ctx))) = retrievalMethodCtx sample_ctx"
proof -
  have rd: "\<And>f. mode (sample_ctx\<lparr>flags := f\<rparr>) = xmlSecKeyInfoModeRead"
    by (simp add: sample_simps)
  have doc: "nodeDoc sample_env0 sample_retrieval_node = Some []"
    by (simp add: sample_simps)
  have lvl: "\<And>f. curRetrievalMethodLevel (sample_ctx\<lparr>flags := f\<rparr>)
                < maxRetrievalMethodLevel (sample_ctx\<lparr>flags := f\<rparr>)"
    by (simp add: sample_simps)
  have notype: "xmlGetProp sample_retrieval_node xmlSecAttrType = None"
    by (simp add: sample_retrieval_node_def xmlSecAttrType_def)
  have unres: "\<And>f. (case xmlGetProp sample_retrieval_node xmlSecAttrType of
      None \<Rightarrow> xmlSecKeyDataIdUnknown
    | Some t \<Rightarrow>
        if xmlSecPtrListGetSize (enabledKeyData (sample_ctx\<lparr>flags := f\<rparr>)) > 0
        then xmlSecKeyDataIdListFindByHref (enabledKeyData (sample_ctx\<lparr>flags := f\<rparr>)) (Some t)
               xmlSecKeyDataUsageRetrievalMethodNode
        else xmlSecKeyDataIdListFindByHref (xmlSecKeyDataIdsGet sample_env0) (Some t)
               xmlSecKeyDataUsageRetrievalMethodNode) = xmlSecKeyDataIdUnknown"
    using notype by simp
  have same: "sample_ctx\<lparr>flags := 0\<rparr> = sample_ctx" and fl: "flags sample_ctx = 0"
    by (simp_all add: sample_ctx_def)
  show ?thesis
    using C3_retrieval_of_unknown_type_is_skipped [OF rd [of 0] doc lvl [of 0] unres [of 0],
        where key = sample_key]
      C3_retrieval_of_unknown_type_is_skipped [OF rd [of "0x10"] doc lvl [of "0x10"]
        unres [of "0x10"], where key = sample_key]
      rd [of 0] doc lvl [of 0] notype same fl
    by (simp add: XMLSEC_KEYINFO_FLAGS_RETRMETHOD_STOP_ON_UNKNOWN_HREF_def)
qed

text \<open>
  The claim as it stands fails: for a RetrievalMethod without a Type attribute and with
  the flag clear, in an environment whose transform engine would return the bytes
  \<open>[60, 62]\<close>, the handler returns 0 and the result of the retrieval transform context
  is still empty: the pipeline was not executed.
\<close>

theorem C3_retrieval_of_unknown_type_counterexample:
  "xmlGetProp sample_retrieval_node xmlSecAttrType = None
   \<and> (flags sample_ctx AND XMLSEC_KEYINFO_FLAGS_RETRMETHOD_STOP_ON_UNKNOWN_HREF) = 0
   \<and> curRetrievalMethodLevel sample_ctx < maxRetrievalMethodLevel sample_ctx
   \<and> result (snd (xmlSecTransformCtxExecute sample_env0 (retrievalMethodCtx sample_ctx) []))
       = Some [60, 62]
   \<and> fst (xmlSecKeyDataRetrievalMethodXmlRead sample_env0 sample_key sample_retrieval_node
            sample_ctx) = 0
   \<and> result (retrievalMethodCtx (snd (snd (xmlSecKeyDataRetrievalMethodXmlRead sample_env0
            sample_key sample_retrieval_node sample_ctx)))) = None"
  by (simp add: xmlSecKeyDataRetrievalMethodXmlRead_def Let_def sample_retrieval_node_def
        xmlSecAttrType_def sample_simps)

lemma read_loop_reference_level:
  assumes hx: "\<forall>d k n c.
      curKeyInfoReferenceLevel c
        \<le> curKeyInfoReferenceLevel (snd (snd (xmlSecKeyDataXmlRead env d k n c)))
      \<and> (0 \<le> fst (xmlSecKeyDataXmlRead env d k n c) \<longrightarrow>
           curKeyInfoReferenceLevel (snd (snd (xmlSecKeyDataXmlRead env d k n c)))
             = curKeyInfoReferenceLevel c)"
  shows "xmlSecKeyInfoNodeRead_loop env cur key ctx = (ret, key', ctx') \<Longrightarrow>
         curKeyInfoReferenceLevel ctx \<le> curKeyInfoReferenceLevel ctx'
         \<and> (0 \<le> ret \<longrightarrow> curKeyInfoReferenceLevel ctx' = curKeyInfoReferenceLevel ctx)"
proof (induction cur arbitrary: key ctx)
  case Nil
  then show ?case by simp
next
  case (Cons c nxt)
  have hx': "\<And>d k n c r k' c'. xmlSecKeyDataXmlRead env d k n c = (r, k', c') \<Longrightarrow>
      curKeyInfoReferenceLevel c \<le> curKeyInfoReferenceLevel c'
      \<and> (0 \<le> r \<longrightarrow> curKeyInfoReferenceLevel c' = curKeyInfoReferenceLevel c)"
    using hx by (metis fst_conv snd_conv)
  show ?case
  proof (cases c)
    case (XmlOther t)
    then show ?thesis using Cons by simp
  next
    case (XmlElement n ns ps cs)
    define L where "L = (if xmlSecPtrListGetSize (enabledKeyData ctx) > 0
               then xmlSecKeyDataIdListFindByNode (enabledKeyData ctx)
                      (Some n) ns xmlSecKeyDataUsageKeyInfoNodeRead
               else xmlSecKeyDataIdListFindByNode (xmlSecKeyDataIdsGet env)
                      (Some n) ns xmlSecKeyDataUsageKeyInfoNodeRead)"
    show ?thesis
    proof (cases "(flags ctx AND XMLSEC_KEYINFO_FLAGS_DONT_STOP_ON_KEY_FOUND) \<noteq> 0
         \<or> xmlSecKeyIsValid env key = 0
         \<or> xmlSecKeyMatch env key None (keyReq ctx) = 0")
      case False
      then show ?thesis using Cons.prems XmlElement by auto
    next
      case True
      show ?thesis
      proof (cases L)
        case None
        then show ?thesis
          using Cons.prems XmlElement True Cons.IH [of key ctx] unfolding L_def
          by (auto simp del: xmlSecKeyDataIdListFindByNode.simps split: if_splits)
      next
        case (Some d)
        obtain r k1 c1 where x: "xmlSecKeyDataXmlRead env d key (XmlElement n ns ps cs) ctx
                                   = (r, k1, c1)"
          by (cases "xmlSecKeyDataXmlRead env d key (XmlElement n ns ps cs) ctx") auto
        note lv = hx' [OF x]
        show ?thesis
        proof (cases "r < 0")
          case True
          then have "(ret, key', ctx') = (-1, k1, c1)"
            using Cons.prems XmlElement \<open>(flags ctx AND _) \<noteq> 0 \<or> _\<close> Some x
            unfolding L_def
            by (simp del: xmlSecKeyDataIdListFindByNode.simps)
          then show ?thesis using lv by simp
        next
          case False
          then have "xmlSecKeyInfoNodeRead_loop env nxt k1 c1 = (ret, key', ctx')"
            using Cons.prems XmlElement \<open>(flags ctx AND _) \<noteq> 0 \<or> _\<close> Some x
            unfolding L_def
            by (simp del: xmlSecKeyDataIdListFindByNode.simps)
          from Cons.IH [OF this] show ?thesis using lv False by simp
        qed
      qed
    qed
  qed
qed


lemma KeyInfoReferenceReadXmlResult_level:
  assumes hx: "\<forall>d k n c.
      curKeyInfoReferenceLevel c
        \<le> curKeyInfoReferenceLevel (snd (snd (xmlSecKeyDataXmlRead env d k n c)))
      \<and> (0 \<le> fst (xmlSecKeyDataXmlRead env d k n c) \<longrightarrow>
           curKeyInfoReferenceLevel (snd (snd (xmlSecKeyDataXmlRead env d k n c)))
             = curKeyInfoReferenceLevel c)"
    and r: "xmlSecKeyDataKeyInfoReferenceReadXmlResult env typeId key buffer bufferSize ctx
              = (ret, key', ctx')"
  shows "curKeyInfoReferenceLevel ctx \<le> curKeyInfoReferenceLevel ctx'
         \<and> (0 \<le> ret \<longrightarrow> curKeyInfoReferenceLevel ctx' = curKeyInfoReferenceLevel ctx)"
proof -
  note hl = read_loop_reference_level [OF hx]
  show ?thesis
    using r
    unfolding xmlSecKeyDataKeyInfoReferenceReadXmlResult_def xmlSecKeyInfoNodeRead_def
    by (auto dest!: hl split: if_splits option.splits prod.splits)
qed

lemma KeyInfoReferenceXmlRead_level:
  assumes hx: "\<forall>d k n c.
      curKeyInfoReferenceLevel c
        \<le> curKeyInfoReferenceLevel (snd (snd (xmlSecKeyDataXmlRead env d k n c)))
      \<and> (0 \<le> fst (xmlSecKeyDataXmlRead env d k n c) \<longrightarrow>
           curKeyInfoReferenceLevel (snd (snd (xmlSecKeyDataXmlRead env d k n c)))
             = curKeyInfoReferenceLevel c)"
    and rd: "mode ctx = xmlSecKeyInfoModeRead" and doc: "nodeDoc env node = Some doc"
    and lvl: "curKeyInfoReferenceLevel ctx < maxKeyInfoReferenceLevel ctx"
    and r: "xmlSecKeyDataKeyInfoReferenceXmlRead env key node ctx = (ret, key', ctx')"
  shows "(ret < 0 \<longrightarrow> curKeyInfoReferenceLevel ctx + 1 \<le> curKeyInfoReferenceLevel ctx')
         \<and> (0 \<le> ret \<longrightarrow> curKeyInfoReferenceLevel ctx' = curKeyInfoReferenceLevel ctx)"
proof -
  note hr = KeyInfoReferenceReadXmlResult_level [OF hx]
  show ?thesis
    using r rd doc lvl unfolding xmlSecKeyDataKeyInfoReferenceXmlRead_def Let_def
    by (auto dest!: hr split: if_splits option.splits prod.splits)
qed

lemma EncryptedKeyXmlRead_level:
  assumes hb: "\<forall>d k b sz c.
      curEncryptedKeyLevel c
        \<le> curEncryptedKeyLevel (snd (snd (xmlSecKeyDataBinRead env d k b sz c)))
      \<and> (0 \<le> fst (xmlSecKeyDataBinRead env d k b sz c) \<longrightarrow>
           curEncryptedKeyLevel (snd (snd (xmlSecKeyDataBinRead env d k b sz c)))
             = curEncryptedKeyLevel c)"
    and r: "xmlSecKeyDataEncryptedKeyXmlRead env key node ctx = (ret, key', ctx')"
  shows "curEncryptedKeyLevel ctx \<le> curEncryptedKeyLevel ctx'
         \<and> (0 \<le> ret \<longrightarrow> curEncryptedKeyLevel ctx' = curEncryptedKeyLevel ctx)"
proof -
  have hb': "\<And>d k b sz c r k' c'. xmlSecKeyDataBinRead env d k b sz c = (r, k', c') \<Longrightarrow>
      curEncryptedKeyLevel c \<le> curEncryptedKeyLevel c'
      \<and> (0 \<le> r \<longrightarrow> curEncryptedKeyLevel c' = curEncryptedKeyLevel c)"
    using hb by (metis fst_conv snd_conv)
  obtain r3 ctx3 where prep: "xmlSecKeyInfoCtx_prepareEncCtx env ctx = (r3, ctx3)"
    by (cases "xmlSecKeyInfoCtx_prepareEncCtx env ctx") auto
  have lv: "curEncryptedKeyLevel ctx3 = curEncryptedKeyLevel ctx"
    using prep by (rule prepareEncCtx_fields)
  show ?thesis
    using r prep lv unfolding xmlSecKeyDataEncryptedKeyXmlRead_def Let_def
    by (auto dest!: hb' split: if_splits option.splits prod.splits)
qed

lemma generatedKeyXmlRead_level:
  assumes hg: "\<forall>e d n c. curEncryptedKeyLevel (snd (generate e d n c)) = curEncryptedKeyLevel c"
    and r: "xmlSecKeyData_generatedKeyXmlRead env generate key node ctx = (ret, key', ctx')"
  shows "curEncryptedKeyLevel ctx' = curEncryptedKeyLevel ctx"
proof -
  have hg': "\<And>e d n c g c'. generate e d n c = (g, c') \<Longrightarrow>
               curEncryptedKeyLevel c' = curEncryptedKeyLevel c"
    using hg by (metis snd_conv)
  obtain r3 ctx3 where prep: "xmlSecKeyInfoCtx_prepareEncCtx env ctx = (r3, ctx3)"
    by (cases "xmlSecKeyInfoCtx_prepareEncCtx env ctx") auto
  have lv: "curEncryptedKeyLevel ctx3 = curEncryptedKeyLevel ctx"
    using prep by (rule prepareEncCtx_fields)
  show ?thesis
    using r prep lv unfolding xmlSecKeyData_generatedKeyXmlRead_def Let_def
    by (auto dest!: hg' split: if_splits option.splits prod.splits)
qed

lemma level_check_fails:
  assumes rd: "mode ctx = xmlSecKeyInfoModeRead"
  shows "nodeDoc env node = Some doc \<Longrightarrow>
           maxRetrievalMethodLevel ctx \<le> curRetrievalMethodLevel ctx \<Longrightarrow>
           xmlSecKeyDataRetrievalMethodXmlRead env key node ctx = (-1, key, ctx)"
    and "nodeDoc env node = Some doc \<Longrightarrow>
           maxKeyInfoReferenceLevel ctx \<le> curKeyInfoReferenceLevel ctx \<Longrightarrow>
           xmlSecKeyDataKeyInfoReferenceXmlRead env key node ctx = (-1, key, ctx)"
    and "maxEncryptedKeyLevel ctx \<le> curEncryptedKeyLevel ctx \<Longrightarrow>
           xmlSecKeyDataEncryptedKeyXmlRead env key node ctx = (-1, key, ctx)"
    and "maxEncryptedKeyLevel ctx \<le> curEncryptedKeyLevel ctx \<Longrightarrow>
           xmlSecKeyDataDerivedKeyXmlRead env key node ctx = (-1, key, ctx)"
    and "maxEncryptedKeyLevel ctx \<le> curEncryptedKeyLevel ctx \<Longrightarrow>
           xmlSecKeyDataAgreementMethodXmlRead env key node ctx = (-1, key, ctx)"
  using rd
  by (simp_all add: xmlSecKeyDataRetrievalMethodXmlRead_def
        xmlSecKeyDataKeyInfoReferenceXmlRead_def xmlSecKeyDataEncryptedKeyXmlRead_def
        xmlSecKeyDataDerivedKeyXmlRead_def xmlSecKeyDataAgreementMethodXmlRead_def
        xmlSecKeyData_generatedKeyXmlRead_def xmlSecKeyInfoCtx_prepareEncCtx_def)


lemma only_at_retrieval_level_fields:
  "xmlSecKeyDataXmlRead (only_at_retrieval_level L env) d k n c
     = (if curRetrievalMethodLevel c = L then xmlSecKeyDataXmlRead env d k n c else (-1, k, c))"
  "xmlSecKeyDataBinRead (only_at_retrieval_level L env) i k b sz c
     = (if curRetrievalMethodLevel c = L then xmlSecKeyDataBinRead env i k b sz c
        else (-1, k, c))"
  "xmlSecKeyDataIdsGet (only_at_retrieval_level L env) = xmlSecKeyDataIdsGet env"
  "xmlRecoverMemory (only_at_retrieval_level L env) = xmlRecoverMemory env"
  "nodeDoc (only_at_retrieval_level L env) = nodeDoc env"
  "xmlSecTransformCtxReset (only_at_retrieval_level L env) = xmlSecTransformCtxReset env"
  "xmlSecTransformCtxSetUri (only_at_retrieval_level L env) = xmlSecTransformCtxSetUri env"
  "xmlSecTransformCtxNodesListRead (only_at_retrieval_level L env)
     = xmlSecTransformCtxNodesListRead env"
  "xmlSecTransformCtxExecute (only_at_retrieval_level L env) = xmlSecTransformCtxExecute env"
  by (simp_all add: only_at_retrieval_level_def)

lemma ReadXmlResult_at_level:
  "curRetrievalMethodLevel ctx = L \<Longrightarrow>
   xmlSecKeyDataRetrievalMethodReadXmlResult (only_at_retrieval_level L env) typeId key
       buffer bufferSize ctx
     = xmlSecKeyDataRetrievalMethodReadXmlResult env typeId key buffer bufferSize ctx"
  by (simp add: xmlSecKeyDataRetrievalMethodReadXmlResult_def only_at_retrieval_level_fields
        del: xmlSecKeyDataIdListFindByNode.simps
        cong: list.case_cong option.case_cong prod.case_cong if_cong)

lemma fetch_at_level:
  assumes l: "curRetrievalMethodLevel ctx = L"
  shows "xmlSecKeyDataRetrievalMethodXmlRead_fetch (only_at_retrieval_level L env) dataId doc
           key node ctx
         = xmlSecKeyDataRetrievalMethodXmlRead_fetch env dataId doc key node ctx"
proof -
  have rx: "\<And>tc data. xmlSecKeyDataRetrievalMethodReadXmlResult
               (only_at_retrieval_level L env) dataId key data (xmlSecBufferGetSize data)
               (ctx\<lparr>retrievalMethodCtx := tc\<rparr>)
             = xmlSecKeyDataRetrievalMethodReadXmlResult env dataId key data
                 (xmlSecBufferGetSize data) (ctx\<lparr>retrievalMethodCtx := tc\<rparr>)"
    using l by (intro ReadXmlResult_at_level) simp
  show ?thesis
    unfolding xmlSecKeyDataRetrievalMethodXmlRead_fetch_def Let_def
    using l
    by (simp add: rx only_at_retrieval_level_fields
          cong: list.case_cong option.case_cong prod.case_cong if_cong)
qed

lemma RetrievalMethodXmlRead_at_level:
  "xmlSecKeyDataRetrievalMethodXmlRead
       (only_at_retrieval_level (curRetrievalMethodLevel ctx + 1) env) key node ctx
     = xmlSecKeyDataRetrievalMethodXmlRead env key node ctx"
  by (simp add: xmlSecKeyDataRetrievalMethodXmlRead_def fetch_at_level
        only_at_retrieval_level_fields Let_def del: xmlSecKeyDataIdListFindByHref.simps
        cong: list.case_cong option.case_cong prod.case_cong if_cong)

lemma RetrievalMethodReadXmlResult_never_lowers:
  assumes hx: "\<forall>d k n c.
      curRetrievalMethodLevel c
        \<le> curRetrievalMethodLevel (snd (snd (xmlSecKeyDataXmlRead env d k n c)))"
    and r: "xmlSecKeyDataRetrievalMethodReadXmlResult env typeId key buffer bufferSize ctx
              = (ret, key', ctx')"
  shows "curRetrievalMethodLevel ctx \<le> curRetrievalMethodLevel ctx'"
proof -
  have hx': "\<And>d k n c r k' c'. xmlSecKeyDataXmlRead env d k n c = (r, k', c') \<Longrightarrow>
      curRetrievalMethodLevel c \<le> curRetrievalMethodLevel c'"
    using hx by (metis snd_conv)
  show ?thesis
    using r unfolding xmlSecKeyDataRetrievalMethodReadXmlResult_def
    by (auto simp del: xmlSecKeyDataIdListFindByNode.simps dest!: hx'
          split: if_splits option.splits prod.splits)
qed

lemma RetrievalMethodXmlRead_fetch_never_lowers:
  assumes hx: "\<forall>d k n c.
      curRetrievalMethodLevel c
        \<le> curRetrievalMethodLevel (snd (snd (xmlSecKeyDataXmlRead env d k n c)))"
    and hb: "\<forall>d k b sz c.
      curRetrievalMethodLevel c
        \<le> curRetrievalMethodLevel (snd (snd (xmlSecKeyDataBinRead env d k b sz c)))"
    and r: "xmlSecKeyDataRetrievalMethodXmlRead_fetch env dataId doc key node ctx
              = (ret, key', ctx')"
  shows "(ret < 0 \<longrightarrow> curRetrievalMethodLevel ctx \<le> curRetrievalMethodLevel ctx')
         \<and> curRetrievalMethodLevel ctx - 1 \<le> curRetrievalMethodLevel ctx'"
proof -
  have hb': "\<And>d k b sz c r k' c'. xmlSecKeyDataBinRead env d k b sz c = (r, k', c') \<Longrightarrow>
      curRetrievalMethodLevel c \<le> curRetrievalMethodLevel c'"
    using hb by (metis snd_conv)
  note hr = RetrievalMethodReadXmlResult_never_lowers [OF hx]
  show ?thesis
    using r unfolding xmlSecKeyDataRetrievalMethodXmlRead_fetch_def Let_def
    by (auto dest!: hb' hr split: if_splits option.splits prod.splits list.splits)
qed

lemma RetrievalMethodXmlRead_never_lowers:
  assumes hx: "\<forall>d k n c.
      curRetrievalMethodLevel c
        \<le> curRetrievalMethodLevel (snd (snd (xmlSecKeyDataXmlRead env d k n c)))"
    and hb: "\<forall>d k b sz c.
      curRetrievalMethodLevel c
        \<le> curRetrievalMethodLevel (snd (snd (xmlSecKeyDataBinRead env d k b sz c)))"
    and r: "xmlSecKeyDataRetrievalMethodXmlRead env key node ctx = (ret, key', ctx')"
  shows "curRetrievalMethodLevel ctx \<le> curRetrievalMethodLevel ctx'
         \<and> (ret < 0 \<and> curRetrievalMethodLevel ctx < maxRetrievalMethodLevel ctx
               \<and> mode ctx = xmlSecKeyInfoModeRead \<and> nodeDoc env node \<noteq> None
              \<longrightarrow> curRetrievalMethodLevel ctx + 1 \<le> curRetrievalMethodLevel ctx')"
proof -
  note hf = RetrievalMethodXmlRead_fetch_never_lowers [OF hx hb]
  show ?thesis
    using r unfolding xmlSecKeyDataRetrievalMethodXmlRead_def Let_def
    by (auto simp del: xmlSecKeyDataIdListFindByHref.simps dest!: hf
          split: if_splits option.splits)
qed

lemma RetrievalMethodReadXmlResult_success:
  assumes r: "xmlSecKeyDataRetrievalMethodReadXmlResult env typeId key buffer bufferSize ctx
              = (ret, key', ctx')"
    and ok: "0 \<le> ret"
  shows "ctx' = ctx
         \<or> (\<exists>d k n r. xmlSecKeyDataXmlRead env d k n ctx = (r, key', ctx') \<and> 0 \<le> r)"
  using r ok unfolding xmlSecKeyDataRetrievalMethodReadXmlResult_def
  by (auto simp del: xmlSecKeyDataIdListFindByNode.simps simp add: not_less
        split: if_splits option.splits prod.splits)

lemma RetrievalMethodXmlRead_fetch_success:
  assumes r: "xmlSecKeyDataRetrievalMethodXmlRead_fetch env dataId doc key node ctx
              = (ret, key', ctx')"
    and ok: "0 \<le> ret"
  shows "\<exists>c5. ctx' = c5\<lparr>curRetrievalMethodLevel := curRetrievalMethodLevel c5 - 1\<rparr>
           \<and> (curRetrievalMethodLevel c5 = curRetrievalMethodLevel ctx
                \<or> (\<exists>d k n c r k'. curRetrievalMethodLevel c = curRetrievalMethodLevel ctx
                       \<and> xmlSecKeyDataXmlRead env d k n c = (r, k', c5) \<and> 0 \<le> r)
                \<or> (\<exists>d k b sz c r k'. curRetrievalMethodLevel c = curRetrievalMethodLevel ctx
                       \<and> xmlSecKeyDataBinRead env d k b sz c = (r, k', c5) \<and> 0 \<le> r))"
proof -
  obtain r1 tc2 where su: "xmlSecTransformCtxSetUri env
        (xmlSecTransformCtxReset env (retrievalMethodCtx ctx))
        (xmlGetProp node xmlSecAttrURI) node = (r1, tc2)"
    by (meson surj_pair)
  obtain r2 tc3 cur where ch: "(case xmlSecGetNextElementNode (nodeChildren node) of
                     c # nxt \<Rightarrow>
                       if xmlSecCheckNodeName c xmlSecNodeTransforms xmlSecDSigNs
                       then (case xmlSecTransformCtxNodesListRead env tc2 c of
                               (ret, tc3) \<Rightarrow> (ret, tc3, xmlSecGetNextElementNode nxt))
                       else (0, tc2, c # nxt)
                   | [] \<Rightarrow> (0, tc2, [])) = (r2, tc3, cur)"
    by (meson prod_cases3)
  obtain r3 tc4 where ex: "xmlSecTransformCtxExecute env tc3 doc = (r3, tc4)"
    by (meson surj_pair)
  define nested where "nested data =
     (if dataId = xmlSecKeyDataIdUnknown
         \<or> (case dataId of
               Some d \<Rightarrow> (usage d AND xmlSecKeyDataUsageRetrievalMethodNodeXml) \<noteq> 0
             | None \<Rightarrow> False)
      then xmlSecKeyDataRetrievalMethodReadXmlResult env dataId key
             data (xmlSecBufferGetSize data) (ctx\<lparr>retrievalMethodCtx := tc4\<rparr>)
      else xmlSecKeyDataBinRead env dataId key
             data (xmlSecBufferGetSize data) (ctx\<lparr>retrievalMethodCtx := tc4\<rparr>))" for data
  define fetched where "fetched = (if r3 < 0 then None
                    else case result tc4 of
                           None \<Rightarrow> None
                         | Some buf \<Rightarrow> xmlSecBufferGetData buf)"
  have shape: "xmlSecKeyDataRetrievalMethodXmlRead_fetch env dataId doc key node ctx
     = (if r1 < 0 then (-1, key, ctx\<lparr>retrievalMethodCtx := tc2\<rparr>)
        else if r2 < 0 then (-1, key, ctx\<lparr>retrievalMethodCtx := tc3\<rparr>)
        else if cur \<noteq> [] then (-1, key, ctx\<lparr>retrievalMethodCtx := tc3\<rparr>)
        else (case fetched of
                None \<Rightarrow> (-1, key, ctx\<lparr>retrievalMethodCtx := tc4\<rparr>)
              | Some data \<Rightarrow>
                  (case nested data of
                     (ret, key', keyInfoCtx5) \<Rightarrow>
                       if ret < 0 then (-1, key', keyInfoCtx5)
                       else (0, key', keyInfoCtx5\<lparr>curRetrievalMethodLevel :=
                               curRetrievalMethodLevel keyInfoCtx5 - 1\<rparr>))))"
    unfolding xmlSecKeyDataRetrievalMethodXmlRead_fetch_def Let_def su ch ex nested_def
      fetched_def prod.case
    by (rule refl)
  have s1: "(case fetched of
                None \<Rightarrow> (-1, key, ctx\<lparr>retrievalMethodCtx := tc4\<rparr>)
              | Some data \<Rightarrow>
                  (case nested data of
                     (ret, key', keyInfoCtx5) \<Rightarrow>
                       if ret < 0 then (-1, key', keyInfoCtx5)
                       else (0, key', keyInfoCtx5\<lparr>curRetrievalMethodLevel :=
                               curRetrievalMethodLevel keyInfoCtx5 - 1\<rparr>)))
            = (ret, key', ctx')"
    using r ok unfolding shape by (simp split: if_splits)
  obtain data where got: "fetched = Some data"
    using s1 ok by (cases fetched) auto
  obtain r5 k5 c5 where run0: "nested data = (r5, k5, c5)"
    by (meson prod_cases3)
  have fin: "ctx' = c5\<lparr>curRetrievalMethodLevel := curRetrievalMethodLevel c5 - 1\<rparr>"
    and same: "k5 = key'" and ok5: "0 \<le> r5"
    using s1 ok by (simp_all add: got run0 split: if_splits)
  have run: "nested data = (r5, key', c5)"
    using run0 same by simp
  have at: "curRetrievalMethodLevel (ctx\<lparr>retrievalMethodCtx := tc4\<rparr>)
              = curRetrievalMethodLevel ctx"
    by simp
  show ?thesis
  proof (cases "dataId = xmlSecKeyDataIdUnknown
         \<or> (case dataId of
               Some d \<Rightarrow> (usage d AND xmlSecKeyDataUsageRetrievalMethodNodeXml) \<noteq> 0
             | None \<Rightarrow> False)")
    case True
    have x: "xmlSecKeyDataRetrievalMethodReadXmlResult env dataId key data
                    (xmlSecBufferGetSize data) (ctx\<lparr>retrievalMethodCtx := tc4\<rparr>)
                   = (r5, key', c5)"
      using run unfolding nested_def if_P [OF True] .
    from RetrievalMethodReadXmlResult_success [OF x ok5]
    show ?thesis
    proof
      assume "c5 = ctx\<lparr>retrievalMethodCtx := tc4\<rparr>"
      then have "curRetrievalMethodLevel c5 = curRetrievalMethodLevel ctx" by simp
      then show ?thesis using fin by blast
    next
      assume "\<exists>d k n r. xmlSecKeyDataXmlRead env d k n (ctx\<lparr>retrievalMethodCtx := tc4\<rparr>)
                 = (r, key', c5) \<and> 0 \<le> r"
      then obtain d k n r where
        "xmlSecKeyDataXmlRead env d k n (ctx\<lparr>retrievalMethodCtx := tc4\<rparr>) = (r, key', c5)"
        "0 \<le> r" by blast
      then show ?thesis using fin at by blast
    qed
  next
    case False
    have "xmlSecKeyDataBinRead env dataId key data (xmlSecBufferGetSize data)
                      (ctx\<lparr>retrievalMethodCtx := tc4\<rparr>) = (r5, key', c5)"
      using run unfolding nested_def if_not_P [OF False] .
    then show ?thesis using fin ok5 at by blast
  qed
qed

lemma only_at_reference_level_fields:
  "xmlSecKeyDataXmlRead (only_at_reference_level L env) d k n c
     = (if curKeyInfoReferenceLevel c = L then xmlSecKeyDataXmlRead env d k n c
        else (-1, k, c))"
  "xmlSecKeyDataIdsGet (only_at_reference_level L env) = xmlSecKeyDataIdsGet env"
  "xmlSecKeyIsValid (only_at_reference_level L env) = xmlSecKeyIsValid env"
  "xmlSecKeyMatch (only_at_reference_level L env) = xmlSecKeyMatch env"
  "xmlRecoverMemory (only_at_reference_level L env) = xmlRecoverMemory env"
  "nodeDoc (only_at_reference_level L env) = nodeDoc env"
  "xmlSecTransformCtxReset (only_at_reference_level L env) = xmlSecTransformCtxReset env"
  "xmlSecTransformCtxSetUri (only_at_reference_level L env) = xmlSecTransformCtxSetUri env"
  "xmlSecTransformCtxExecute (only_at_reference_level L env) = xmlSecTransformCtxExecute env"
  by (simp_all add: only_at_reference_level_def)

lemma read_loop_at_reference_level:
  assumes hx: "\<forall>d k n c.
      curKeyInfoReferenceLevel c
        \<le> curKeyInfoReferenceLevel (snd (snd (xmlSecKeyDataXmlRead env d k n c)))
      \<and> (0 \<le> fst (xmlSecKeyDataXmlRead env d k n c) \<longrightarrow>
           curKeyInfoReferenceLevel (snd (snd (xmlSecKeyDataXmlRead env d k n c)))
             = curKeyInfoReferenceLevel c)"
  shows "curKeyInfoReferenceLevel ctx = L \<Longrightarrow>
         xmlSecKeyInfoNodeRead_loop (only_at_reference_level L env) cur key ctx
           = xmlSecKeyInfoNodeRead_loop env cur key ctx"
proof (induction cur arbitrary: key ctx)
  case Nil
  then show ?case by simp
next
  case (Cons c nxt)
  show ?case
  proof (cases c)
    case (XmlOther t)
    then show ?thesis using Cons by simp
  next
    case (XmlElement n ns ps cs)
    have step: "\<And>d r k' c'. xmlSecKeyDataXmlRead env d key (XmlElement n ns ps cs) ctx
                   = (r, k', c') \<Longrightarrow> \<not> r < 0 \<Longrightarrow>
       xmlSecKeyInfoNodeRead_loop (only_at_reference_level L env) nxt k' c'
         = xmlSecKeyInfoNodeRead_loop env nxt k' c'"
    proof -
      fix d r k' c'
      assume x: "xmlSecKeyDataXmlRead env d key (XmlElement n ns ps cs) ctx = (r, k', c')"
        and ok: "\<not> r < 0"
      have "curKeyInfoReferenceLevel c' = L"
        using hx [rule_format, of ctx d key "XmlElement n ns ps cs"] Cons.prems x ok by simp
      then show "xmlSecKeyInfoNodeRead_loop (only_at_reference_level L env) nxt k' c'
         = xmlSecKeyInfoNodeRead_loop env nxt k' c'"
        by (rule Cons.IH)
    qed
    show ?thesis
      using XmlElement Cons.prems Cons.IH [OF Cons.prems, of key] step
      by (simp add: only_at_reference_level_fields
            del: xmlSecKeyDataIdListFindByNode.simps
            split: option.splits prod.splits)
  qed
qed

lemma KeyInfoReferenceReadXmlResult_at_level:
  assumes hx: "\<forall>d k n c.
      curKeyInfoReferenceLevel c
        \<le> curKeyInfoReferenceLevel (snd (snd (xmlSecKeyDataXmlRead env d k n c)))
      \<and> (0 \<le> fst (xmlSecKeyDataXmlRead env d k n c) \<longrightarrow>
           curKeyInfoReferenceLevel (snd (snd (xmlSecKeyDataXmlRead env d k n c)))
             = curKeyInfoReferenceLevel c)"
    and l: "curKeyInfoReferenceLevel ctx = L"
  shows "xmlSecKeyDataKeyInfoReferenceReadXmlResult (only_at_reference_level L env) typeId key
           buffer bufferSize ctx
         = xmlSecKeyDataKeyInfoReferenceReadXmlResult env typeId key buffer bufferSize ctx"
proof -
  have lp: "\<And>cur. xmlSecKeyInfoNodeRead_loop (only_at_reference_level L env) cur key ctx
           = xmlSecKeyInfoNodeRead_loop env cur key ctx"
    using read_loop_at_reference_level [OF hx l] .
  show ?thesis
    by (simp add: xmlSecKeyDataKeyInfoReferenceReadXmlResult_def xmlSecKeyInfoNodeRead_def lp
          only_at_reference_level_fields
          cong: list.case_cong option.case_cong prod.case_cong if_cong)
qed

lemma KeyInfoReferenceXmlRead_at_level:
  assumes hx: "\<forall>d k n c.
      curKeyInfoReferenceLevel c
        \<le> curKeyInfoReferenceLevel (snd (snd (xmlSecKeyDataXmlRead env d k n c)))
      \<and> (0 \<le> fst (xmlSecKeyDataXmlRead env d k n c) \<longrightarrow>
           curKeyInfoReferenceLevel (snd (snd (xmlSecKeyDataXmlRead env d k n c)))
             = curKeyInfoReferenceLevel c)"
  shows "xmlSecKeyDataKeyInfoReferenceXmlRead
           (only_at_reference_level (curKeyInfoReferenceLevel ctx + 1) env) key node ctx
         = xmlSecKeyDataKeyInfoReferenceXmlRead env key node ctx"
proof -
  have rx: "\<And>tc data. xmlSecKeyDataKeyInfoReferenceReadXmlResult
               (only_at_reference_level (curKeyInfoReferenceLevel ctx + 1) env)
               xmlSecKeyDataIdUnknown key data (xmlSecBufferGetSize data)
               (ctx\<lparr>curKeyInfoReferenceLevel := curKeyInfoReferenceLevel ctx + 1,
                     keyInfoReferenceCtx := tc\<rparr>)
             = xmlSecKeyDataKeyInfoReferenceReadXmlResult env xmlSecKeyDataIdUnknown key data
                 (xmlSecBufferGetSize data)
                 (ctx\<lparr>curKeyInfoReferenceLevel := curKeyInfoReferenceLevel ctx + 1,
                       keyInfoReferenceCtx := tc\<rparr>)"
    by (intro KeyInfoReferenceReadXmlResult_at_level [OF hx]) simp
  show ?thesis
    unfolding xmlSecKeyDataKeyInfoReferenceXmlRead_def Let_def
    by (simp add: rx only_at_reference_level_fields
          cong: list.case_cong option.case_cong prod.case_cong if_cong)
qed

lemma only_at_encrypted_key_level_fields:
  "xmlSecTransformCtxCopyUserPref (only_at_encrypted_key_level L env)
     = xmlSecTransformCtxCopyUserPref env"
  "xmlSecEncCtxCopyUserPref (only_at_encrypted_key_level L env) = xmlSecEncCtxCopyUserPref env"
  "encCtxSetMode (only_at_encrypted_key_level L env) = encCtxSetMode env"
  "xmlSecEncCtxCreate (only_at_encrypted_key_level L env) = xmlSecEncCtxCreate env"
  "xmlSecEncCtxReset (only_at_encrypted_key_level L env) = xmlSecEncCtxReset env"
  "keyInfoReadCtx (only_at_encrypted_key_level L env) = keyInfoReadCtx env"
  "keyInfoWriteCtx (only_at_encrypted_key_level L env) = keyInfoWriteCtx env"
  "setKeyInfoReadCtx (only_at_encrypted_key_level L env) = setKeyInfoReadCtx env"
  "setKeyInfoWriteCtx (only_at_encrypted_key_level L env) = setKeyInfoWriteCtx env"
  "xmlSecKeyReqMatchKey (only_at_encrypted_key_level L env) = xmlSecKeyReqMatchKey env"
  "xmlSecKeyCopy (only_at_encrypted_key_level L env) = xmlSecKeyCopy env"
  by (simp_all add: only_at_encrypted_key_level_def)

lemma only_at_encrypted_key_level_copy:
  "xmlSecKeyInfoCtxCopyUserPref (only_at_encrypted_key_level L env) dst src
     = xmlSecKeyInfoCtxCopyUserPref env dst src"
  unfolding xmlSecKeyInfoCtxCopyUserPref_def only_at_encrypted_key_level_fields
  by (rule refl)

lemma only_at_encrypted_key_level_create:
  "xmlSecKeyInfoCtxCreateEncCtx (only_at_encrypted_key_level L env) ctx
     = xmlSecKeyInfoCtxCreateEncCtx env ctx"
  unfolding xmlSecKeyInfoCtxCreateEncCtx_def only_at_encrypted_key_level_fields
    only_at_encrypted_key_level_copy
  by (rule refl)

lemma only_at_encrypted_key_level_prepare:
  "xmlSecKeyInfoCtx_prepareEncCtx (only_at_encrypted_key_level L env) ctx
     = xmlSecKeyInfoCtx_prepareEncCtx env ctx"
  unfolding xmlSecKeyInfoCtx_prepareEncCtx_def only_at_encrypted_key_level_fields
    only_at_encrypted_key_level_copy only_at_encrypted_key_level_create
  by (rule refl)

lemma generatedKeyXmlRead_at_level:
  assumes g: "\<And>e d n c. curEncryptedKeyLevel c = curEncryptedKeyLevel ctx + 1 \<Longrightarrow>
                 generate' e d n c = generate e d n c"
  shows "xmlSecKeyData_generatedKeyXmlRead
           (only_at_encrypted_key_level (curEncryptedKeyLevel ctx + 1) env) generate'
           key node ctx
         = xmlSecKeyData_generatedKeyXmlRead env generate key node ctx"
proof -
  obtain r3 ctx3 where prep: "xmlSecKeyInfoCtx_prepareEncCtx env ctx = (r3, ctx3)"
    by (cases "xmlSecKeyInfoCtx_prepareEncCtx env ctx") auto
  have lv: "curEncryptedKeyLevel ctx3 = curEncryptedKeyLevel ctx"
    using prep by (rule prepareEncCtx_fields)
  have gg: "\<And>e d n. generate' e d n
               (ctx3\<lparr>curEncryptedKeyLevel := curEncryptedKeyLevel ctx3 + 1\<rparr>)
             = generate e d n (ctx3\<lparr>curEncryptedKeyLevel := curEncryptedKeyLevel ctx3 + 1\<rparr>)"
    by (rule g) (simp add: lv)
  show ?thesis
    unfolding xmlSecKeyData_generatedKeyXmlRead_def Let_def only_at_encrypted_key_level_prepare
      only_at_encrypted_key_level_fields prep prod.case gg
    by (rule refl)
qed

lemma DerivedKeyXmlRead_at_level:
  "xmlSecKeyDataDerivedKeyXmlRead
       (only_at_encrypted_key_level (curEncryptedKeyLevel ctx + 1) env) key node ctx
     = xmlSecKeyDataDerivedKeyXmlRead env key node ctx"
  unfolding xmlSecKeyDataDerivedKeyXmlRead_def
  by (rule generatedKeyXmlRead_at_level) (simp add: only_at_encrypted_key_level_def)

lemma AgreementMethodXmlRead_at_level:
  "xmlSecKeyDataAgreementMethodXmlRead
       (only_at_encrypted_key_level (curEncryptedKeyLevel ctx + 1) env) key node ctx
     = xmlSecKeyDataAgreementMethodXmlRead env key node ctx"
  unfolding xmlSecKeyDataAgreementMethodXmlRead_def
  by (rule generatedKeyXmlRead_at_level) (simp add: only_at_encrypted_key_level_def)

lemma bin_read_only_at_encrypted_key_level_fields:
  "xmlSecTransformCtxCopyUserPref (bin_read_only_at_encrypted_key_level L env)
     = xmlSecTransformCtxCopyUserPref env"
  "xmlSecEncCtxCopyUserPref (bin_read_only_at_encrypted_key_level L env)
     = xmlSecEncCtxCopyUserPref env"
  "encCtxSetMode (bin_read_only_at_encrypted_key_level L env) = encCtxSetMode env"
  "xmlSecEncCtxCreate (bin_read_only_at_encrypted_key_level L env) = xmlSecEncCtxCreate env"
  "xmlSecEncCtxReset (bin_read_only_at_encrypted_key_level L env) = xmlSecEncCtxReset env"
  "keyInfoReadCtx (bin_read_only_at_encrypted_key_level L env) = keyInfoReadCtx env"
  "keyInfoWriteCtx (bin_read_only_at_encrypted_key_level L env) = keyInfoWriteCtx env"
  "setKeyInfoReadCtx (bin_read_only_at_encrypted_key_level L env) = setKeyInfoReadCtx env"
  "setKeyInfoWriteCtx (bin_read_only_at_encrypted_key_level L env) = setKeyInfoWriteCtx env"
  "xmlSecEncCtxDecryptToBuffer (bin_read_only_at_encrypted_key_level L env)
     = xmlSecEncCtxDecryptToBuffer env"
  "xmlSecKeyDataBinRead (bin_read_only_at_encrypted_key_level L env) d k b sz c
     = (if curEncryptedKeyLevel c = L then xmlSecKeyDataBinRead env d k b sz c
        else (-1, k, c))"
  by (simp_all add: bin_read_only_at_encrypted_key_level_def)

lemma bin_read_only_at_encrypted_key_level_prepare:
  "xmlSecKeyInfoCtx_prepareEncCtx (bin_read_only_at_encrypted_key_level L env) ctx
     = xmlSecKeyInfoCtx_prepareEncCtx env ctx"
  unfolding xmlSecKeyInfoCtx_prepareEncCtx_def xmlSecKeyInfoCtxCreateEncCtx_def
    xmlSecKeyInfoCtxCopyUserPref_def bin_read_only_at_encrypted_key_level_fields
  by (rule refl)

lemma EncryptedKeyXmlRead_bin_read_at_level:
  "xmlSecKeyDataEncryptedKeyXmlRead
       (bin_read_only_at_encrypted_key_level (curEncryptedKeyLevel ctx) env) key node ctx
     = xmlSecKeyDataEncryptedKeyXmlRead env key node ctx"
proof -
  obtain r3 ctx3 where prep: "xmlSecKeyInfoCtx_prepareEncCtx env ctx = (r3, ctx3)"
    by (cases "xmlSecKeyInfoCtx_prepareEncCtx env ctx") auto
  have lv: "curEncryptedKeyLevel ctx3 = curEncryptedKeyLevel ctx"
    using prep by (rule prepareEncCtx_fields)
  show ?thesis
    unfolding xmlSecKeyDataEncryptedKeyXmlRead_def Let_def
      bin_read_only_at_encrypted_key_level_prepare prep prod.case
    by (simp add: bin_read_only_at_encrypted_key_level_fields lv
          cong: option.case_cong prod.case_cong if_cong)
qed

lemma RetrievalMethodXmlRead_keeps_reference_level:
  assumes hx: "\<forall>d k n c. curKeyInfoReferenceLevel (snd (snd (xmlSecKeyDataXmlRead env d k n c)))
                 = curKeyInfoReferenceLevel c"
    and hb: "\<forall>d k b sz c.
               curKeyInfoReferenceLevel (snd (snd (xmlSecKeyDataBinRead env d k b sz c)))
                 = curKeyInfoReferenceLevel c"
  shows "curKeyInfoReferenceLevel
           (snd (snd (xmlSecKeyDataRetrievalMethodXmlRead env key node ctx)))
         = curKeyInfoReferenceLevel ctx"
proof -
  have hx': "\<And>d k n c r k' c'. xmlSecKeyDataXmlRead env d k n c = (r, k', c') \<Longrightarrow>
      curKeyInfoReferenceLevel c' = curKeyInfoReferenceLevel c"
    using hx by (metis snd_conv)
  have hb': "\<And>d k b sz c r k' c'. xmlSecKeyDataBinRead env d k b sz c = (r, k', c') \<Longrightarrow>
      curKeyInfoReferenceLevel c' = curKeyInfoReferenceLevel c"
    using hb by (metis snd_conv)
  have rx: "\<And>t k b sz c r k' c'.
      xmlSecKeyDataRetrievalMethodReadXmlResult env t k b sz c = (r, k', c') \<Longrightarrow>
      curKeyInfoReferenceLevel c' = curKeyInfoReferenceLevel c"
    unfolding xmlSecKeyDataRetrievalMethodReadXmlResult_def
    by (auto simp del: xmlSecKeyDataIdListFindByNode.simps dest!: hx'
          split: if_splits option.splits prod.splits)
  have fx: "\<And>d doc k n c r k' c'.
      xmlSecKeyDataRetrievalMethodXmlRead_fetch env d doc k n c = (r, k', c') \<Longrightarrow>
      curKeyInfoReferenceLevel c' = curKeyInfoReferenceLevel c"
    unfolding xmlSecKeyDataRetrievalMethodXmlRead_fetch_def Let_def
    by (auto dest!: hb' rx split: if_splits option.splits prod.splits list.splits)
  obtain r k' c' where rm: "xmlSecKeyDataRetrievalMethodXmlRead env key node ctx = (r, k', c')"
    by (cases "xmlSecKeyDataRetrievalMethodXmlRead env key node ctx") auto
  have "curKeyInfoReferenceLevel c' = curKeyInfoReferenceLevel ctx"
    using rm unfolding xmlSecKeyDataRetrievalMethodXmlRead_def Let_def
    by (auto simp del: xmlSecKeyDataIdListFindByHref.simps dest!: fx
          split: if_splits option.splits)
  then show ?thesis using rm by simp
qed

text \<open>
  Claim C2, as amended. The dispatched handlers are assumed never to lower the
  RetrievalMethod level, to restore the KeyInfoReference level when they succeed and
  never to lower it, the binary readers likewise for the EncryptedKey level, and the two
  generating functions of the encryption engine to leave the EncryptedKey level alone.

  RetrievalMethod and KeyInfoReference read: when the level check fails the handler
  returns -1 and the context is untouched; otherwise the level is incremented before
  anything is dispatched (the handler returns the same when the dispatch refuses every
  context that is not one level above the entry value), and every error return leaves
  it at least one above its entry value. The success return at the end of the handler
  decrements once. For RetrievalMethod (whenever the Type attribute resolved to a
  handler) the context returned is the context \<open>c5\<close> that the nested dispatch
  returned, with the level one lower, where \<open>c5\<close> is at one above the entry value
  when nothing was dispatched; so the level is at its entry value exactly when the
  nested dispatch returned it as it received it. For KeyInfoReference the level is at
  its entry value.

  EncryptedKey, DerivedKey and AgreementMethod read: when the level check fails the
  handler returns -1 and the context is untouched; the level is incremented around the
  call of the encryption engine only and decremented right after it on every path. The
  generating functions of DerivedKey and AgreementMethod receive the context one level
  above the entry value; the decryption of EncryptedKey receives the encryption context
  alone, and the binary read of the decrypted key runs with the level back at its entry
  value. A failed decryption returns with the level at its entry value, with -1 as well
  as with 0; DerivedKey and AgreementMethod return with the level at its entry value on
  every path.
\<close>

theorem C2_recursion_levels:
  "mode ctx = xmlSecKeyInfoModeRead \<Longrightarrow> nodeDoc env node = Some doc \<Longrightarrow>
   (\<forall>d k n c.
      curRetrievalMethodLevel c
        \<le> curRetrievalMethodLevel (snd (snd (xmlSecKeyDataXmlRead env d k n c)))) \<Longrightarrow>
   (\<forall>d k b sz c.
      curRetrievalMethodLevel c
        \<le> curRetrievalMethodLevel (snd (snd (xmlSecKeyDataBinRead env d k b sz c)))) \<Longrightarrow>
   (\<forall>d k n c.
      curKeyInfoReferenceLevel c
        \<le> curKeyInfoReferenceLevel (snd (snd (xmlSecKeyDataXmlRead env d k n c)))
      \<and> (0 \<le> fst (xmlSecKeyDataXmlRead env d k n c) \<longrightarrow>
           curKeyInfoReferenceLevel (snd (snd (xmlSecKeyDataXmlRead env d k n c)))
             = curKeyInfoReferenceLevel c)) \<Longrightarrow>
   (\<forall>d k b sz c.
      curEncryptedKeyLevel c
        \<le> curEncryptedKeyLevel (snd (snd (xmlSecKeyDataBinRead env d k b sz c)))
      \<and> (0 \<le> fst (xmlSecKeyDataBinRead env d k b sz c) \<longrightarrow>
           curEncryptedKeyLevel (snd (snd (xmlSecKeyDataBinRead env d k b sz c)))
             = curEncryptedKeyLevel c)) \<Longrightarrow>
   (\<forall>e d n c. curEncryptedKeyLevel (snd (xmlSecEncCtxDerivedKeyGenerate env e d n c))
                  = curEncryptedKeyLevel c) \<Longrightarrow>
   (\<forall>e d n c. curEncryptedKeyLevel (snd (xmlSecEncCtxAgreementMethodGenerate env e d n c))
                  = curEncryptedKeyLevel c) \<Longrightarrow>
   (maxRetrievalMethodLevel ctx \<le> curRetrievalMethodLevel ctx \<longrightarrow>
      xmlSecKeyDataRetrievalMethodXmlRead env key node ctx = (-1, key, ctx))
   \<and> xmlSecKeyDataRetrievalMethodXmlRead
         (only_at_retrieval_level (curRetrievalMethodLevel ctx + 1) env) key node ctx
       = xmlSecKeyDataRetrievalMethodXmlRead env key node ctx
   \<and> (curRetrievalMethodLevel ctx < maxRetrievalMethodLevel ctx
        \<and> fst (xmlSecKeyDataRetrievalMethodXmlRead env key node ctx) < 0 \<longrightarrow>
      curRetrievalMethodLevel ctx + 1
        \<le> curRetrievalMethodLevel
            (snd (snd (xmlSecKeyDataRetrievalMethodXmlRead env key node ctx))))
   \<and> (curRetrievalMethodLevel ctx < maxRetrievalMethodLevel ctx
        \<and> 0 \<le> fst (xmlSecKeyDataRetrievalMethodXmlRead env key node ctx)
        \<and> (case xmlGetProp node xmlSecAttrType of
              None \<Rightarrow> xmlSecKeyDataIdUnknown
            | Some t \<Rightarrow>
                if xmlSecPtrListGetSize (enabledKeyData ctx) > 0
                then xmlSecKeyDataIdListFindByHref (enabledKeyData ctx) (Some t)
                       xmlSecKeyDataUsageRetrievalMethodNode
                else xmlSecKeyDataIdListFindByHref (xmlSecKeyDataIdsGet env) (Some t)
                       xmlSecKeyDataUsageRetrievalMethodNode) \<noteq> xmlSecKeyDataIdUnknown \<longrightarrow>
      (\<exists>c5. snd (snd (xmlSecKeyDataRetrievalMethodXmlRead env key node ctx))
               = c5\<lparr>curRetrievalMethodLevel := curRetrievalMethodLevel c5 - 1\<rparr>
          \<and> (curRetrievalMethodLevel c5 = curRetrievalMethodLevel ctx + 1
               \<or> (\<exists>d k n c r k'.
                      curRetrievalMethodLevel c = curRetrievalMethodLevel ctx + 1
                      \<and> xmlSecKeyDataXmlRead env d k n c = (r, k', c5) \<and> 0 \<le> r)
               \<or> (\<exists>d k b sz c r k'.
                      curRetrievalMethodLevel c = curRetrievalMethodLevel ctx + 1
                      \<and> xmlSecKeyDataBinRead env d k b sz c = (r, k', c5) \<and> 0 \<le> r))))
   \<and> (maxKeyInfoReferenceLevel ctx \<le> curKeyInfoReferenceLevel ctx \<longrightarrow>
      xmlSecKeyDataKeyInfoReferenceXmlRead env key node ctx = (-1, key, ctx))
   \<and> xmlSecKeyDataKeyInfoReferenceXmlRead
         (only_at_reference_level (curKeyInfoReferenceLevel ctx + 1) env) key node ctx
       = xmlSecKeyDataKeyInfoReferenceXmlRead env key node ctx
   \<and> (curKeyInfoReferenceLevel ctx < maxKeyInfoReferenceLevel ctx
        \<and> fst (xmlSecKeyDataKeyInfoReferenceXmlRead env key node ctx) < 0 \<longrightarrow>
      curKeyInfoReferenceLevel ctx + 1
        \<le> curKeyInfoReferenceLevel
            (snd (snd (xmlSecKeyDataKeyInfoReferenceXmlRead env key node ctx))))
   \<and> (curKeyInfoReferenceLevel ctx < maxKeyInfoReferenceLevel ctx
        \<and> 0 \<le> fst (xmlSecKeyDataKeyInfoReferenceXmlRead env key node ctx) \<longrightarrow>
      curKeyInfoReferenceLevel
          (snd (snd (xmlSecKeyDataKeyInfoReferenceXmlRead env key node ctx)))
        = curKeyInfoReferenceLevel ctx)
   \<and> (maxEncryptedKeyLevel ctx \<le> curEncryptedKeyLevel ctx \<longrightarrow>
      xmlSecKeyDataEncryptedKeyXmlRead env key node ctx = (-1, key, ctx)
      \<and> xmlSecKeyDataDerivedKeyXmlRead env key node ctx = (-1, key, ctx)
      \<and> xmlSecKeyDataAgreementMethodXmlRead env key node ctx = (-1, key, ctx))
   \<and> curEncryptedKeyLevel ctx
        \<le> curEncryptedKeyLevel (snd (snd (xmlSecKeyDataEncryptedKeyXmlRead env key node ctx)))
   \<and> (0 \<le> fst (xmlSecKeyDataEncryptedKeyXmlRead env key node ctx) \<longrightarrow>
      curEncryptedKeyLevel (snd (snd (xmlSecKeyDataEncryptedKeyXmlRead env key node ctx)))
        = curEncryptedKeyLevel ctx)
   \<and> (\<forall>ret ctx3 e3 res e4.
         xmlSecKeyInfoCtx_prepareEncCtx env ctx = (ret, ctx3) \<and> \<not> ret < 0
         \<and> encCtx ctx3 = Some e3 \<and> xmlSecEncCtxDecryptToBuffer env e3 node = (res, e4)
         \<and> (res = None \<or> (\<exists>buf. res = Some buf \<and> xmlSecBufferGetData buf = None))
         \<longrightarrow>
      curEncryptedKeyLevel (snd (snd (xmlSecKeyDataEncryptedKeyXmlRead env key node ctx)))
        = curEncryptedKeyLevel ctx)
   \<and> curEncryptedKeyLevel (snd (snd (xmlSecKeyDataDerivedKeyXmlRead env key node ctx)))
       = curEncryptedKeyLevel ctx
   \<and> curEncryptedKeyLevel (snd (snd (xmlSecKeyDataAgreementMethodXmlRead env key node ctx)))
       = curEncryptedKeyLevel ctx
   \<and> xmlSecKeyDataDerivedKeyXmlRead
         (only_at_encrypted_key_level (curEncryptedKeyLevel ctx + 1) env) key node ctx
       = xmlSecKeyDataDerivedKeyXmlRead env key node ctx
   \<and> xmlSecKeyDataAgreementMethodXmlRead
         (only_at_encrypted_key_level (curEncryptedKeyLevel ctx + 1) env) key node ctx
       = xmlSecKeyDataAgreementMethodXmlRead env key node ctx
   \<and> xmlSecKeyDataEncryptedKeyXmlRead
         (bin_read_only_at_encrypted_key_level (curEncryptedKeyLevel ctx) env) key node ctx
       = xmlSecKeyDataEncryptedKeyXmlRead env key node ctx"
proof -
  assume rd: "mode ctx = xmlSecKeyInfoModeRead" and doc: "nodeDoc env node = Some doc"
    and mxr: "(\<forall>d k n c.
      curRetrievalMethodLevel c
        \<le> curRetrievalMethodLevel (snd (snd (xmlSecKeyDataXmlRead env d k n c))))"
    and mbr: "(\<forall>d k b sz c.
      curRetrievalMethodLevel c
        \<le> curRetrievalMethodLevel (snd (snd (xmlSecKeyDataBinRead env d k b sz c))))"
    and hxk: "(\<forall>d k n c.
      curKeyInfoReferenceLevel c
        \<le> curKeyInfoReferenceLevel (snd (snd (xmlSecKeyDataXmlRead env d k n c)))
      \<and> (0 \<le> fst (xmlSecKeyDataXmlRead env d k n c) \<longrightarrow>
           curKeyInfoReferenceLevel (snd (snd (xmlSecKeyDataXmlRead env d k n c)))
             = curKeyInfoReferenceLevel c))"
    and hbe: "(\<forall>d k b sz c.
      curEncryptedKeyLevel c
        \<le> curEncryptedKeyLevel (snd (snd (xmlSecKeyDataBinRead env d k b sz c)))
      \<and> (0 \<le> fst (xmlSecKeyDataBinRead env d k b sz c) \<longrightarrow>
           curEncryptedKeyLevel (snd (snd (xmlSecKeyDataBinRead env d k b sz c)))
             = curEncryptedKeyLevel c))"
    and hgd: "(\<forall>e d n c. curEncryptedKeyLevel (snd (xmlSecEncCtxDerivedKeyGenerate env e d n c))
                  = curEncryptedKeyLevel c)"
    and hga: "(\<forall>e d n c. curEncryptedKeyLevel (snd (xmlSecEncCtxAgreementMethodGenerate env e d n c))
                  = curEncryptedKeyLevel c)"
  obtain r1 k1 c1 where rm: "xmlSecKeyDataRetrievalMethodXmlRead env key node ctx = (r1, k1, c1)"
    by (cases "xmlSecKeyDataRetrievalMethodXmlRead env key node ctx") auto
  obtain r2 k2 c2 where kr: "xmlSecKeyDataKeyInfoReferenceXmlRead env key node ctx = (r2, k2, c2)"
    by (cases "xmlSecKeyDataKeyInfoReferenceXmlRead env key node ctx") auto
  obtain r3 k3 c3 where ek: "xmlSecKeyDataEncryptedKeyXmlRead env key node ctx = (r3, k3, c3)"
    by (cases "xmlSecKeyDataEncryptedKeyXmlRead env key node ctx") auto
  obtain r4 k4 c4 where dk: "xmlSecKeyDataDerivedKeyXmlRead env key node ctx = (r4, k4, c4)"
    by (cases "xmlSecKeyDataDerivedKeyXmlRead env key node ctx") auto
  obtain r5 k5 c5 where am: "xmlSecKeyDataAgreementMethodXmlRead env key node ctx = (r5, k5, c5)"
    by (cases "xmlSecKeyDataAgreementMethodXmlRead env key node ctx") auto
  have a1: "maxRetrievalMethodLevel ctx \<le> curRetrievalMethodLevel ctx \<longrightarrow>
      xmlSecKeyDataRetrievalMethodXmlRead env key node ctx = (-1, key, ctx)"
    using level_check_fails(1) [OF rd doc] by blast
  note a2 = RetrievalMethodXmlRead_at_level [of ctx env key node]
  have a3: "curRetrievalMethodLevel ctx < maxRetrievalMethodLevel ctx \<and> r1 < 0 \<longrightarrow>
      curRetrievalMethodLevel ctx + 1 \<le> curRetrievalMethodLevel c1"
    using RetrievalMethodXmlRead_never_lowers [OF mxr mbr rm] rd doc by simp
  have a4: "curRetrievalMethodLevel ctx < maxRetrievalMethodLevel ctx
        \<and> 0 \<le> r1
        \<and> (case xmlGetProp node xmlSecAttrType of
              None \<Rightarrow> xmlSecKeyDataIdUnknown
            | Some t \<Rightarrow>
                if xmlSecPtrListGetSize (enabledKeyData ctx) > 0
                then xmlSecKeyDataIdListFindByHref (enabledKeyData ctx) (Some t)
                       xmlSecKeyDataUsageRetrievalMethodNode
                else xmlSecKeyDataIdListFindByHref (xmlSecKeyDataIdsGet env) (Some t)
                       xmlSecKeyDataUsageRetrievalMethodNode) \<noteq> xmlSecKeyDataIdUnknown \<longrightarrow>
      (\<exists>c5. c1 = c5\<lparr>curRetrievalMethodLevel := curRetrievalMethodLevel c5 - 1\<rparr>
          \<and> (curRetrievalMethodLevel c5 = curRetrievalMethodLevel ctx + 1
               \<or> (\<exists>d k n c r k'.
                      curRetrievalMethodLevel c = curRetrievalMethodLevel ctx + 1
                      \<and> xmlSecKeyDataXmlRead env d k n c = (r, k', c5) \<and> 0 \<le> r)
               \<or> (\<exists>d k b sz c r k'.
                      curRetrievalMethodLevel c = curRetrievalMethodLevel ctx + 1
                      \<and> xmlSecKeyDataBinRead env d k b sz c = (r, k', c5) \<and> 0 \<le> r)))"
  proof (intro impI, elim conjE)
    define dataId where "dataId = (case xmlGetProp node xmlSecAttrType of
              None \<Rightarrow> xmlSecKeyDataIdUnknown
            | Some t \<Rightarrow>
                if xmlSecPtrListGetSize (enabledKeyData ctx) > 0
                then xmlSecKeyDataIdListFindByHref (enabledKeyData ctx) (Some t)
                       xmlSecKeyDataUsageRetrievalMethodNode
                else xmlSecKeyDataIdListFindByHref (xmlSecKeyDataIdsGet env) (Some t)
                       xmlSecKeyDataUsageRetrievalMethodNode)"
    assume lvl: "curRetrievalMethodLevel ctx < maxRetrievalMethodLevel ctx"
      and ok: "0 \<le> r1"
      and typed: "(case xmlGetProp node xmlSecAttrType of
              None \<Rightarrow> xmlSecKeyDataIdUnknown
            | Some t \<Rightarrow>
                if xmlSecPtrListGetSize (enabledKeyData ctx) > 0
                then xmlSecKeyDataIdListFindByHref (enabledKeyData ctx) (Some t)
                       xmlSecKeyDataUsageRetrievalMethodNode
                else xmlSecKeyDataIdListFindByHref (xmlSecKeyDataIdsGet env) (Some t)
                       xmlSecKeyDataUsageRetrievalMethodNode) \<noteq> xmlSecKeyDataIdUnknown"
    have known: "dataId \<noteq> xmlSecKeyDataIdUnknown"
      using typed unfolding dataId_def .
    have "xmlSecKeyDataRetrievalMethodXmlRead_fetch env dataId doc key node
                 (ctx\<lparr>curRetrievalMethodLevel := curRetrievalMethodLevel ctx + 1\<rparr>)
               = (r1, k1, c1)"
      using RetrievalMethodXmlRead_resolve [OF rd doc lvl dataId_def [symmetric], of key] rm
      by (simp add: known)
    from RetrievalMethodXmlRead_fetch_success [OF this ok]
    show "\<exists>c5. c1 = c5\<lparr>curRetrievalMethodLevel := curRetrievalMethodLevel c5 - 1\<rparr>
          \<and> (curRetrievalMethodLevel c5 = curRetrievalMethodLevel ctx + 1
               \<or> (\<exists>d k n c r k'.
                      curRetrievalMethodLevel c = curRetrievalMethodLevel ctx + 1
                      \<and> xmlSecKeyDataXmlRead env d k n c = (r, k', c5) \<and> 0 \<le> r)
               \<or> (\<exists>d k b sz c r k'.
                      curRetrievalMethodLevel c = curRetrievalMethodLevel ctx + 1
                      \<and> xmlSecKeyDataBinRead env d k b sz c = (r, k', c5) \<and> 0 \<le> r))"
      by simp
  qed
  have b1: "maxKeyInfoReferenceLevel ctx \<le> curKeyInfoReferenceLevel ctx \<longrightarrow>
      xmlSecKeyDataKeyInfoReferenceXmlRead env key node ctx = (-1, key, ctx)"
    using level_check_fails(2) [OF rd doc] by blast
  note b2 = KeyInfoReferenceXmlRead_at_level [OF hxk, of ctx key node]
  have b3: "curKeyInfoReferenceLevel ctx < maxKeyInfoReferenceLevel ctx \<longrightarrow>
      (r2 < 0 \<longrightarrow> curKeyInfoReferenceLevel ctx + 1 \<le> curKeyInfoReferenceLevel c2)
      \<and> (0 \<le> r2 \<longrightarrow> curKeyInfoReferenceLevel c2 = curKeyInfoReferenceLevel ctx)"
    using KeyInfoReferenceXmlRead_level [OF hxk rd doc _ kr] by blast
  have e1: "maxEncryptedKeyLevel ctx \<le> curEncryptedKeyLevel ctx \<longrightarrow>
      xmlSecKeyDataEncryptedKeyXmlRead env key node ctx = (-1, key, ctx)
      \<and> xmlSecKeyDataDerivedKeyXmlRead env key node ctx = (-1, key, ctx)
      \<and> xmlSecKeyDataAgreementMethodXmlRead env key node ctx = (-1, key, ctx)"
    using level_check_fails(3,4,5) [OF rd] by blast
  note e2 = EncryptedKeyXmlRead_level [OF hbe ek]
  have e3: "\<forall>ret ctx3 e3 res e4.
         xmlSecKeyInfoCtx_prepareEncCtx env ctx = (ret, ctx3) \<and> \<not> ret < 0
         \<and> encCtx ctx3 = Some e3 \<and> xmlSecEncCtxDecryptToBuffer env e3 node = (res, e4)
         \<and> (res = None \<or> (\<exists>buf. res = Some buf \<and> xmlSecBufferGetData buf = None))
         \<longrightarrow> curEncryptedKeyLevel c3 = curEncryptedKeyLevel ctx"
  proof (intro allI impI)
    fix ret ctx3 e3 res e4
    assume h: "xmlSecKeyInfoCtx_prepareEncCtx env ctx = (ret, ctx3) \<and> \<not> ret < 0
         \<and> encCtx ctx3 = Some e3 \<and> xmlSecEncCtxDecryptToBuffer env e3 node = (res, e4)
         \<and> (res = None \<or> (\<exists>buf. res = Some buf \<and> xmlSecBufferGetData buf = None))"
    have "c3 = ctx3\<lparr>encCtx := Some e4\<rparr>"
      using EncryptedKeyXmlRead_failed_decryption [OF rd, of env ret ctx3 e3 node res e4 key]
        h ek by simp
    moreover have "curEncryptedKeyLevel ctx3 = curEncryptedKeyLevel ctx"
      using h prepareEncCtx_fields(2) [of env ctx ret ctx3] by blast
    ultimately show "curEncryptedKeyLevel c3 = curEncryptedKeyLevel ctx" by simp
  qed
  have d1: "curEncryptedKeyLevel c4 = curEncryptedKeyLevel ctx"
    using generatedKeyXmlRead_level [OF hgd] dk
    unfolding xmlSecKeyDataDerivedKeyXmlRead_def by blast
  have d2: "curEncryptedKeyLevel c5 = curEncryptedKeyLevel ctx"
    using generatedKeyXmlRead_level [OF hga] am
    unfolding xmlSecKeyDataAgreementMethodXmlRead_def by blast
  note g1 = DerivedKeyXmlRead_at_level [of ctx env key node]
  note g2 = AgreementMethodXmlRead_at_level [of ctx env key node]
  note g3 = EncryptedKeyXmlRead_bin_read_at_level [of ctx env key node]
  show ?thesis
    unfolding a2 b2 g1 g2 g3
    unfolding rm kr ek dk am fst_conv snd_conv
    using a1 a3 a4 b1 b3 e1 e2 e3 d1 d2
    unfolding rm kr ek dk am fst_conv snd_conv
    by (intro conjI) (blast+)
qed

lemma sample_fetch_run:
  "xmlSecKeyDataRetrievalMethodXmlRead sample_fetch_env sample_key sample_typed_retrieval_node
     sample_ctx
   = (0, sample_rsa_key,
      sample_ctx\<lparr>retrievalMethodCtx :=
        \<lparr>transformPrefs = 0, transformState = 0, result = Some [60, 62]\<rparr>\<rparr>)"
  by (simp add: xmlSecKeyDataRetrievalMethodXmlRead_def
        xmlSecKeyDataRetrievalMethodXmlRead_fetch_def
        xmlSecKeyDataRetrievalMethodReadXmlResult_def xmlDocGetRootElement_def
        xmlSecBufferGetData_def xmlSecBufferGetSize_def INT_MAX_def Let_def
        sample_fetch_env_def sample_typed_retrieval_node_def xmlSecAttrType_def
        xmlSecAttrURI_def xmlSecNodeTransforms_def sample_simps)

lemma sample_nested_run:
  "xmlSecKeyDataRetrievalMethodXmlRead sample_nested_env sample_key sample_typed_retrieval_node
     (sample_ctx\<lparr>maxRetrievalMethodLevel := 2\<rparr>)
   = (0, sample_key,
      sample_ctx\<lparr>maxRetrievalMethodLevel := 2, curRetrievalMethodLevel := 1,
        retrievalMethodCtx :=
          \<lparr>transformPrefs = 0, transformState = 0, result = Some [60, 62]\<rparr>\<rparr>)"
  by (simp add: xmlSecKeyDataRetrievalMethodXmlRead_def
        xmlSecKeyDataRetrievalMethodXmlRead_fetch_def
        xmlSecKeyDataRetrievalMethodReadXmlResult_def xmlDocGetRootElement_def
        xmlSecBufferGetData_def xmlSecBufferGetSize_def INT_MAX_def Let_def
        sample_nested_env_def sample_typed_retrieval_node_def sample_retrieval_node_def
        xmlSecAttrType_def xmlSecAttrURI_def xmlSecNodeTransforms_def sample_simps)

lemma sample_nested_dispatch:
  "xmlSecKeyDataXmlRead sample_nested_env xmlSecKeyDataRetrievalMethodKlass sample_key
     sample_retrieval_node
     (sample_ctx\<lparr>maxRetrievalMethodLevel := 2, curRetrievalMethodLevel := 1,
        retrievalMethodCtx :=
          \<lparr>transformPrefs = 0, transformState = 0, result = Some [60, 62]\<rparr>\<rparr>)
   = (0, sample_key,
      sample_ctx\<lparr>maxRetrievalMethodLevel := 2, curRetrievalMethodLevel := 2,
        retrievalMethodCtx :=
          \<lparr>transformPrefs = 0, transformState = 0, result = Some [60, 62]\<rparr>\<rparr>)"
  by (simp add: xmlSecKeyDataRetrievalMethodXmlRead_def Let_def
        sample_nested_env_def sample_retrieval_node_def
        xmlSecAttrType_def sample_simps)

theorem C2_recursion_levels_witness:
  "mode (sample_ctx\<lparr>maxRetrievalMethodLevel := 2\<rparr>) = xmlSecKeyInfoModeRead
   \<and> nodeDoc sample_nested_env sample_typed_retrieval_node = Some []
   \<and> xmlSecKeyDataRetrievalMethodXmlRead sample_nested_env sample_key
        sample_typed_retrieval_node
        (sample_ctx\<lparr>maxRetrievalMethodLevel := 2, curRetrievalMethodLevel := 2\<rparr>)
       = (-1, sample_key,
          sample_ctx\<lparr>maxRetrievalMethodLevel := 2, curRetrievalMethodLevel := 2\<rparr>)
   \<and> curRetrievalMethodLevel (sample_ctx\<lparr>maxRetrievalMethodLevel := 2\<rparr>) = 0
   \<and> xmlSecKeyDataRetrievalMethodXmlRead
        (only_at_retrieval_level 1 sample_nested_env) sample_key sample_typed_retrieval_node
        (sample_ctx\<lparr>maxRetrievalMethodLevel := 2\<rparr>)
       = (0, sample_key,
          sample_ctx\<lparr>maxRetrievalMethodLevel := 2, curRetrievalMethodLevel := 1,
            retrievalMethodCtx :=
              \<lparr>transformPrefs = 0, transformState = 0, result = Some [60, 62]\<rparr>\<rparr>)
   \<and> xmlSecKeyDataRetrievalMethodXmlRead sample_nested_env sample_key
        sample_typed_retrieval_node (sample_ctx\<lparr>maxRetrievalMethodLevel := 2\<rparr>)
       = (0, sample_key,
          sample_ctx\<lparr>maxRetrievalMethodLevel := 2, curRetrievalMethodLevel := 1,
            retrievalMethodCtx :=
              \<lparr>transformPrefs = 0, transformState = 0, result = Some [60, 62]\<rparr>\<rparr>)
   \<and> xmlSecKeyDataXmlRead sample_nested_env xmlSecKeyDataRetrievalMethodKlass sample_key
        sample_retrieval_node
        (sample_ctx\<lparr>maxRetrievalMethodLevel := 2, curRetrievalMethodLevel := 1,
           retrievalMethodCtx :=
             \<lparr>transformPrefs = 0, transformState = 0, result = Some [60, 62]\<rparr>\<rparr>)
       = (0, sample_key,
          sample_ctx\<lparr>maxRetrievalMethodLevel := 2, curRetrievalMethodLevel := 2,
            retrievalMethodCtx :=
              \<lparr>transformPrefs = 0, transformState = 0, result = Some [60, 62]\<rparr>\<rparr>)
   \<and> xmlSecKeyDataRetrievalMethodXmlRead sample_fetch_env sample_key
        sample_typed_retrieval_node sample_ctx
       = (0, sample_rsa_key,
          sample_ctx\<lparr>retrievalMethodCtx :=
            \<lparr>transformPrefs = 0, transformState = 0, result = Some [60, 62]\<rparr>\<rparr>)
   \<and> curEncryptedKeyLevel (snd (snd (xmlSecKeyDataDerivedKeyXmlRead sample_nested_env
         sample_key sample_typed_retrieval_node (sample_ctx\<lparr>maxRetrievalMethodLevel := 2\<rparr>))))
       = 0"
proof -
  have rd: "\<And>l. mode (sample_ctx\<lparr>maxRetrievalMethodLevel := 2, curRetrievalMethodLevel := l\<rparr>)
                  = xmlSecKeyInfoModeRead"
    by (simp add: sample_simps)
  have doc: "nodeDoc sample_nested_env sample_typed_retrieval_node = Some []"
    by (simp add: sample_nested_env_def sample_simps)
  have base_x: "\<forall>d k n c. curRetrievalMethodLevel c
        \<le> curRetrievalMethodLevel (snd (snd (xmlSecKeyDataXmlRead sample_env0 d k n c)))"
    and base_b: "\<forall>d k b sz c. curRetrievalMethodLevel c
        \<le> curRetrievalMethodLevel (snd (snd (xmlSecKeyDataBinRead sample_env0 d k b sz c)))"
    and base_xk: "\<forall>d k n c. curKeyInfoReferenceLevel
                    (snd (snd (xmlSecKeyDataXmlRead sample_env0 d k n c)))
                  = curKeyInfoReferenceLevel c"
    and base_bk: "\<forall>d k b sz c. curKeyInfoReferenceLevel
                    (snd (snd (xmlSecKeyDataBinRead sample_env0 d k b sz c)))
                  = curKeyInfoReferenceLevel c"
    by (simp_all add: sample_env0_def split: option.splits)
  have own: "\<And>k n c. curRetrievalMethodLevel c
        \<le> curRetrievalMethodLevel
             (snd (snd (xmlSecKeyDataRetrievalMethodXmlRead sample_env0 k n c)))"
  proof -
    fix k n c
    obtain r k' c' where x: "xmlSecKeyDataRetrievalMethodXmlRead sample_env0 k n c = (r, k', c')"
      by (cases "xmlSecKeyDataRetrievalMethodXmlRead sample_env0 k n c") auto
    from RetrievalMethodXmlRead_never_lowers [OF base_x base_b x]
    show "curRetrievalMethodLevel c
        \<le> curRetrievalMethodLevel
             (snd (snd (xmlSecKeyDataRetrievalMethodXmlRead sample_env0 k n c)))"
      using x by simp
  qed
  note own_k = RetrievalMethodXmlRead_keeps_reference_level [OF base_xk base_bk]
  have mxr: "\<forall>d k n c.
      curRetrievalMethodLevel c
        \<le> curRetrievalMethodLevel (snd (snd (xmlSecKeyDataXmlRead sample_nested_env d k n c)))"
    using own base_x by (simp add: sample_nested_env_def)
  have mbr: "\<forall>d k b sz c.
      curRetrievalMethodLevel c
        \<le> curRetrievalMethodLevel (snd (snd (xmlSecKeyDataBinRead sample_nested_env d k b sz c)))"
    using base_b by (simp add: sample_nested_env_def)
  have hxk: "\<forall>d k n c.
      curKeyInfoReferenceLevel c
        \<le> curKeyInfoReferenceLevel (snd (snd (xmlSecKeyDataXmlRead sample_nested_env d k n c)))
      \<and> (0 \<le> fst (xmlSecKeyDataXmlRead sample_nested_env d k n c) \<longrightarrow>
           curKeyInfoReferenceLevel (snd (snd (xmlSecKeyDataXmlRead sample_nested_env d k n c)))
             = curKeyInfoReferenceLevel c)"
    using own_k base_xk by (simp add: sample_nested_env_def)
  have hbe: "\<forall>d k b sz c.
      curEncryptedKeyLevel c
        \<le> curEncryptedKeyLevel (snd (snd (xmlSecKeyDataBinRead sample_nested_env d k b sz c)))
      \<and> (0 \<le> fst (xmlSecKeyDataBinRead sample_nested_env d k b sz c) \<longrightarrow>
           curEncryptedKeyLevel (snd (snd (xmlSecKeyDataBinRead sample_nested_env d k b sz c)))
             = curEncryptedKeyLevel c)"
    by (simp add: sample_nested_env_def sample_env0_def split: option.splits)
  have hgd: "\<forall>e d n c. curEncryptedKeyLevel
                 (snd (xmlSecEncCtxDerivedKeyGenerate sample_nested_env e d n c))
               = curEncryptedKeyLevel c"
    by (simp add: sample_nested_env_def sample_env0_def)
  have hga: "\<forall>e d n c. curEncryptedKeyLevel
                 (snd (xmlSecEncCtxAgreementMethodGenerate sample_nested_env e d n c))
               = curEncryptedKeyLevel c"
    by (simp add: sample_nested_env_def sample_env0_def)
  note full = C2_recursion_levels [OF rd doc mxr mbr hxk hbe hgd hga, where key = sample_key]
  have same: "sample_ctx\<lparr>maxRetrievalMethodLevel := 2, curRetrievalMethodLevel := 0\<rparr>
                = sample_ctx\<lparr>maxRetrievalMethodLevel := 2\<rparr>"
    by (simp add: sample_ctx_def)
  have lv: "curRetrievalMethodLevel (sample_ctx\<lparr>maxRetrievalMethodLevel := 2\<rparr>) = 0"
    "curEncryptedKeyLevel (sample_ctx\<lparr>maxRetrievalMethodLevel := 2\<rparr>) = 0"
    by (simp_all add: sample_ctx_def)
  have lv0: "curRetrievalMethodLevel sample_ctx = 0"
    by (simp add: sample_ctx_def)
  have exceeded: "xmlSecKeyDataRetrievalMethodXmlRead sample_nested_env sample_key
        sample_typed_retrieval_node
        (sample_ctx\<lparr>maxRetrievalMethodLevel := 2, curRetrievalMethodLevel := 2\<rparr>)
       = (-1, sample_key,
          sample_ctx\<lparr>maxRetrievalMethodLevel := 2, curRetrievalMethodLevel := 2\<rparr>)"
    using full [of 2, THEN conjunct1] by simp
  have guarded: "xmlSecKeyDataRetrievalMethodXmlRead
        (only_at_retrieval_level 1 sample_nested_env) sample_key sample_typed_retrieval_node
        (sample_ctx\<lparr>maxRetrievalMethodLevel := 2\<rparr>)
       = xmlSecKeyDataRetrievalMethodXmlRead sample_nested_env sample_key
           sample_typed_retrieval_node (sample_ctx\<lparr>maxRetrievalMethodLevel := 2\<rparr>)"
    using full [of 0, THEN conjunct2, THEN conjunct1] same lv0 by simp
  have derived: "curEncryptedKeyLevel (snd (snd (xmlSecKeyDataDerivedKeyXmlRead sample_nested_env
         sample_key sample_typed_retrieval_node (sample_ctx\<lparr>maxRetrievalMethodLevel := 2\<rparr>))))
       = 0"
    using full [of 0] same lv by simp
  show ?thesis
    using rd [of 0] doc exceeded lv guarded sample_nested_run sample_nested_dispatch
      sample_fetch_run derived same
    by simp
qed

text \<open>
  The claim as it stands fails for EncryptedKey read: with
  \<^verbatim>\<open>ENCKEY_DONT_STOP_ON_FAILED_DECRYPTION\<close> set, a failed decryption is an error
  return, and the level is at its entry value, not incremented.
\<close>

theorem C2_recursion_levels_counterexample:
  "curEncryptedKeyLevel (sample_ctx\<lparr>flags := 0x1000\<rparr>)
     < maxEncryptedKeyLevel (sample_ctx\<lparr>flags := 0x1000\<rparr>)
   \<and> fst (xmlSecKeyDataEncryptedKeyXmlRead sample_env0 sample_key sample_enc_node
            (sample_ctx\<lparr>flags := 0x1000\<rparr>)) = -1
   \<and> curEncryptedKeyLevel (snd (snd (xmlSecKeyDataEncryptedKeyXmlRead sample_env0 sample_key
            sample_enc_node (sample_ctx\<lparr>flags := 0x1000\<rparr>))))
       = curEncryptedKeyLevel (sample_ctx\<lparr>flags := 0x1000\<rparr>)"
  by (simp add: xmlSecKeyDataEncryptedKeyXmlRead_def xmlSecKeyInfoCtx_prepareEncCtx_def
        xmlSecKeyInfoCtxCreateEncCtx_def xmlSecKeyInfoCtxCopyUserPref_def
        xmlSecPtrListCopy_def Let_def sample_env0_def sample_ctx_def
        XMLSEC_KEYINFO_FLAGS_ENCKEY_DONT_STOP_ON_FAILED_DECRYPTION_def)














end
